(* ===== verification/Prelude.thy ===== *)
theory Prelude
  imports Main
begin

text \<open>
  Shared vocabulary of the bookstore development. The application keeps every entity in a
  SQL table (SQLAlchemy models of \<open>src/models.py\<close>); a table is modelled as the list of its
  rows in insertion order, each row carrying its integer primary key. A query by primary
  key (\<open>Model.query.get\<close>, \<open>get_or_404\<close>) is \<open>find_key\<close>, an attribute write on a
  loaded row followed by \<open>db.session.commit()\<close> is \<open>update_key\<close>, and
  \<open>db.session.delete\<close> is \<open>delete_key\<close>. Lists keep the sums that the inventory
  invariant needs executable. The lemmas below are the generic facts about these three
  operations on tables with distinct keys that every component uses.
\<close>

type_synonym user_id = nat
type_synonym book_id = nat
type_synonym order_id = nat
type_synonym cart_id = nat
type_synonym request_id = nat

named_theorems table_simps \<open>evaluation rules for the table operations\<close>

definition find_key :: "('a \<Rightarrow> nat) \<Rightarrow> nat \<Rightarrow> 'a list \<Rightarrow> 'a option" where
  "find_key k i xs = find (\<lambda>x. k x = i) xs"

definition update_key :: "('a \<Rightarrow> nat) \<Rightarrow> nat \<Rightarrow> ('a \<Rightarrow> 'a) \<Rightarrow> 'a list \<Rightarrow> 'a list" where
  "update_key k i f xs = map (\<lambda>x. if k x = i then f x else x) xs"

definition delete_key :: "('a \<Rightarrow> nat) \<Rightarrow> nat \<Rightarrow> 'a list \<Rightarrow> 'a list" where
  "delete_key k i xs = filter (\<lambda>x. k x \<noteq> i) xs"

text \<open>A table is well keyed when its keys are distinct and below the next free key.\<close>

definition keys_ok :: "('a \<Rightarrow> nat) \<Rightarrow> 'a list \<Rightarrow> nat \<Rightarrow> bool" where
  "keys_ok k xs n \<longleftrightarrow> distinct (map k xs) \<and> (\<forall>x\<in>set xs. k x < n)"

subsection \<open>Evaluation on concrete tables\<close>

lemma find_key_Nil [table_simps]: "find_key k i [] = None"
  by (simp add: find_key_def)

lemma find_key_Cons [table_simps]:
  "find_key k i (x # xs) = (if k x = i then Some x else find_key k i xs)"
  by (simp add: find_key_def)

lemma update_key_Nil [table_simps]: "update_key k i f [] = []"
  by (simp add: update_key_def)

lemma update_key_Cons [table_simps]:
  "update_key k i f (x # xs) = (if k x = i then f x else x) # update_key k i f xs"
  by (simp add: update_key_def)

lemma delete_key_Nil [table_simps]: "delete_key k i [] = []"
  by (simp add: delete_key_def)

lemma delete_key_Cons [table_simps]:
  "delete_key k i (x # xs) = (if k x = i then delete_key k i xs else x # delete_key k i xs)"
  by (simp add: delete_key_def)

subsection \<open>Lookup\<close>

lemma find_key_SomeD [dest]:
  "find_key k i xs = Some x \<Longrightarrow> x \<in> set xs \<and> k x = i"
  by (auto simp: find_key_def dest: find_Some_iff [THEN iffD1] simp: in_set_conv_nth)

lemma find_key_None_iff:
  "find_key k i xs = None \<longleftrightarrow> (\<forall>x\<in>set xs. k x \<noteq> i)"
  by (induction xs) (auto simp: table_simps)

lemma find_key_in_set:
  "x \<in> set xs \<Longrightarrow> k x = i \<Longrightarrow> \<exists>y. find_key k i xs = Some y"
  using find_key_None_iff by (metis not_None_eq)

text \<open>With distinct keys the row found is the only row with that key.\<close>

lemma find_key_unique:
  assumes "distinct (map k xs)" "find_key k i xs = Some y" "x \<in> set xs" "k x = i"
  shows "x = y"
proof -
  from assms(2) have "y \<in> set xs" "k y = i" by auto
  with assms(1,3,4) show ?thesis by (metis inj_on_contraD distinct_map)
qed

lemma find_key_of_mem:
  assumes "distinct (map k xs)" "x \<in> set xs"
  shows "find_key k (k x) xs = Some x"
proof -
  obtain y where y: "find_key k (k x) xs = Some y"
    using find_key_in_set [OF assms(2) refl] by blast
  have "x = y" by (rule find_key_unique [OF assms(1) y assms(2) refl])
  with y show ?thesis by simp
qed

lemma find_key_update_key_same:
  "find_key k i xs = Some x \<Longrightarrow> (\<And>y. k (f y) = k y) \<Longrightarrow>
   find_key k i (update_key k i f xs) = Some (f x)"
  by (induction xs) (auto simp: table_simps)

lemma find_key_update_key_other:
  "j \<noteq> i \<Longrightarrow> (\<And>y. k (f y) = k y) \<Longrightarrow>
   find_key k j (update_key k i f xs) = find_key k j xs"
  by (induction xs) (auto simp: table_simps)

lemma find_key_filter:
  "find_key k i xs = Some x \<Longrightarrow> P x \<Longrightarrow> find_key k i (filter P xs) = Some x"
  by (induction xs) (auto simp: table_simps split: if_splits)

lemma filter_update_key:
  "(\<And>y. P (f y) = P y) \<Longrightarrow> filter P (update_key k i f xs) = update_key k i f (filter P xs)"
  by (induction xs) (auto simp: table_simps)

lemma update_key_update_key:
  "(\<And>y. k (f y) = k y) \<Longrightarrow> update_key k i g (update_key k i f xs) = update_key k i (g \<circ> f) xs"
  by (induction xs) (auto simp: table_simps)

lemma update_key_id:
  "(\<And>x. x \<in> set xs \<Longrightarrow> k x = i \<Longrightarrow> f x = x) \<Longrightarrow> update_key k i f xs = xs"
  by (induction xs) (auto simp: table_simps)

lemma update_key_fixed:
  assumes "distinct (map k xs)" "find_key k i xs = Some y" "f y = y"
  shows "update_key k i f xs = xs"
proof (rule update_key_id)
  fix x assume "x \<in> set xs" "k x = i"
  from find_key_unique [OF assms(1,2) this] assms(3) show "f x = x" by simp
qed

lemma update_key_mem_same:
  "a \<in> set (update_key k i f xs) \<Longrightarrow> k a = i \<Longrightarrow> (\<And>y. k (f y) = k y) \<Longrightarrow> a \<in> f ` set xs"
  by (auto simp: update_key_def split: if_splits)

lemma update_key_mem_other:
  "a \<in> set (update_key k i f xs) \<Longrightarrow> k a \<noteq> i \<Longrightarrow> (\<And>y. k (f y) = k y) \<Longrightarrow> a \<in> set xs"
  by (auto simp: update_key_def split: if_splits)

lemma find_key_map:
  "(\<And>x. k (g x) = k x) \<Longrightarrow> find_key k i (map g xs) = map_option g (find_key k i xs)"
  by (induction xs) (auto simp: table_simps)

lemma find_append_None:
  "find P xs = None \<Longrightarrow> find P (xs @ ys) = find P ys"
  by (induction xs) auto

lemma find_key_delete_key_other:
  "j \<noteq> i \<Longrightarrow> find_key k j (delete_key k i xs) = find_key k j xs"
  by (induction xs) (auto simp: table_simps)

lemma find_key_delete_key_same: "find_key k i (delete_key k i xs) = None"
  by (simp add: find_key_None_iff delete_key_def)

lemma delete_key_fresh: "\<forall>x\<in>set xs. k x \<noteq> i \<Longrightarrow> delete_key k i xs = xs"
  by (simp add: delete_key_def)

lemma find_key_append_fresh:
  "\<forall>x\<in>set xs. k x \<noteq> k y \<Longrightarrow> find_key k (k y) (xs @ [y]) = Some y"
  by (induction xs) (auto simp: table_simps)

subsection \<open>Keys after update, delete and append\<close>

lemma map_update_key_inv [simp]:
  "(\<And>y. g (f y) = g y) \<Longrightarrow> map g (update_key k i f xs) = map g xs"
  by (induction xs) (auto simp: table_simps)

lemma set_update_key:
  "set (update_key k i f xs) = {f x |x. x \<in> set xs \<and> k x = i} \<union> {x \<in> set xs. k x \<noteq> i}"
  by (auto simp: update_key_def)

lemma set_delete_key [simp]: "set (delete_key k i xs) = {x \<in> set xs. k x \<noteq> i}"
  by (auto simp: delete_key_def)

lemma distinct_map_delete_key [simp]:
  "distinct (map k xs) \<Longrightarrow> distinct (map k (delete_key k i xs))"
  by (simp add: delete_key_def distinct_map_filter)

lemma distinct_map_update_key:
  assumes "\<And>x. g (f x) = v" "\<forall>x\<in>set xs. k x \<noteq> i \<longrightarrow> g x \<noteq> v"
    and "distinct (map k xs)" "distinct (map g xs)"
  shows "distinct (map g (update_key k i f xs))"
  using assms(2-4)
proof (induction xs)
  case Nil
  then show ?case by (simp add: table_simps)
next
  case (Cons x xs)
  have ih: "distinct (map g (update_key k i f xs))" using Cons by simp
  show ?case
  proof (cases "k x = i")
    case True
    have "k x \<notin> k ` set xs" using Cons.prems(2) by simp
    then have "\<forall>y\<in>set xs. k y \<noteq> i" using True by (auto intro: rev_image_eqI)
    then have "update_key k i f xs = xs" and "v \<notin> g ` set xs"
      using Cons.prems(1) by (auto intro: update_key_id)
    with True Cons.prems(3) assms(1) show ?thesis by (simp add: table_simps)
  next
    case False
    have "g x \<notin> g ` set (update_key k i f xs)"
      using False Cons.prems assms(1) by (auto simp: set_update_key)
    with False ih show ?thesis by (simp add: table_simps)
  qed
qed

lemma keys_ok_update_key [intro]:
  "keys_ok k xs n \<Longrightarrow> (\<And>y. k (f y) = k y) \<Longrightarrow> keys_ok k (update_key k i f xs) n"
  by (auto simp: keys_ok_def set_update_key)

lemma keys_ok_map: "keys_ok k xs n \<longleftrightarrow> distinct (map k xs) \<and> (\<forall>y\<in>set (map k xs). y < n)"
  by (auto simp: keys_ok_def)

lemma keys_ok_update_key_iff [simp]:
  assumes "\<And>y. k (f y) = k y"
  shows "keys_ok k (update_key k i f xs) n = keys_ok k xs n"
proof -
  have "map k (update_key k i f xs) = map k xs" using assms by simp
  then show ?thesis by (simp only: keys_ok_map)
qed

lemma keys_ok_delete_key [intro]:
  "keys_ok k xs n \<Longrightarrow> keys_ok k (delete_key k i xs) n"
  by (auto simp: keys_ok_def)

lemma keys_ok_append_fresh [intro]:
  "keys_ok k xs n \<Longrightarrow> k x = n \<Longrightarrow> keys_ok k (xs @ [x]) (Suc n)"
  by (auto simp: keys_ok_def)

lemma keys_ok_distinct: "keys_ok k xs n \<Longrightarrow> distinct (map k xs)"
  by (simp add: keys_ok_def)

subsection \<open>Sums over tables\<close>

text \<open>
  The inventory invariant sums a quantity over the rows of a table. An update of the
  unique row with key \<open>i\<close> replaces its summand; a delete removes it.
\<close>

lemma sum_list_update_key:
  fixes g :: "'a \<Rightarrow> 'b::ab_group_add"
  assumes "distinct (map k xs)" "find_key k i xs = Some x"
  shows "sum_list (map g (update_key k i f xs)) = sum_list (map g xs) - g x + g (f x)"
  using assms
proof (induction xs)
  case Nil
  then show ?case by (simp add: table_simps)
next
  case (Cons y ys)
  show ?case
  proof (cases "k y = i")
    case True
    with Cons.prems have "x = y" by (simp add: table_simps)
    moreover from True Cons.prems(1) have "\<forall>z\<in>set ys. k z \<noteq> i" by (auto simp: image_iff)
    then have "update_key k i f ys = ys" by (simp add: update_key_def map_idI)
    ultimately show ?thesis using True by (simp add: table_simps algebra_simps)
  next
    case False
    with Cons show ?thesis by (simp add: table_simps algebra_simps)
  qed
qed

lemma sum_list_delete_key:
  fixes g :: "'a \<Rightarrow> 'b::ab_group_add"
  assumes "distinct (map k xs)" "find_key k i xs = Some x"
  shows "sum_list (map g (delete_key k i xs)) = sum_list (map g xs) - g x"
  using assms
proof (induction xs)
  case Nil
  then show ?case by (simp add: table_simps)
next
  case (Cons y ys)
  show ?case
  proof (cases "k y = i")
    case True
    with Cons.prems have "x = y" by (simp add: table_simps)
    moreover from True Cons.prems(1) have "\<forall>z\<in>set ys. k z \<noteq> i" by (auto simp: image_iff)
    then have "delete_key k i ys = ys" by (simp add: delete_key_def)
    ultimately show ?thesis using True by (simp add: table_simps)
  next
    case False
    with Cons show ?thesis by (simp add: table_simps algebra_simps)
  qed
qed

lemma sum_list_zero:
  "(\<And>x. x \<in> set xs \<Longrightarrow> g x = 0) \<Longrightarrow> sum_list (map g xs) = (0::'b::monoid_add)"
  by (induction xs) auto

lemma sum_list_nonneg_int:
  "(\<And>x. x \<in> set xs \<Longrightarrow> 0 \<le> g x) \<Longrightarrow> (0::int) \<le> sum_list (map g xs)"
  by (induction xs) auto

end
