(* ===== verification/PyInt.thy ===== *)
theory PyInt
  imports Prelude
begin

text \<open>
  Form fields reach the handlers of \<open>src/app.py\<close> as strings:
  \<open>int(request.form.get('qty', 1))\<close> in \<open>place_order\<close> and \<open>add_to_cart\<close>, and
  \<open>int(request.form.get('quantity', order.quantity))\<close> in \<open>student_edit_order\<close>.
  This theory models Python's \<open>int(str)\<close> on ASCII input: surrounding whitespace
  (\<open>str.isspace\<close>: codes 9 to 13 and 28 to 32) is stripped, an optional sign follows, then
  decimal digits with single underscores allowed between digits. Anything else raises
  \<open>ValueError\<close>, which is \<open>None\<close> here. \<open>form_int\<close> is \<open>int(form.get(name, default))\<close>:
  a missing field gives the integer default. The theory also models \<open>str(int)\<close> and
  proves that \<open>int\<close> reads back what \<open>str\<close> prints.
\<close>

definition py_isspace :: "char \<Rightarrow> bool" where
  "py_isspace c \<longleftrightarrow> (let n = of_char c :: nat in (9 \<le> n \<and> n \<le> 13) \<or> (28 \<le> n \<and> n \<le> 32))"

definition py_strip :: "string \<Rightarrow> string" where
  "py_strip s = rev (dropWhile py_isspace (rev (dropWhile py_isspace s)))"

definition is_digit :: "char \<Rightarrow> bool" where
  "is_digit c \<longleftrightarrow> (let n = of_char c :: nat in 48 \<le> n \<and> n \<le> 57)"

definition digit_value :: "char \<Rightarrow> int" where
  "digit_value c = int (of_char c) - 48"

text \<open>Digits, with one underscore allowed between two digits (PEP 515).\<close>

fun digits_ok :: "string \<Rightarrow> bool" where
  "digits_ok [] = False"
| "digits_ok [c] = is_digit c"
| "digits_ok (c # d # cs) =
     (is_digit c \<and> (if d = CHR ''_'' then digits_ok cs else digits_ok (d # cs)))"

definition digits_value :: "string \<Rightarrow> int" where
  "digits_value s = foldl (\<lambda>n c. 10 * n + digit_value c) 0 (filter is_digit s)"

definition py_int :: "string \<Rightarrow> int option" where
  "py_int s =
     (case py_strip s of
        [] \<Rightarrow> None
      | c # cs \<Rightarrow>
          if c = CHR ''-'' then (if digits_ok cs then Some (- digits_value cs) else None)
          else if c = CHR ''+'' then (if digits_ok cs then Some (digits_value cs) else None)
          else if digits_ok (c # cs) then Some (digits_value (c # cs)) else None)"

definition form_int :: "string option \<Rightarrow> int \<Rightarrow> int option" where
  "form_int field dflt = (case field of None \<Rightarrow> Some dflt | Some s \<Rightarrow> py_int s)"

subsection \<open>Python's \<open>str\<close> of an integer\<close>

definition digit_char :: "nat \<Rightarrow> char" where
  "digit_char d = char_of (48 + d)"

fun nat_str :: "nat \<Rightarrow> string" where
  "nat_str n = (if n < 10 then [digit_char n] else nat_str (n div 10) @ [digit_char (n mod 10)])"

declare nat_str.simps [simp del]

definition py_str :: "int \<Rightarrow> string" where
  "py_str i = (if i < 0 then CHR ''-'' # nat_str (nat (- i)) else nat_str (nat i))"

subsection \<open>\<open>int(str(i)) = i\<close>\<close>

lemma of_char_digit_char: "d < 10 \<Longrightarrow> (of_char (digit_char d) :: nat) = 48 + d"
  by (simp add: digit_char_def)

lemma is_digit_digit_char: "d < 10 \<Longrightarrow> is_digit (digit_char d)"
  by (simp add: is_digit_def of_char_digit_char)

lemma digit_value_digit_char: "d < 10 \<Longrightarrow> digit_value (digit_char d) = int d"
  by (simp add: digit_value_def of_char_digit_char)

lemma nat_str_digits: "\<forall>c\<in>set (nat_str n). is_digit c"
proof (induction n rule: nat_str.induct)
  case (1 n)
  show ?case
  proof (cases "n < 10")
    case True
    then show ?thesis by (subst nat_str.simps) (simp add: is_digit_digit_char)
  next
    case False
    with 1 show ?thesis by (subst nat_str.simps) (simp add: is_digit_digit_char)
  qed
qed

lemma nat_str_not_Nil: "nat_str n \<noteq> []"
  by (subst nat_str.simps) simp

lemma is_digit_not_special:
  "is_digit c \<Longrightarrow> \<not> py_isspace c \<and> c \<noteq> CHR ''_'' \<and> c \<noteq> CHR ''-'' \<and> c \<noteq> CHR ''+''"
  by (auto simp: is_digit_def py_isspace_def Let_def)

lemma digits_ok_digits: "xs \<noteq> [] \<Longrightarrow> \<forall>c\<in>set xs. is_digit c \<Longrightarrow> digits_ok xs"
  by (induction xs rule: digits_ok.induct) (auto dest: is_digit_not_special)

lemma dropWhile_none: "\<forall>c\<in>set xs. \<not> P c \<Longrightarrow> dropWhile P xs = xs"
  by (cases xs) simp_all

lemma py_strip_id: "\<forall>c\<in>set xs. \<not> py_isspace c \<Longrightarrow> py_strip xs = xs"
  by (simp add: py_strip_def dropWhile_none)

lemma digits_value_nat_str: "digits_value (nat_str n) = int n"
proof (induction n rule: nat_str.induct)
  case (1 n)
  have fil: "filter is_digit (nat_str m) = nat_str m" for m
    using nat_str_digits [of m] by (simp add: filter_id_conv)
  show ?case
  proof (cases "n < 10")
    case True
    then show ?thesis
      by (subst nat_str.simps) (simp add: digits_value_def digit_value_digit_char is_digit_digit_char)
  next
    case False
    then have "digits_value (nat_str n) = 10 * digits_value (nat_str (n div 10)) + int (n mod 10)"
      by (subst nat_str.simps) (simp add: digits_value_def fil is_digit_digit_char digit_value_digit_char)
    moreover have "int n = 10 * int (n div 10) + int (n mod 10)"
      using div_mult_mod_eq [of n 10] by linarith
    ultimately show ?thesis using 1 False by simp
  qed
qed

lemma py_int_py_str: "py_int (py_str i) = Some i"
proof -
  let ?s = "nat_str (nat \<bar>i\<bar>)"
  have dig: "\<forall>c\<in>set ?s. is_digit c" by (rule nat_str_digits)
  have ok: "digits_ok ?s" using dig nat_str_not_Nil by (blast intro: digits_ok_digits)
  have nsp: "\<forall>c\<in>set ?s. \<not> py_isspace c" using dig is_digit_not_special by blast
  have val: "digits_value ?s = \<bar>i\<bar>" by (simp add: digits_value_nat_str)
  show ?thesis
  proof (cases "i < 0")
    case True
    have ps: "py_str i = CHR ''-'' # ?s" using True by (simp add: py_str_def)
    have "\<not> py_isspace CHR ''-''" by (simp add: py_isspace_def)
    with nsp have "py_strip (py_str i) = CHR ''-'' # ?s" unfolding ps by (intro py_strip_id) simp
    with True ok val show ?thesis by (simp add: py_int_def)
  next
    case False
    obtain c cs where cs: "?s = c # cs" using nat_str_not_Nil by (cases ?s) auto
    have ps: "py_str i = ?s" using False by (simp add: py_str_def)
    have st: "py_strip (py_str i) = c # cs" unfolding ps using nsp cs by (simp add: py_strip_id)
    have "c \<noteq> CHR ''-'' \<and> c \<noteq> CHR ''+''" using dig cs is_digit_not_special by auto
    with st ok val cs False show ?thesis by (simp add: py_int_def)
  qed
qed

end
