(* ===== verification/Models.thy ===== *)
theory Models
  imports PyInt
begin

text \<open>
  The data model of \<open>src/models.py\<close>: one record per SQLAlchemy model and one record
  \<open>db\<close> for the whole database, with one list per table and the next primary key of each
  table (SQLite assigns increasing integer keys). String-valued status columns that only
  ever hold a fixed set of literals are datatypes with one constructor per literal.
  Columns the order and cart engine never reads are left out: timestamps
  (\<open>created_at\<close>, \<open>due_date\<close>, \<open>returned_at\<close>, \<open>added_at\<close>), the float columns
  \<open>price\<close> and \<open>fine\<close>, and \<open>payment_id\<close>. The signed-in user
  (\<open>current_user\<close> of Flask-Login) is the record \<open>user\<close>, holding the id and the role
  that the handlers test. The error type lists every early return of the handlers in
  \<open>src/app.py\<close>; a handler returns \<open>Inl e\<close> where the code redirects or aborts before
  \<open>db.session.commit()\<close>, so the database is unchanged on every error path.
\<close>

datatype role = Student | Admin

record user =
  user_id :: user_id
  role :: role

record book =
  book_id :: book_id
  title :: string
  author :: string
  genre :: string
  isbn :: "string option"
  total_copies :: int
  available_copies :: int

datatype order_status = Pending | Approved | Canceled | Returned | Paid

record order =
  order_id :: order_id
  order_user_id :: user_id
  order_book_id :: book_id
  quantity :: int
  status :: order_status
  payment_method :: "string option"
  payment_status :: string

record cart_item =
  cart_id :: cart_id
  cart_user_id :: user_id
  cart_book_id :: book_id
  cart_quantity :: int

datatype request_status = RPending | RApproved | RRejected

record book_request =
  request_id :: request_id
  request_user_id :: user_id
  request_title :: string
  request_author :: string
  request_genre :: string
  reason :: "string option"
  request_status :: request_status

record db =
  books :: "book list"
  orders :: "order list"
  carts :: "cart_item list"
  book_requests :: "book_request list"
  wishlist :: "(user_id \<times> book_id) list"
  next_book_id :: book_id
  next_order_id :: order_id
  next_cart_id :: cart_id
  next_request_id :: request_id

datatype error =
    NotFound          \<comment> \<open>\<open>get_or_404\<close>: HTTP 404\<close>
  | Forbidden         \<comment> \<open>\<open>jsonify({'error': ...}), 403\<close>\<close>
  | NotAuthorized     \<comment> \<open>role or owner check failed: redirect\<close>
  | NotEnoughCopies   \<comment> \<open>flash 'Not enough copies available'\<close>
  | NotPending        \<comment> \<open>flash 'Only pending orders can be edited/canceled'\<close>
  | InvalidQuantity   \<comment> \<open>\<open>ValueError\<close> caught: flash 'Invalid quantity'\<close>
  | OutOfRange        \<comment> \<open>flash 'Quantity out of range'\<close>
  | CartEmpty         \<comment> \<open>flash 'Cart is empty'\<close>
  | InvalidForm       \<comment> \<open>\<open>form.validate_on_submit()\<close> failed: form re-rendered\<close>
  | ServerError       \<comment> \<open>uncaught exception: HTTP 500, session not committed\<close>
  | SignedIn          \<comment> \<open>\<open>current_user.is_authenticated\<close>: redirect to the index\<close>
  | EmailTaken        \<comment> \<open>flash 'Email already registered'\<close>
  | InvalidLogin      \<comment> \<open>flash 'Invalid email or password'\<close>
  | InvalidToken      \<comment> \<open>\<open>s.loads\<close> raised: flash 'Invalid or expired link'\<close>
  | BadRequest        \<comment> \<open>\<open>request.form[key]\<close> with no such key: HTTP 400\<close>

subsection \<open>Row access\<close>

text \<open>\<open>Book.query.get_or_404(book_id)\<close> and its kin.\<close>

definition get_book :: "db \<Rightarrow> book_id \<Rightarrow> book option" where
  "get_book d i = find_key book_id i (books d)"

definition get_order :: "db \<Rightarrow> order_id \<Rightarrow> order option" where
  "get_order d i = find_key order_id i (orders d)"

definition get_cart :: "db \<Rightarrow> cart_id \<Rightarrow> cart_item option" where
  "get_cart d i = find_key cart_id i (carts d)"

definition get_request :: "db \<Rightarrow> request_id \<Rightarrow> book_request option" where
  "get_request d i = find_key request_id i (book_requests d)"

text \<open>
  \<open>book.available_copies = v\<close> on a loaded row: SQLAlchemy computes the new value in
  Python and writes it with \<open>UPDATE book SET available_copies = v\<close>, so the model writes
  an absolute value, not a delta (this matters for the interleavings of
  \<open>Concurrency\<close>).
\<close>

definition set_available :: "book_id \<Rightarrow> int \<Rightarrow> db \<Rightarrow> db" where
  "set_available i v d = d\<lparr>books := update_key book_id i (\<lambda>b. b\<lparr>available_copies := v\<rparr>) (books d)\<rparr>"

definition update_order :: "order_id \<Rightarrow> (order \<Rightarrow> order) \<Rightarrow> db \<Rightarrow> db" where
  "update_order i f d = d\<lparr>orders := update_key order_id i f (orders d)\<rparr>"

definition update_cart :: "cart_id \<Rightarrow> (cart_item \<Rightarrow> cart_item) \<Rightarrow> db \<Rightarrow> db" where
  "update_cart i f d = d\<lparr>carts := update_key cart_id i f (carts d)\<rparr>"

definition delete_cart :: "cart_id \<Rightarrow> db \<Rightarrow> db" where
  "delete_cart i d = d\<lparr>carts := delete_key cart_id i (carts d)\<rparr>"

text \<open>
  \<open>db.session.add(Order(user_id=u, book_id=b, quantity=q, status=s, payment_method=m))\<close>:
  the row gets the next key; \<open>payment_status\<close> takes its column default \<open>'unpaid'\<close>.
\<close>

definition add_order ::
  "user_id \<Rightarrow> book_id \<Rightarrow> int \<Rightarrow> order_status \<Rightarrow> string option \<Rightarrow> db \<Rightarrow> db" where
  "add_order u b q s m d =
     d\<lparr>orders := orders d @
          [\<lparr>order_id = next_order_id d, order_user_id = u, order_book_id = b, quantity = q,
            status = s, payment_method = m, payment_status = ''unpaid''\<rparr>],
       next_order_id := Suc (next_order_id d)\<rparr>"

definition add_cart :: "user_id \<Rightarrow> book_id \<Rightarrow> int \<Rightarrow> db \<Rightarrow> db" where
  "add_cart u b q d =
     d\<lparr>carts := carts d @
          [\<lparr>cart_id = next_cart_id d, cart_user_id = u, cart_book_id = b, cart_quantity = q\<rparr>],
       next_cart_id := Suc (next_cart_id d)\<rparr>"

text \<open>\<open>Cart.query.filter_by(user_id=u, book_id=b).first()\<close>.\<close>

definition find_cart_line :: "db \<Rightarrow> user_id \<Rightarrow> book_id \<Rightarrow> cart_item option" where
  "find_cart_line d u b = find (\<lambda>c. cart_user_id c = u \<and> cart_book_id c = b) (carts d)"

text \<open>\<open>Cart.query.filter_by(user_id=u).all()\<close>.\<close>

definition user_cart :: "db \<Rightarrow> user_id \<Rightarrow> cart_item list" where
  "user_cart d u = filter (\<lambda>c. cart_user_id c = u) (carts d)"

lemmas row_access_defs = get_book_def get_order_def get_cart_def get_request_def
  set_available_def update_order_def update_cart_def delete_cart_def add_order_def add_cart_def
  find_cart_line_def user_cart_def

lemmas py_int_eval = form_int_def py_int_def py_strip_def py_isspace_def is_digit_def
  digits_value_def digit_value_def

end
