(* ===== verification/Ledger.thy ===== *)
theory Ledger
  imports Models
begin

text \<open>
  The inventory ledger: a book's \<open>available_copies\<close> and \<open>total_copies\<close>, and the
  reservation claims held against it. A cart line claims its quantity for as long as it
  exists; an order claims its quantity while its status is \<open>pending\<close> or
  \<open>approved\<close> (spec, section 3). The code has no ledger functions of its own: each
  handler of \<open>src/app.py\<close> reads \<open>available_copies\<close> and writes it back
  (\<open>set_available\<close>). This theory defines the claims, the conservation invariant
  \<open>available + claims = total\<close>, the well-formedness of the tables, and how each row
  operation of \<open>Models\<close> changes the claims; the handler theories use these lemmas only.
\<close>

definition active :: "order_status \<Rightarrow> bool" where
  "active s \<longleftrightarrow> s = Pending \<or> s = Approved"

definition order_claim :: "book_id \<Rightarrow> order \<Rightarrow> int" where
  "order_claim b od = (if order_book_id od = b \<and> active (status od) then quantity od else 0)"

definition cart_claim :: "book_id \<Rightarrow> cart_item \<Rightarrow> int" where
  "cart_claim b c = (if cart_book_id c = b then cart_quantity c else 0)"

definition reserved :: "db \<Rightarrow> book_id \<Rightarrow> int" where
  "reserved d b = sum_list (map (order_claim b) (orders d)) + sum_list (map (cart_claim b) (carts d))"

definition conserved :: "db \<Rightarrow> bool" where
  "conserved d \<longleftrightarrow>
     (\<forall>bk\<in>set (books d). available_copies bk + reserved d (book_id bk) = total_copies bk)"

text \<open>Keys are unique and fresh; at most one cart line per (user, book); the wishlist is a set.\<close>

definition wf_db :: "db \<Rightarrow> bool" where
  "wf_db d \<longleftrightarrow>
     keys_ok book_id (books d) (next_book_id d) \<and>
     keys_ok order_id (orders d) (next_order_id d) \<and>
     keys_ok cart_id (carts d) (next_cart_id d) \<and>
     keys_ok request_id (book_requests d) (next_request_id d) \<and>
     distinct (map (\<lambda>c. (cart_user_id c, cart_book_id c)) (carts d)) \<and>
     distinct (wishlist d)"

definition positive_claims :: "db \<Rightarrow> bool" where
  "positive_claims d \<longleftrightarrow>
     (\<forall>od\<in>set (orders d). 0 < quantity od) \<and> (\<forall>c\<in>set (carts d). 0 < cart_quantity c)"

definition nonneg_stock :: "db \<Rightarrow> bool" where
  "nonneg_stock d \<longleftrightarrow> (\<forall>bk\<in>set (books d). 0 \<le> available_copies bk)"

definition stock_ok :: "db \<Rightarrow> bool" where
  "stock_ok d \<longleftrightarrow>
     (\<forall>bk\<in>set (books d). 0 \<le> available_copies bk \<and> available_copies bk \<le> total_copies bk)"

definition inventory_inv :: "db \<Rightarrow> bool" where
  "inventory_inv d \<longleftrightarrow> wf_db d \<and> conserved d \<and> positive_claims d \<and> nonneg_stock d"

lemmas ledger_defs = active_def order_claim_def cart_claim_def reserved_def conserved_def
  wf_db_def positive_claims_def nonneg_stock_def stock_ok_def inventory_inv_def

subsection \<open>Claims under the row operations\<close>

lemma set_available_other_tables [simp]:
  "orders (set_available i v d) = orders d" "carts (set_available i v d) = carts d"
  "book_requests (set_available i v d) = book_requests d"
  "wishlist (set_available i v d) = wishlist d"
  "next_order_id (set_available i v d) = next_order_id d"
  "next_cart_id (set_available i v d) = next_cart_id d"
  "next_book_id (set_available i v d) = next_book_id d"
  "next_request_id (set_available i v d) = next_request_id d"
  by (simp_all add: set_available_def)

lemma reserved_set_available [simp]: "reserved (set_available i v d) b = reserved d b"
  by (simp add: reserved_def set_available_def)

lemma reserved_add_order:
  "reserved (add_order u bk q s m d) b = reserved d b + (if bk = b \<and> active s then q else 0)"
  by (simp add: reserved_def add_order_def order_claim_def)

lemma reserved_add_cart:
  "reserved (add_cart u bk q d) b = reserved d b + (if bk = b then q else 0)"
  by (simp add: reserved_def add_cart_def cart_claim_def)

lemma reserved_update_order:
  assumes "distinct (map order_id (orders d))" "get_order d i = Some od"
  shows "reserved (update_order i f d) b = reserved d b - order_claim b od + order_claim b (f od)"
  using sum_list_update_key [OF assms [unfolded get_order_def], where g = "order_claim b" and f = f]
  by (simp add: reserved_def update_order_def)

lemma reserved_update_cart:
  assumes "distinct (map cart_id (carts d))" "get_cart d i = Some c"
  shows "reserved (update_cart i f d) b = reserved d b - cart_claim b c + cart_claim b (f c)"
  using sum_list_update_key [OF assms [unfolded get_cart_def], where g = "cart_claim b" and f = f]
  by (simp add: reserved_def update_cart_def)

lemma reserved_delete_cart:
  assumes "distinct (map cart_id (carts d))" "get_cart d i = Some c"
  shows "reserved (delete_cart i d) b = reserved d b - cart_claim b c"
  using sum_list_delete_key [OF assms [unfolded get_cart_def]]
  by (simp add: reserved_def delete_cart_def)

subsection \<open>Conservation under a write of \<open>available_copies\<close>\<close>

text \<open>
  The one lemma every handler that touches the ledger uses: if the handler writes \<open>v\<close>
  to the book it read, changes no other book's claims, and the new availability plus the
  new claims equal the old ones, conservation is kept.
\<close>

lemma conserved_set_available:
  assumes cons: "conserved d" and dist: "distinct (map book_id (books d))"
    and bk: "get_book d i = Some bk"
    and books': "books d' = books (set_available i v d)"
    and other: "\<And>b. b \<noteq> i \<Longrightarrow> reserved d' b = reserved d b"
    and same: "v + reserved d' i = available_copies bk + reserved d i"
  shows "conserved d'"
  unfolding conserved_def
proof
  fix bk' assume "bk' \<in> set (books d')"
  then consider (hit) bk0 where "bk0 \<in> set (books d)" "book_id bk0 = i"
      "bk' = bk0\<lparr>available_copies := v\<rparr>"
    | (miss) "bk' \<in> set (books d)" "book_id bk' \<noteq> i"
    using books' by (auto simp: set_available_def set_update_key)
  then show "available_copies bk' + reserved d' (book_id bk') = total_copies bk'"
  proof cases
    case hit
    with dist bk have "bk0 = bk" by (auto simp: get_book_def intro: find_key_unique)
    moreover from bk have "bk \<in> set (books d)" "book_id bk = i" by (auto simp: get_book_def)
    ultimately show ?thesis using hit cons same by (auto simp: conserved_def)
  next
    case miss
    with cons other show ?thesis by (auto simp: conserved_def)
  qed
qed

lemma nonneg_stock_set_available:
  "nonneg_stock d \<Longrightarrow> 0 \<le> v \<Longrightarrow> nonneg_stock (set_available i v d)"
  by (auto simp: nonneg_stock_def set_available_def set_update_key)

lemma book_set_available:
  "get_book d i = Some bk \<Longrightarrow> get_book (set_available i v d) i = Some (bk\<lparr>available_copies := v\<rparr>)"
  by (simp add: get_book_def set_available_def find_key_update_key_same)

lemma book_set_available_other:
  "j \<noteq> i \<Longrightarrow> get_book (set_available i v d) j = get_book d j"
  by (simp add: get_book_def set_available_def find_key_update_key_other)

subsection \<open>Well-formedness under the row operations\<close>

lemma wf_db_set_available [simp]: "wf_db (set_available i v d) = wf_db d"
  by (simp add: wf_db_def set_available_def)

lemma wf_db_add_order: "wf_db d \<Longrightarrow> wf_db (add_order u b q s m d)"
  by (auto simp: wf_db_def add_order_def)

lemma wf_db_update_order:
  "wf_db d \<Longrightarrow> (\<And>od. order_id (f od) = order_id od) \<Longrightarrow> wf_db (update_order i f d)"
  by (auto simp: wf_db_def update_order_def)

lemma wf_db_update_cart:
  assumes "wf_db d" "\<And>c. cart_id (f c) = cart_id c"
    "\<And>c. cart_user_id (f c) = cart_user_id c" "\<And>c. cart_book_id (f c) = cart_book_id c"
  shows "wf_db (update_cart i f d)"
proof -
  have "map (\<lambda>c. (cart_user_id c, cart_book_id c)) (update_key cart_id i f (carts d))
        = map (\<lambda>c. (cart_user_id c, cart_book_id c)) (carts d)"
    using assms(3,4) by (intro map_update_key_inv) simp
  with assms show ?thesis by (auto simp: wf_db_def update_cart_def)
qed

lemma wf_db_delete_cart:
  assumes "wf_db d"
  shows "wf_db (delete_cart i d)"
proof -
  from assms have "keys_ok cart_id (delete_key cart_id i (carts d)) (next_cart_id d)"
    by (intro keys_ok_delete_key) (simp add: wf_db_def)
  moreover from assms
  have "distinct (map (\<lambda>c. (cart_user_id c, cart_book_id c)) (delete_key cart_id i (carts d)))"
    by (simp add: wf_db_def delete_key_def distinct_map_filter)
  ultimately show ?thesis using assms by (simp add: wf_db_def delete_cart_def)
qed

lemma wf_db_add_cart:
  "wf_db d \<Longrightarrow> find_cart_line d u b = None \<Longrightarrow> wf_db (add_cart u b q d)"
  by (auto simp: wf_db_def add_cart_def find_cart_line_def find_None_iff)

lemma positive_claims_set_available [simp]:
  "positive_claims (set_available i v d) = positive_claims d"
  by (simp add: positive_claims_def set_available_def)

lemma get_cart_of_line:
  assumes "wf_db d" "find_cart_line d u b = Some c"
  shows "get_cart d (cart_id c) = Some c" "cart_user_id c = u" "cart_book_id c = b"
proof -
  from assms(2) have "c \<in> set (carts d)" "cart_user_id c = u" "cart_book_id c = b"
    by (auto simp: find_cart_line_def find_Some_iff in_set_conv_nth)
  moreover from assms(1) have "distinct (map cart_id (carts d))"
    by (simp add: wf_db_def keys_ok_def)
  ultimately show "get_cart d (cart_id c) = Some c" "cart_user_id c = u" "cart_book_id c = b"
    by (simp_all add: get_cart_def find_key_of_mem)
qed

lemma wf_db_distinct:
  assumes "wf_db d"
  shows "distinct (map book_id (books d))" "distinct (map order_id (orders d))"
    "distinct (map cart_id (carts d))"
  using assms by (simp_all add: wf_db_def keys_ok_def)

subsection \<open>The ledger bounds follow from the invariant\<close>

lemma reserved_nonneg:
  assumes "positive_claims d"
  shows "0 \<le> reserved d b"
proof -
  have "0 \<le> sum_list (map (order_claim b) (orders d))"
    using assms by (intro sum_list_nonneg_int) (auto simp: order_claim_def positive_claims_def)
  moreover have "0 \<le> sum_list (map (cart_claim b) (carts d))"
    using assms by (intro sum_list_nonneg_int) (auto simp: cart_claim_def positive_claims_def)
  ultimately show ?thesis by (simp add: reserved_def)
qed

lemma inventory_inv_stock_ok:
  assumes "inventory_inv d"
  shows "stock_ok d"
  unfolding stock_ok_def
proof
  fix bk assume bk: "bk \<in> set (books d)"
  from assms have "positive_claims d" by (simp add: inventory_inv_def)
  then have "0 \<le> reserved d (book_id bk)" by (rule reserved_nonneg)
  with assms bk show "0 \<le> available_copies bk \<and> available_copies bk \<le> total_copies bk"
    by (fastforce simp: inventory_inv_def conserved_def nonneg_stock_def)
qed


subsection \<open>One step of the inventory invariant\<close>

text \<open>
  The proof obligation shared by every handler that writes \<open>available_copies\<close> of one
  book: the new state is well formed, its claims are positive, no other book's claims
  move, the written value is not negative, and value plus claims of the book are unchanged.
\<close>

lemma inventory_inv_step:
  assumes inv: "inventory_inv d" and bk: "get_book d i = Some bk"
    and books': "books d' = books (set_available i v d)"
    and wf': "wf_db d'" and pos': "positive_claims d'"
    and other: "\<And>b. b \<noteq> i \<Longrightarrow> reserved d' b = reserved d b"
    and same: "v + reserved d' i = available_copies bk + reserved d i"
    and v: "0 \<le> v"
  shows "inventory_inv d'"
proof -
  from inv have "conserved d" "wf_db d" "nonneg_stock d" by (simp_all add: inventory_inv_def)
  have "conserved d'"
    by (rule conserved_set_available [OF \<open>conserved d\<close> wf_db_distinct(1) [OF \<open>wf_db d\<close>]
          bk books' other same])
  moreover have "nonneg_stock d'"
    using nonneg_stock_set_available [OF \<open>nonneg_stock d\<close> v, of i] books'
    by (simp add: nonneg_stock_def)
  ultimately show ?thesis using wf' pos' by (simp add: inventory_inv_def)
qed

lemma positive_claims_add_order:
  "positive_claims d \<Longrightarrow> 0 < q \<Longrightarrow> positive_claims (add_order u b q s m d)"
  by (simp add: positive_claims_def add_order_def)

lemma positive_claims_update_order:
  "positive_claims d \<Longrightarrow> (\<And>x. 0 < quantity x \<Longrightarrow> 0 < quantity (f x)) \<Longrightarrow>
   positive_claims (update_order i f d)"
  by (auto simp: positive_claims_def update_order_def set_update_key)

lemma inventory_inv_parts:
  assumes "inventory_inv d"
  shows "wf_db d" "conserved d" "positive_claims d" "nonneg_stock d"
  using assms by (simp_all add: inventory_inv_def)

lemma books_restore:
  assumes "wf_db d" "get_book d bid = Some bk"
  shows "update_key book_id bid (\<lambda>b. b\<lparr>available_copies := available_copies bk\<rparr>)
           (update_key book_id bid (\<lambda>b. b\<lparr>available_copies := v\<rparr>) (books d)) = books d"
proof -
  have "\<And>x. x \<in> set (books d) \<Longrightarrow> book_id x = bid \<Longrightarrow> x = bk"
    using assms find_key_unique [OF wf_db_distinct(1) [OF assms(1)]] by (auto simp: get_book_def)
  then show ?thesis by (simp add: update_key_update_key update_key_id)
qed

subsection \<open>Sample databases\<close>

text \<open>
  Concrete states for the witnesses. \<open>demo_db\<close> holds one book with all five copies
  on the shelf. \<open>demo_db2\<close> is the state of the spec's scenarios: book 1 (total 5) with
  Alice's pending order of 2 and her cart line of 1, so 2 copies are available; book 2
  (total 10) with Bob's approved order of 4 and his cart line of 5, so 1 copy is available.
\<close>

definition demo_book :: book where
  "demo_book = \<lparr>book_id = 1, title = ''SICP'', author = ''Abelson'', genre = ''CS'',
     isbn = None, total_copies = 5, available_copies = 5\<rparr>"

definition demo_db :: db where
  "demo_db = \<lparr>books = [demo_book], orders = [], carts = [], book_requests = [], wishlist = [],
     next_book_id = 2, next_order_id = 1, next_cart_id = 1, next_request_id = 1\<rparr>"

definition alice :: user where "alice = \<lparr>user_id = 7, role = Student\<rparr>"
definition bob :: user where "bob = \<lparr>user_id = 8, role = Student\<rparr>"
definition admin :: user where "admin = \<lparr>user_id = 1, role = Admin\<rparr>"

definition demo_db2 :: db where
  "demo_db2 = \<lparr>books =
       [demo_book\<lparr>available_copies := 2\<rparr>,
        \<lparr>book_id = 2, title = ''TAOCP'', author = ''Knuth'', genre = ''CS'', isbn = None,
          total_copies = 10, available_copies = 1\<rparr>],
     orders =
       [\<lparr>order_id = 1, order_user_id = 7, order_book_id = 1, quantity = 2, status = Pending,
          payment_method = None, payment_status = ''unpaid''\<rparr>,
        \<lparr>order_id = 2, order_user_id = 8, order_book_id = 2, quantity = 4, status = Approved,
          payment_method = None, payment_status = ''unpaid''\<rparr>],
     carts =
       [\<lparr>cart_id = 1, cart_user_id = 7, cart_book_id = 1, cart_quantity = 1\<rparr>,
        \<lparr>cart_id = 2, cart_user_id = 8, cart_book_id = 2, cart_quantity = 5\<rparr>],
     book_requests = [], wishlist = [],
     next_book_id = 3, next_order_id = 3, next_cart_id = 3, next_request_id = 1\<rparr>"

lemmas demo_defs = demo_book_def demo_db_def demo_db2_def alice_def bob_def admin_def

lemma demo_inventory_inv: "inventory_inv demo_db"
  by (simp add: demo_defs ledger_defs keys_ok_def)

lemma demo_wf: "wf_db demo_db" and demo_conserved: "conserved demo_db"
  using demo_inventory_inv by (simp_all add: inventory_inv_def)

lemma demo2_inventory_inv: "inventory_inv demo_db2"
  by (simp add: demo_defs ledger_defs keys_ok_def)

lemma demo2_wf: "wf_db demo_db2" and demo2_conserved: "conserved demo_db2"
  using demo2_inventory_inv by (simp_all add: inventory_inv_def)

end
