(* ===== verification/Requests.thy ===== *)
theory Requests
  imports Ledger
begin

text \<open>
  The two side tables of \<open>src/app.py\<close> that never touch the stock. The book request
  workflow: \<open>request_book\<close> (with the \<open>RequestBookForm\<close> of \<open>src/forms.py\<close>),
  \<open>admin_approve_request\<close> and \<open>admin_reject_request\<close>. The wishlist:
  \<open>toggle_wishlist\<close> on the \<open>wishlist\<close> association table of \<open>src/models.py\<close>.
  A submitted request form is the record \<open>request_form\<close>. Title and author are
  stored as submitted. Genre and reason are \<open>None\<close> when the field is absent from
  the POST, which is WTForms' \<open>data = None\<close>.

  The specification gives requests the state machine \<open>pending \<rightarrow> approved |
  rejected\<close> (\<open>spec_request_step\<close>). The code's two admin handlers set the status
  whatever it was. Every handler of this theory leaves the books, orders and carts
  alone, so it keeps the inventory invariant.
\<close>

record request_form =
  rq_title :: string
  rq_author :: string
  rq_genre :: "string option"
  rq_reason :: "string option"

text \<open>WTForms' \<open>DataRequired\<close>: the field holds a string that is not blank after \<open>strip()\<close>.\<close>

definition data_required :: "string \<Rightarrow> bool" where
  "data_required s \<longleftrightarrow> py_strip s \<noteq> []"

text \<open>Python's \<open>x or y\<close> on an optional string: \<open>None\<close> and \<open>''\<close> are falsy.\<close>

definition py_or :: "string option \<Rightarrow> string \<Rightarrow> string" where
  "py_or x y = (case x of None \<Rightarrow> y | Some s \<Rightarrow> if s = [] then y else s)"

definition request_book :: "user \<Rightarrow> request_form \<Rightarrow> db \<Rightarrow> error + db" where
  "request_book cu form d =
     (if role cu \<noteq> Student then Inl NotAuthorized
      else if \<not> (data_required (rq_title form) \<and> data_required (rq_author form))
      then Inl InvalidForm
      else Inr (d\<lparr>book_requests := book_requests d @
                   [\<lparr>request_id = next_request_id d, request_user_id = user_id cu,
                     request_title = rq_title form, request_author = rq_author form,
                     request_genre = py_or (rq_genre form) ''General'',
                     reason = rq_reason form, request_status = RPending\<rparr>],
                 next_request_id := Suc (next_request_id d)\<rparr>))"

definition set_request_status :: "request_id \<Rightarrow> request_status \<Rightarrow> db \<Rightarrow> db" where
  "set_request_status i s d =
     d\<lparr>book_requests := update_key request_id i (\<lambda>r. r\<lparr>request_status := s\<rparr>) (book_requests d)\<rparr>"

definition admin_approve_request :: "user \<Rightarrow> request_id \<Rightarrow> db \<Rightarrow> error + db" where
  "admin_approve_request cu i d =
     (if role cu \<noteq> Admin then Inl NotAuthorized
      else case get_request d i of
        None \<Rightarrow> Inl NotFound
      | Some r \<Rightarrow> Inr (set_request_status i RApproved d))"

definition admin_reject_request :: "user \<Rightarrow> request_id \<Rightarrow> db \<Rightarrow> error + db" where
  "admin_reject_request cu i d =
     (if role cu \<noteq> Admin then Inl NotAuthorized
      else case get_request d i of
        None \<Rightarrow> Inl NotFound
      | Some r \<Rightarrow> Inr (set_request_status i RRejected d))"

text \<open>
  \<open>book in current_user.wishlist\<close>, then \<open>wishlist.remove(book)\<close> or
  \<open>wishlist.append(book)\<close>. On commit SQLAlchemy issues
  \<open>DELETE FROM wishlist WHERE user_id = u AND book_id = b\<close> or inserts one row.
  There is no role check.
\<close>

definition toggle_wishlist :: "user \<Rightarrow> book_id \<Rightarrow> db \<Rightarrow> error + db" where
  "toggle_wishlist cu bid d =
     (case get_book d bid of
        None \<Rightarrow> Inl NotFound
      | Some bk \<Rightarrow>
          if (user_id cu, bid) \<in> set (wishlist d)
          then Inr (d\<lparr>wishlist := filter (\<lambda>p. p \<noteq> (user_id cu, bid)) (wishlist d)\<rparr>)
          else Inr (d\<lparr>wishlist := wishlist d @ [(user_id cu, bid)]\<rparr>))"

text \<open>The specification's request state machine (section 4.5 of the spec).\<close>

inductive spec_request_step :: "request_status \<Rightarrow> request_status \<Rightarrow> bool" where
  approve: "spec_request_step RPending RApproved"
| reject: "spec_request_step RPending RRejected"

code_pred spec_request_step .

inductive_simps spec_request_step_iff: "spec_request_step s s'"

inductive_cases spec_request_step_from_approved: "spec_request_step RApproved s'"

definition demo_request_form :: request_form where
  "demo_request_form = \<lparr>rq_title = ''SICP'', rq_author = ''Abelson'', rq_genre = Some [],
     rq_reason = Some ''course text''\<rparr>"

subsection \<open>The stock is never touched\<close>

lemma inventory_inv_side_tables:
  assumes "inventory_inv d"
    "books d' = books d" "orders d' = orders d" "carts d' = carts d"
    "next_book_id d' = next_book_id d" "next_order_id d' = next_order_id d"
    "next_cart_id d' = next_cart_id d"
    "keys_ok request_id (book_requests d') (next_request_id d')" "distinct (wishlist d')"
  shows "inventory_inv d'"
proof -
  have "reserved d' b = reserved d b" for b using assms(3,4) by (simp add: reserved_def)
  with assms show ?thesis
    by (simp add: inventory_inv_def wf_db_def conserved_def positive_claims_def nonneg_stock_def)
qed

lemma request_keys_ok: "inventory_inv d \<Longrightarrow> keys_ok request_id (book_requests d) (next_request_id d)"
  by (simp add: inventory_inv_def wf_db_def)

lemma wishlist_distinct: "inventory_inv d \<Longrightarrow> distinct (wishlist d)"
  by (simp add: inventory_inv_def wf_db_def)

lemma request_book_keeps_inv:
  "request_book cu form d = Inr d' \<Longrightarrow> inventory_inv d \<Longrightarrow> inventory_inv d'"
proof -
  assume ok: "request_book cu form d = Inr d'" and inv: "inventory_inv d"
  from ok have d': "d' = d\<lparr>book_requests := book_requests d @
            [\<lparr>request_id = next_request_id d, request_user_id = user_id cu,
              request_title = rq_title form, request_author = rq_author form,
              request_genre = py_or (rq_genre form) ''General'',
              reason = rq_reason form, request_status = RPending\<rparr>],
            next_request_id := Suc (next_request_id d)\<rparr>"
    by (simp add: request_book_def split: if_splits)
  show ?thesis unfolding d'
    by (rule inventory_inv_side_tables [OF inv])
       (simp_all add: keys_ok_append_fresh request_keys_ok [OF inv] wishlist_distinct [OF inv])
qed

lemma set_request_status_keeps_inv:
  "inventory_inv d \<Longrightarrow> inventory_inv (set_request_status i s d)"
  unfolding set_request_status_def
  by (rule inventory_inv_side_tables)
     (simp_all add: request_keys_ok wishlist_distinct)

lemma admin_approve_request_Inr:
  "admin_approve_request cu i d = Inr d' \<longleftrightarrow>
     role cu = Admin \<and> get_request d i \<noteq> None \<and> d' = set_request_status i RApproved d"
  by (auto simp: admin_approve_request_def split: option.splits)

lemma admin_reject_request_Inr:
  "admin_reject_request cu i d = Inr d' \<longleftrightarrow>
     role cu = Admin \<and> get_request d i \<noteq> None \<and> d' = set_request_status i RRejected d"
  by (auto simp: admin_reject_request_def split: option.splits)

lemma get_request_set_request_status:
  "get_request d i = Some r \<Longrightarrow>
   get_request (set_request_status i s d) i = Some (r\<lparr>request_status := s\<rparr>)"
  by (simp add: get_request_def set_request_status_def find_key_update_key_same)

lemma toggle_wishlist_Inr:
  "toggle_wishlist cu bid d = Inr d' \<longleftrightarrow>
     get_book d bid \<noteq> None \<and>
     d' = d\<lparr>wishlist := if (user_id cu, bid) \<in> set (wishlist d)
                       then filter (\<lambda>p. p \<noteq> (user_id cu, bid)) (wishlist d)
                       else wishlist d @ [(user_id cu, bid)]\<rparr>"
  by (auto simp: toggle_wishlist_def split: option.splits)

lemma toggle_wishlist_keeps_inv:
  assumes "toggle_wishlist cu bid d = Inr d'" "inventory_inv d"
  shows "inventory_inv d'"
proof -
  let ?p = "(user_id cu, bid)"
  have w: "distinct (wishlist d)" using assms(2) by (rule wishlist_distinct)
  from assms(1) have d': "d' = d\<lparr>wishlist := if ?p \<in> set (wishlist d)
      then filter (\<lambda>q. q \<noteq> ?p) (wishlist d) else wishlist d @ [?p]\<rparr>"
    by (simp add: toggle_wishlist_Inr)
  show ?thesis
    by (rule inventory_inv_side_tables [OF assms(2)])
       (simp_all add: d' w request_keys_ok [OF assms(2)])
qed

text \<open>
  A request is filed exactly when a student submits a title and an author that are
  not blank. It is then appended with the next key, the student's id, the submitted
  strings, genre \<open>'General'\<close> when none is given, and status pending.
\<close>

theorem request_book_effect:
  "request_book cu form d = Inr d' \<longleftrightarrow>
     role cu = Student \<and> data_required (rq_title form) \<and> data_required (rq_author form) \<and>
     d' = d\<lparr>book_requests := book_requests d @
            [\<lparr>request_id = next_request_id d, request_user_id = user_id cu,
              request_title = rq_title form, request_author = rq_author form,
              request_genre = py_or (rq_genre form) ''General'',
              reason = rq_reason form, request_status = RPending\<rparr>],
            next_request_id := Suc (next_request_id d)\<rparr>"
  by (auto simp: request_book_def)

text \<open>
  The book request workflow has no inventory coupling. A successful
  \<open>request_book\<close>, \<open>admin_approve_request\<close> or \<open>admin_reject_request\<close> leaves the
  books, orders and carts as they were and keeps the inventory invariant.
\<close>

theorem request_workflow_keeps_inventory:
  assumes "request_book cu form d = Inr d' \<or> admin_approve_request cu i d = Inr d' \<or>
           admin_reject_request cu i d = Inr d'"
    and "inventory_inv d"
  shows "inventory_inv d' \<and> books d' = books d \<and> orders d' = orders d \<and> carts d' = carts d"
proof -
  from assms(1) consider (filed) "request_book cu form d = Inr d'"
    | (decided) s where "d' = set_request_status i s d"
    by (auto simp: admin_approve_request_Inr admin_reject_request_Inr)
  then show ?thesis
  proof cases
    case filed
    then have "books d' = books d \<and> orders d' = orders d \<and> carts d' = carts d"
      by (auto simp: request_book_def split: if_splits)
    with request_book_keeps_inv [OF filed assms(2)] show ?thesis by simp
  next
    case decided
    with set_request_status_keeps_inv [OF assms(2), of i s] show ?thesis
      by (simp add: set_request_status_def)
  qed
qed

theorem request_workflow_keeps_inventory_witness:
  "\<exists>d'. request_book alice demo_request_form demo_db = Inr d' \<and> inventory_inv d'"
proof -
  have "\<exists>d'. request_book alice demo_request_form demo_db = Inr d'"
    by (simp add: request_book_def demo_defs demo_request_form_def data_required_def py_int_eval)
  then obtain d' where ok: "request_book alice demo_request_form demo_db = Inr d'" by blast
  from request_workflow_keeps_inventory [of alice demo_request_form demo_db d' undefined,
      OF disjI1 [OF ok] demo_inventory_inv]
  show ?thesis using ok by blast
qed

subsection \<open>Requests against the specification's state machine\<close>

lemma set_request_status_effect:
  assumes "get_request d i = Some r" "d' = set_request_status i st d"
  shows "get_request d' i = Some (r\<lparr>request_status := st\<rparr>) \<and>
         (\<forall>j. j \<noteq> i \<longrightarrow> get_request d' j = get_request d j) \<and>
         d'\<lparr>book_requests := book_requests d\<rparr> = d"
  using assms get_request_set_request_status [OF assms(1)]
  by (simp add: set_request_status_def get_request_def find_key_update_key_other)

text \<open>
  C26. On a pending request each admin handler performs its own step of the
  specification's machine: \<open>admin_approve_request\<close> moves the request to approved and
  \<open>admin_reject_request\<close> to rejected, both steps of \<open>spec_request_step\<close>. Nothing else
  changes: every other request and every other table is kept.
\<close>

theorem admin_request_decision_refines_spec:
  assumes "get_request d i = Some r" "request_status r = RPending"
  shows "(\<forall>d'. admin_approve_request cu i d = Inr d' \<longrightarrow>
            spec_request_step (request_status r) RApproved \<and>
            get_request d' i = Some (r\<lparr>request_status := RApproved\<rparr>) \<and>
            (\<forall>j. j \<noteq> i \<longrightarrow> get_request d' j = get_request d j) \<and>
            d'\<lparr>book_requests := book_requests d\<rparr> = d) \<and>
         (\<forall>d'. admin_reject_request cu i d = Inr d' \<longrightarrow>
            spec_request_step (request_status r) RRejected \<and>
            get_request d' i = Some (r\<lparr>request_status := RRejected\<rparr>) \<and>
            (\<forall>j. j \<noteq> i \<longrightarrow> get_request d' j = get_request d j) \<and>
            d'\<lparr>book_requests := book_requests d\<rparr> = d)"
proof (rule conjI; intro allI impI)
  fix d' assume "admin_approve_request cu i d = Inr d'"
  then have "d' = set_request_status i RApproved d" by (simp add: admin_approve_request_Inr)
  from set_request_status_effect [OF assms(1) this] assms(2)
  show "spec_request_step (request_status r) RApproved \<and>
        get_request d' i = Some (r\<lparr>request_status := RApproved\<rparr>) \<and>
        (\<forall>j. j \<noteq> i \<longrightarrow> get_request d' j = get_request d j) \<and>
        d'\<lparr>book_requests := book_requests d\<rparr> = d" by (simp add: spec_request_step_iff)
next
  fix d' assume "admin_reject_request cu i d = Inr d'"
  then have "d' = set_request_status i RRejected d" by (simp add: admin_reject_request_Inr)
  from set_request_status_effect [OF assms(1) this] assms(2)
  show "spec_request_step (request_status r) RRejected \<and>
        get_request d' i = Some (r\<lparr>request_status := RRejected\<rparr>) \<and>
        (\<forall>j. j \<noteq> i \<longrightarrow> get_request d' j = get_request d j) \<and>
        d'\<lparr>book_requests := book_requests d\<rparr> = d" by (simp add: spec_request_step_iff)
qed

theorem admin_request_decision_refines_spec_witness:
  "\<exists>d1 d2 d3. request_book alice demo_request_form demo_db = Inr d1 \<and>
     admin_approve_request admin 1 d1 = Inr d2 \<and> admin_reject_request admin 1 d1 = Inr d3 \<and>
     map_option request_status (get_request d2 1) = Some RApproved \<and>
     map_option request_status (get_request d3 1) = Some RRejected"
proof -
  have "\<exists>d1. request_book alice demo_request_form demo_db = Inr d1"
    by (simp add: request_book_def demo_defs demo_request_form_def data_required_def py_int_eval)
  then obtain d1 where d1: "request_book alice demo_request_form demo_db = Inr d1" by blast
  then have g: "get_request d1 1 = Some \<lparr>request_id = 1, request_user_id = 7,
      request_title = ''SICP'', request_author = ''Abelson'', request_genre = ''General'',
      reason = Some ''course text'', request_status = RPending\<rparr>"
    by (auto simp: request_book_def demo_defs demo_request_form_def data_required_def py_or_def
        py_int_eval get_request_def table_simps split: if_splits)
  have "\<exists>d2. admin_approve_request admin 1 d1 = Inr d2"
    using g by (simp add: admin_approve_request_def admin_def)
  then obtain d2 where d2: "admin_approve_request admin 1 d1 = Inr d2" by blast
  have "\<exists>d3. admin_reject_request admin 1 d1 = Inr d3"
    using g by (simp add: admin_reject_request_def admin_def)
  then obtain d3 where d3: "admin_reject_request admin 1 d1 = Inr d3" by blast
  note t = admin_request_decision_refines_spec [OF g, of admin]
  from t d2 d3 d1 show ?thesis by auto
qed

text \<open>
  C27. The code does not keep to that state machine. \<open>admin_approve_request\<close> and
  \<open>admin_reject_request\<close> never test the current status. A request that was rejected
  can later be approved, and the specification has no step from rejected to approved.
\<close>

theorem request_decision_unguarded:
  "(case request_book alice demo_request_form demo_db of Inl _ \<Rightarrow> False | Inr d1 \<Rightarrow>
     (case admin_reject_request admin 1 d1 of Inl _ \<Rightarrow> False | Inr d2 \<Rightarrow>
       (case admin_approve_request admin 1 d2 of Inl _ \<Rightarrow> False | Inr d3 \<Rightarrow>
          map_option request_status (get_request d2 1) = Some RRejected \<and>
          map_option request_status (get_request d3 1) = Some RApproved))) \<and>
   \<not> spec_request_step RRejected RApproved"
  by (simp add: request_book_def admin_reject_request_def admin_approve_request_def
      set_request_status_def demo_defs demo_request_form_def data_required_def py_int_eval
      get_request_def table_simps spec_request_step_iff)

subsection \<open>The wishlist\<close>

text \<open>
  C28. A successful \<open>toggle_wishlist\<close> flips exactly the caller's pair for the book. It
  keeps every other pair and every other table, and it keeps the inventory invariant.
\<close>

theorem toggle_wishlist_flips:
  assumes "toggle_wishlist cu bid d = Inr d'"
  shows "((user_id cu, bid) \<in> set (wishlist d') \<longleftrightarrow> (user_id cu, bid) \<notin> set (wishlist d)) \<and>
         (\<forall>p. p \<noteq> (user_id cu, bid) \<longrightarrow> (p \<in> set (wishlist d') \<longleftrightarrow> p \<in> set (wishlist d))) \<and>
         d'\<lparr>wishlist := wishlist d\<rparr> = d \<and>
         (inventory_inv d \<longrightarrow> inventory_inv d')"
  using assms toggle_wishlist_keeps_inv [OF assms] by (auto simp: toggle_wishlist_Inr)

theorem toggle_wishlist_flips_witness:
  "\<exists>d'. toggle_wishlist alice 1 demo_db = Inr d' \<and> (7, 1) \<in> set (wishlist d') \<and>
        inventory_inv d'"
proof -
  have "\<exists>d'. toggle_wishlist alice 1 demo_db = Inr d'"
    by (simp add: toggle_wishlist_def demo_defs get_book_def table_simps)
  then obtain d' where ok: "toggle_wishlist alice 1 demo_db = Inr d'" by blast
  have "(7::nat, 1::nat) \<notin> set (wishlist demo_db)" by (simp add: demo_db_def)
  with toggle_wishlist_flips [OF ok] demo_inventory_inv ok show ?thesis by (simp add: alice_def)
qed

lemma filter_absent:
  "p \<notin> set w \<Longrightarrow> filter (\<lambda>q. q \<noteq> p) w = w"
  by (auto simp: filter_id_conv)

text \<open>
  C29. Toggling the same book twice: the first toggle flips whether the caller's pair is
  listed, and the second restores the wishlist as a set. When the book was not on the
  list before, the second toggle restores the whole database.
\<close>

theorem toggle_wishlist_twice:
  assumes "toggle_wishlist cu bid d = Inr d1" "toggle_wishlist cu bid d1 = Inr d2"
  shows "((user_id cu, bid) \<in> set (wishlist d1) \<longleftrightarrow> (user_id cu, bid) \<notin> set (wishlist d)) \<and>
         set (wishlist d2) = set (wishlist d) \<and>
         ((user_id cu, bid) \<notin> set (wishlist d) \<longrightarrow> d2 = d)"
proof (cases "(user_id cu, bid) \<in> set (wishlist d)")
  case True
  with assms show ?thesis by (auto simp: toggle_wishlist_Inr)
next
  case False
  with assms(1) have d1: "d1 = d\<lparr>wishlist := wishlist d @ [(user_id cu, bid)]\<rparr>"
    by (simp add: toggle_wishlist_Inr)
  with assms(2) False have "d2 = d" by (simp add: toggle_wishlist_Inr filter_absent)
  with d1 False show ?thesis by simp
qed

theorem toggle_wishlist_twice_witness:
  "\<exists>d1 d2. toggle_wishlist alice 1 demo_db = Inr d1 \<and> toggle_wishlist alice 1 d1 = Inr d2 \<and>
     d2 = demo_db"
proof -
  have "\<exists>d1. toggle_wishlist alice 1 demo_db = Inr d1"
    by (simp add: toggle_wishlist_def demo_defs get_book_def table_simps)
  then obtain d1 where d1: "toggle_wishlist alice 1 demo_db = Inr d1" by blast
  then have "get_book d1 1 = get_book demo_db 1" by (auto simp: toggle_wishlist_Inr get_book_def)
  then have "\<exists>d2. toggle_wishlist alice 1 d1 = Inr d2"
    by (simp add: toggle_wishlist_def demo_defs get_book_def table_simps)
  then obtain d2 where d2: "toggle_wishlist alice 1 d1 = Inr d2" by blast
  have "(user_id alice, 1::nat) \<notin> set (wishlist demo_db)" by (simp add: demo_db_def)
  with toggle_wishlist_twice [OF d1 d2] d1 d2 show ?thesis by blast
qed

end
