(* ===== verification/Search.thy ===== *)
theory Search
  imports Ledger "HOL-Library.Sublist"
begin

text \<open>
  The catalogue filter of \<open>catalog()\<close> in \<open>src/app.py\<close>:
  \<open>Book.title.ilike(f"%{q}%") | Book.author.ilike(...) | Book.genre.ilike(...)\<close>.
  The database is SQLite (\<open>sqlite:///database.db\<close>). There SQLAlchemy compiles
  \<open>a.ilike(p)\<close> to \<open>lower(a) LIKE lower(p)\<close>, with no \<open>ESCAPE\<close> clause. SQLite's
  \<open>lower\<close> folds only ASCII letters (\<open>ascii_lower\<close>). \<open>LIKE\<close> treats \<open>%\<close> as any
  string and \<open>_\<close> as any one character (\<open>sql_like\<close>, by recursion on the pattern and
  the subject). The specification promises a substring filter (\<open>spec_search\<close>, with
  \<open>sublist\<close> of \<open>HOL-Library.Sublist\<close>). The two agree on every query without
  wildcard characters. A query holding \<open>%\<close> or \<open>_\<close> is not escaped, so it acts
  as a pattern.
\<close>

definition ascii_lower :: "char \<Rightarrow> char" where
  "ascii_lower c = (let n = of_char c :: nat in if 65 \<le> n \<and> n \<le> 90 then char_of (n + 32) else c)"

fun sql_like :: "string \<Rightarrow> string \<Rightarrow> bool" where
  "sql_like [] s \<longleftrightarrow> s = []"
| "sql_like (c # p) [] \<longleftrightarrow> c = CHR ''%'' \<and> sql_like p []"
| "sql_like (c # p) (x # s) \<longleftrightarrow>
     (if c = CHR ''%'' then sql_like p (x # s) \<or> sql_like (c # p) s
      else (c = CHR ''_'' \<or> c = x) \<and> sql_like p s)"

definition ilike :: "string \<Rightarrow> string \<Rightarrow> bool" where
  "ilike s pat \<longleftrightarrow> sql_like (map ascii_lower pat) (map ascii_lower s)"

definition catalog_search :: "string \<Rightarrow> book list \<Rightarrow> book list" where
  "catalog_search q bs =
     (if q = [] then bs
      else let pat = CHR ''%'' # q @ [CHR ''%''] in
        filter (\<lambda>b. ilike (title b) pat \<or> ilike (author b) pat \<or> ilike (genre b) pat) bs)"

definition wildcard :: "char \<Rightarrow> bool" where
  "wildcard c \<longleftrightarrow> c = CHR ''%'' \<or> c = CHR ''_''"

text \<open>The specification's filter: a case-insensitive substring of title, author or genre.\<close>

definition contains_ci :: "string \<Rightarrow> string \<Rightarrow> bool" where
  "contains_ci s q \<longleftrightarrow> sublist (map ascii_lower q) (map ascii_lower s)"

definition spec_search :: "string \<Rightarrow> book list \<Rightarrow> book list" where
  "spec_search q bs = filter (\<lambda>b. contains_ci (title b) q \<or> contains_ci (author b) q \<or>
                                  contains_ci (genre b) q) bs"

subsection \<open>\<open>LIKE\<close> on literal patterns\<close>

lemma suffix_Cons_iff: "suffix t (x # s) \<longleftrightarrow> t = x # s \<or> suffix t s"
  by (auto simp: suffix_def Cons_eq_append_conv)

lemma sql_like_percent: "sql_like (CHR ''%'' # p) s \<longleftrightarrow> (\<exists>t. suffix t s \<and> sql_like p t)"
  by (induction s) (auto simp: suffix_Cons_iff)

lemma sql_like_literal_prefix:
  "\<forall>c\<in>set q. \<not> wildcard c \<Longrightarrow> sql_like (q @ [CHR ''%'']) s \<longleftrightarrow> prefix q s"
proof (induction q arbitrary: s)
  case Nil
  show ?case by (simp add: sql_like_percent)
next
  case (Cons c q)
  then show ?case by (cases s) (auto simp: wildcard_def)
qed

lemma sql_like_substring:
  "\<forall>c\<in>set q. \<not> wildcard c \<Longrightarrow> sql_like (CHR ''%'' # q @ [CHR ''%'']) s \<longleftrightarrow> sublist q s"
  by (simp add: sql_like_percent sql_like_literal_prefix sublist_altdef')

lemma sql_like_percents_Nil: "\<forall>c\<in>set p. c = CHR ''%'' \<Longrightarrow> sql_like p []"
  by (induction p) auto

lemma sql_like_percents:
  assumes "\<forall>c\<in>set p. c = CHR ''%''"
  shows "sql_like (CHR ''%'' # p) s"
  unfolding sql_like_percent using Nil_suffix sql_like_percents_Nil [OF assms] by blast

lemma of_char_inv: "(of_char x :: nat) = n \<Longrightarrow> x = char_of n"
  by (metis char_of_char)

lemma char_of_wildcards: "char_of (37::nat) = CHR ''%''" "char_of (95::nat) = CHR ''_''"
proof -
  have "(of_char (char_of (37::nat)) :: nat) = of_char CHR ''%''"
       "(of_char (char_of (95::nat)) :: nat) = of_char CHR ''_''" by simp_all
  then show "char_of (37::nat) = CHR ''%''" "char_of (95::nat) = CHR ''_''"
    by (simp_all only: of_char_eq_iff)
qed

lemma wildcard_code: "wildcard x \<longleftrightarrow> (of_char x :: nat) = 37 \<or> (of_char x :: nat) = 95"
  by (auto simp: wildcard_def char_of_wildcards dest!: of_char_inv)

lemma of_char_ascii_lower:
  "(of_char (ascii_lower c) :: nat) =
     (if 65 \<le> (of_char c :: nat) \<and> (of_char c :: nat) \<le> 90 then of_char c + 32 else of_char c)"
  by (simp add: ascii_lower_def Let_def)

lemma wildcard_ascii_lower [simp]: "wildcard (ascii_lower c) \<longleftrightarrow> wildcard c"
  unfolding wildcard_code of_char_ascii_lower by simp

lemma ascii_lower_percent [simp]: "ascii_lower CHR ''%'' = CHR ''%''"
  by (simp add: ascii_lower_def)

lemma ascii_lower_underscore [simp]: "ascii_lower CHR ''_'' = CHR ''_''"
  by (simp add: ascii_lower_def)

lemma ascii_lower_eq_wildcard [simp]:
  "ascii_lower c = CHR ''%'' \<longleftrightarrow> c = CHR ''%''" "ascii_lower c = CHR ''_'' \<longleftrightarrow> c = CHR ''_''"
proof -
  have e: "x = y \<longleftrightarrow> (of_char x :: nat) = of_char y" for x y by simp
  show "ascii_lower c = CHR ''%'' \<longleftrightarrow> c = CHR ''%''" "ascii_lower c = CHR ''_'' \<longleftrightarrow> c = CHR ''_''"
    by (subst (1 2) e, simp add: of_char_ascii_lower)+
qed

lemma ascii_lower_eq_wildcard' [simp]:
  "CHR ''%'' = ascii_lower c \<longleftrightarrow> c = CHR ''%''" "CHR ''_'' = ascii_lower c \<longleftrightarrow> c = CHR ''_''"
  by (simp_all only: eq_commute [of _ "ascii_lower c"] ascii_lower_eq_wildcard)

lemma sublist_singleton: "sublist [x] ys \<longleftrightarrow> x \<in> set ys"
  by (induction ys) (auto simp: sublist_Cons_right)

lemma contains_ci_wildcard:
  "wildcard c \<Longrightarrow> contains_ci s [c] \<longleftrightarrow> c \<in> set s"
  by (auto simp: contains_ci_def sublist_singleton wildcard_def)

lemma ilike_literal:
  "\<forall>c\<in>set q. \<not> wildcard c \<Longrightarrow>
   ilike s (CHR ''%'' # q @ [CHR ''%'']) \<longleftrightarrow> contains_ci s q"
  by (simp add: ilike_def contains_ci_def sql_like_substring)

lemma sql_like_nonempty: "sql_like (CHR ''%'' # CHR ''_'' # [CHR ''%'']) s \<longleftrightarrow> s \<noteq> []"
proof -
  have one: "sql_like (CHR ''_'' # [CHR ''%'']) t \<longleftrightarrow> t \<noteq> []" for t
    by (cases t) (simp_all add: sql_like_percents [of "[]"])
  have "(\<exists>t. suffix t s \<and> t \<noteq> []) \<longleftrightarrow> s \<noteq> []" by (auto intro: suffix_order.refl)
  then show ?thesis by (simp add: sql_like_percent one)
qed

subsection \<open>The filter against the specification\<close>

text \<open>
  C30. On a query without \<open>%\<close> and \<open>_\<close>, the SQL filter of \<open>catalog()\<close> is exactly the
  specification's case-insensitive substring filter over title, author and genre. The
  empty query is included: it lists every book.
\<close>

theorem catalog_search_refines_spec:
  assumes "\<forall>c\<in>set q. \<not> wildcard c"
  shows "catalog_search q bs = spec_search q bs"
proof (cases "q = []")
  case True
  then show ?thesis by (simp add: catalog_search_def spec_search_def contains_ci_def)
next
  case False
  with assms show ?thesis
    by (simp add: catalog_search_def spec_search_def Let_def ilike_literal)
qed

theorem catalog_search_refines_spec_witness:
  "catalog_search ''sic'' [demo_book] = spec_search ''sic'' [demo_book]"
proof -
  have w: "\<forall>c\<in>set ''sic''. \<not> wildcard c" by (simp add: wildcard_def)
  from catalog_search_refines_spec [OF w] show ?thesis .
qed

text \<open>
  C31. The query is not escaped. \<open>q = '%'\<close> lists every book, and \<open>q = '_'\<close> lists
  every book with a non-empty title, author or genre. Neither character occurs in the
  sample book, so the specification's substring filter returns nothing for either query.
\<close>

theorem search_wildcards_unescaped:
  "catalog_search ''%'' bs = bs \<and>
   catalog_search ''_'' bs = filter (\<lambda>b. title b \<noteq> [] \<or> author b \<noteq> [] \<or> genre b \<noteq> []) bs \<and>
   spec_search ''%'' [demo_book] = [] \<and> spec_search ''_'' [demo_book] = []"
proof -
  have "catalog_search ''%'' bs = bs"
    by (simp add: catalog_search_def ilike_def sql_like_percents)
  moreover have "catalog_search ''_'' bs =
      filter (\<lambda>b. title b \<noteq> [] \<or> author b \<noteq> [] \<or> genre b \<noteq> []) bs"
    by (simp add: catalog_search_def ilike_def sql_like_nonempty)
  moreover have "spec_search ''%'' [demo_book] = [] \<and> spec_search ''_'' [demo_book] = []"
    by (simp add: spec_search_def contains_ci_wildcard wildcard_def demo_book_def)
  ultimately show ?thesis by blast
qed

theorem search_wildcards_unescaped_witness:
  "catalog_search ''%'' [demo_book] = [demo_book] \<and> spec_search ''%'' [demo_book] = [] \<and>
   catalog_search ''_'' [demo_book] = [demo_book] \<and> spec_search ''_'' [demo_book] = []"
  using search_wildcards_unescaped [of "[demo_book]"] by (simp add: demo_book_def)

end
