(* ===== verification/Cart.thy ===== *)
theory Cart
  imports Ledger
begin

text \<open>
  The cart store of \<open>src/app.py\<close> (routes \<open>/add_to_cart\<close>, \<open>/cart/remove\<close>, and the
  cart count of \<open>student_dashboard\<close>). Adding to the cart reserves copies at once: the
  handler debits \<open>available_copies\<close> and merges the quantity into the single line of the
  (user, book) pair. Removing a line returns its copies. The lemmas show how each handler
  moves the ledger: both keep conservation for every input, while the positivity of the
  claims needs a positive quantity, which the code never checks.
\<close>

subsection \<open>Handlers\<close>

text \<open>Lines 471--476: merge into the existing line or create one.\<close>

definition put_in_cart :: "user_id \<Rightarrow> book_id \<Rightarrow> int \<Rightarrow> db \<Rightarrow> db" where
  "put_in_cart u b qty d =
     (case find_cart_line d u b of
        Some item \<Rightarrow> update_cart (cart_id item)
                       (\<lambda>c. c\<lparr>cart_quantity := cart_quantity item + qty\<rparr>) d
      | None \<Rightarrow> add_cart u b qty d)"

definition add_to_cart :: "user \<Rightarrow> book_id \<Rightarrow> string option \<Rightarrow> db \<Rightarrow> error + db" where
  "add_to_cart cu bid qty_field d =
     (case form_int qty_field 1 of
        None \<Rightarrow> Inl ServerError
      | Some qty \<Rightarrow>
          (case get_book d bid of
             None \<Rightarrow> Inl NotFound
           | Some bk \<Rightarrow>
               if available_copies bk < qty then Inl NotEnoughCopies
               else Inr (set_available bid (available_copies bk - qty)
                           (put_in_cart (user_id cu) bid qty d))))"

definition remove_from_cart :: "user \<Rightarrow> cart_id \<Rightarrow> db \<Rightarrow> error + db" where
  "remove_from_cart cu i d =
     (case get_cart d i of
        None \<Rightarrow> Inl NotFound
      | Some item \<Rightarrow>
          if cart_user_id item \<noteq> user_id cu then Inl NotAuthorized
          else (case get_book d (cart_book_id item) of
                  None \<Rightarrow> Inl ServerError
                | Some bk \<Rightarrow>
                    Inr (delete_cart i (set_available (cart_book_id item)
                           (available_copies bk + cart_quantity item) d))))"

text \<open>\<open>sum(item.quantity for item in current_user.cart_items)\<close> (line 249).\<close>

definition cart_count :: "db \<Rightarrow> user_id \<Rightarrow> int" where
  "cart_count d u = sum_list (map cart_quantity (user_cart d u))"

subsection \<open>The cart line operation\<close>

lemma books_put_in_cart [simp]: "books (put_in_cart u b q d) = books d"
  by (simp add: put_in_cart_def row_access_defs split: option.split)

lemma reserved_put_in_cart:
  assumes "wf_db d"
  shows "reserved (put_in_cart u b q d) b' = reserved d b' + (if b = b' then q else 0)"
proof (cases "find_cart_line d u b")
  case None
  then show ?thesis by (simp add: put_in_cart_def reserved_add_cart)
next
  case (Some item)
  note line = get_cart_of_line [OF assms Some]
  have "distinct (map cart_id (carts d))" using assms by (rule wf_db_distinct)
  from reserved_update_cart [OF this line(1)] Some line(3) show ?thesis
    by (simp add: put_in_cart_def cart_claim_def)
qed

lemma wf_db_put_in_cart: "wf_db d \<Longrightarrow> wf_db (put_in_cart u b q d)"
  by (auto simp: put_in_cart_def intro: wf_db_update_cart wf_db_add_cart split: option.split)

lemma positive_claims_put_in_cart:
  assumes "wf_db d" "positive_claims d" "0 < q"
  shows "positive_claims (put_in_cart u b q d)"
proof (cases "find_cart_line d u b")
  case None
  with assms show ?thesis by (simp add: put_in_cart_def add_cart_def positive_claims_def)
next
  case (Some item)
  then have "item \<in> set (carts d)"
    by (auto simp: find_cart_line_def find_Some_iff in_set_conv_nth)
  with assms Some show ?thesis
    by (fastforce simp: put_in_cart_def update_cart_def positive_claims_def set_update_key)
qed

lemma user_cart_put_in_cart:
  assumes "wf_db d"
  shows "cart_count (put_in_cart u b q d) u = cart_count d u + q"
proof (cases "find_cart_line d u b")
  case None
  then show ?thesis by (simp add: put_in_cart_def cart_count_def user_cart_def add_cart_def)
next
  case (Some item)
  note line = get_cart_of_line [OF assms Some]
  have dist: "distinct (map cart_id (filter (\<lambda>c. cart_user_id c = u) (carts d)))"
    using wf_db_distinct(3) [OF assms] by (simp add: distinct_map_filter)
  have "find_key cart_id (cart_id item) (filter (\<lambda>c. cart_user_id c = u) (carts d)) = Some item"
    using line(1,2) by (simp add: get_cart_def find_key_filter)
  from sum_list_update_key [OF dist this, where g = cart_quantity
      and f = "\<lambda>c. c\<lparr>cart_quantity := cart_quantity item + q\<rparr>"]
  have "sum_list (map cart_quantity (update_key cart_id (cart_id item)
          (\<lambda>c. c\<lparr>cart_quantity := cart_quantity item + q\<rparr>)
          (filter (\<lambda>c. cart_user_id c = u) (carts d))))
        = sum_list (map cart_quantity (filter (\<lambda>c. cart_user_id c = u) (carts d))) + q"
    by simp
  moreover have "filter (\<lambda>c. cart_user_id c = u) (update_key cart_id (cart_id item)
          (\<lambda>c. c\<lparr>cart_quantity := cart_quantity item + q\<rparr>) (carts d))
        = update_key cart_id (cart_id item) (\<lambda>c. c\<lparr>cart_quantity := cart_quantity item + q\<rparr>)
            (filter (\<lambda>c. cart_user_id c = u) (carts d))"
    by (rule filter_update_key) simp
  ultimately show ?thesis
    using Some by (simp add: put_in_cart_def cart_count_def user_cart_def update_cart_def)
qed

subsection \<open>\<open>add_to_cart\<close>\<close>

lemma add_to_cart_Inr:
  "add_to_cart cu bid f d = Inr d' \<longleftrightarrow>
     (\<exists>qty bk. form_int f 1 = Some qty \<and> get_book d bid = Some bk \<and>
        qty \<le> available_copies bk \<and>
        d' = set_available bid (available_copies bk - qty) (put_in_cart (user_id cu) bid qty d))"
  by (auto simp: add_to_cart_def not_less split: option.splits)


lemma get_book_put_in_cart [simp]: "get_book (put_in_cart u b q d) i = get_book d i"
  by (simp add: get_book_def)

lemma cart_count_set_available [simp]: "cart_count (set_available i v d) u = cart_count d u"
  by (simp add: cart_count_def user_cart_def set_available_def)

lemma add_to_cart_reserved:
  assumes "wf_db d"
  shows "reserved (set_available bid v (put_in_cart u bid qty d)) b
           = reserved d b + (if b = bid then qty else 0)"
  using assms by (simp add: reserved_put_in_cart)

lemma add_to_cart_keeps_conserved:
  assumes "add_to_cart cu bid f d = Inr d'" "wf_db d" "conserved d"
  shows "conserved d'"
proof -
  from assms(1) obtain qty bk where bk: "get_book d bid = Some bk"
    and d': "d' = set_available bid (available_copies bk - qty) (put_in_cart (user_id cu) bid qty d)"
    by (auto simp: add_to_cart_Inr)
  have r: "\<And>b. reserved d' b = reserved d b + (if b = bid then qty else 0)"
    using d' add_to_cart_reserved [OF assms(2)] by simp
  show ?thesis
  proof (rule conserved_set_available [OF assms(3) wf_db_distinct(1) [OF assms(2)] bk,
        where v = "available_copies bk - qty"])
    show "books d' = books (set_available bid (available_copies bk - qty) d)"
      using d' by (simp add: set_available_def)
  qed (simp_all add: r)
qed

lemma add_to_cart_keeps_wf: "add_to_cart cu bid f d = Inr d' \<Longrightarrow> wf_db d \<Longrightarrow> wf_db d'"
  by (auto simp: add_to_cart_Inr intro: wf_db_put_in_cart)

lemma add_to_cart_keeps_nonneg:
  "add_to_cart cu bid f d = Inr d' \<Longrightarrow> nonneg_stock d \<Longrightarrow> nonneg_stock d'"
  by (auto simp: add_to_cart_Inr nonneg_stock_def set_available_def set_update_key)

lemma add_to_cart_success:
  assumes "wf_db d" "form_int f 1 = Some qty" "get_book d bid = Some bk"
    "qty \<le> available_copies bk"
  shows "add_to_cart cu bid f d =
           Inr (set_available bid (available_copies bk - qty) (put_in_cart (user_id cu) bid qty d))"
  using assms by (simp add: add_to_cart_def)

lemma add_to_cart_demo_Inr: "\<exists>d'. add_to_cart alice 1 (Some ''2'') demo_db = Inr d'"
  by (simp add: add_to_cart_def put_in_cart_def demo_defs py_int_eval row_access_defs table_simps)

text \<open>
  C3. Adding to the cart keeps the conservation of copies for every quantity the form
  can carry, negative ones included: the copies debited from \<open>available_copies\<close> are
  exactly the copies the cart line gains.
\<close>

theorem add_to_cart_conserved:
  "add_to_cart cu bid f d = Inr d' \<Longrightarrow> wf_db d \<Longrightarrow> conserved d \<Longrightarrow> conserved d'"
  by (rule add_to_cart_keeps_conserved)

theorem add_to_cart_conserved_witness:
  "case add_to_cart alice 1 (Some ''2'') demo_db of Inl _ \<Rightarrow> False | Inr d' \<Rightarrow> conserved d'"
proof -
  obtain d' where r: "add_to_cart alice 1 (Some ''2'') demo_db = Inr d'"
    using add_to_cart_demo_Inr by blast
  from add_to_cart_conserved [OF r demo_wf demo_conserved] r show ?thesis by simp
qed

lemma add_to_cart_keeps_inv:
  assumes "add_to_cart cu bid f d = Inr d'" "inventory_inv d"
    "form_int f 1 = Some qty" "0 < qty"
  shows "inventory_inv d'"
proof -
  from assms(2) have wf: "wf_db d" and pos: "positive_claims d"
    by (simp_all add: inventory_inv_def)
  from assms(1) obtain qty' bk where q': "form_int f 1 = Some qty'"
    and "get_book d bid = Some bk"
    and d': "d' = set_available bid (available_copies bk - qty') (put_in_cart (user_id cu) bid qty' d)"
    by (auto simp: add_to_cart_Inr)
  from q' assms(3) have "qty' = qty" by simp
  moreover have "positive_claims (put_in_cart (user_id cu) bid qty d)"
    by (rule positive_claims_put_in_cart [OF wf pos assms(4)])
  ultimately have "positive_claims d'" using d' by simp
  moreover have "wf_db d'" using add_to_cart_keeps_wf [OF assms(1) wf] .
  moreover have "conserved d'"
    using add_to_cart_keeps_conserved [OF assms(1) wf] assms(2) by (simp add: inventory_inv_def)
  moreover have "nonneg_stock d'"
    using add_to_cart_keeps_nonneg [OF assms(1)] assms(2) by (simp add: inventory_inv_def)
  ultimately show ?thesis by (simp add: inventory_inv_def)
qed

text \<open>
  C4. With a positive quantity, adding to the cart keeps the whole inventory invariant:
  well-formed tables (one cart line per user and book), conservation, positive claims,
  and no negative stock, hence \<open>0 \<le> available_copies \<le> total_copies\<close>.
\<close>

theorem add_to_cart_inventory_inv:
  assumes "add_to_cart cu bid f d = Inr d'" "inventory_inv d"
    "form_int f 1 = Some qty" "0 < qty"
  shows "inventory_inv d'"
  using assms by (rule add_to_cart_keeps_inv)

theorem add_to_cart_inventory_inv_witness:
  "case add_to_cart alice 1 (Some ''2'') demo_db of Inl _ \<Rightarrow> False | Inr d' \<Rightarrow> inventory_inv d'"
proof -
  obtain d' where r: "add_to_cart alice 1 (Some ''2'') demo_db = Inr d'"
    using add_to_cart_demo_Inr by blast
  have q: "form_int (Some ''2'') 1 = Some 2" by (simp add: py_int_eval)
  from add_to_cart_inventory_inv [OF r demo_inventory_inv q] r show ?thesis by simp
qed

text \<open>
  C5. The handler parses \<open>qty\<close> with \<open>int()\<close> and never checks \<open>qty >= 1\<close>: a
  negative quantity passes the test \<open>available_copies < qty\<close>, credits copies to the
  book and leaves a cart line with a negative quantity, so \<open>available_copies\<close> exceeds
  \<open>total_copies\<close> although the invariant held before.
\<close>

theorem add_to_cart_negative_qty_overflows_stock:
  "inventory_inv demo_db \<and>
   (case add_to_cart alice 1 (Some ''-2'') demo_db of
      Inl _ \<Rightarrow> False
    | Inr d' \<Rightarrow> \<not> stock_ok d' \<and> \<not> positive_claims d')"
proof -
  have "case add_to_cart alice 1 (Some ''-2'') demo_db of
      Inl _ \<Rightarrow> False
    | Inr d' \<Rightarrow> \<not> stock_ok d' \<and> \<not> positive_claims d'"
    by (simp add: add_to_cart_def put_in_cart_def demo_defs py_int_eval
        row_access_defs table_simps stock_ok_def positive_claims_def)
  with demo_inventory_inv show ?thesis by simp
qed

text \<open>
  \<open>add_to_cart\<close> performs no role check, unlike \<open>place_order\<close>: the admin account
  can reserve copies in a cart.
\<close>

theorem add_to_cart_admin_allowed:
  "\<exists>d'. add_to_cart admin 1 None demo_db = Inr d' \<and> cart_count d' (user_id admin) = 1"
  by (simp add: add_to_cart_def put_in_cart_def demo_defs py_int_eval row_access_defs
      table_simps cart_count_def)

subsection \<open>\<open>remove_from_cart\<close>\<close>

lemma remove_from_cart_Inr:
  "remove_from_cart cu i d = Inr d' \<longleftrightarrow>
     (\<exists>item bk. get_cart d i = Some item \<and> cart_user_id item = user_id cu \<and>
        get_book d (cart_book_id item) = Some bk \<and>
        d' = delete_cart i (set_available (cart_book_id item)
               (available_copies bk + cart_quantity item) d))"
  by (auto simp: remove_from_cart_def split: option.splits if_splits)

lemma get_cart_set_available [simp]: "get_cart (set_available j v d) i = get_cart d i"
  by (simp add: get_cart_def set_available_def)

lemma remove_from_cart_reserved:
  assumes "wf_db d" "get_cart d i = Some item"
  shows "reserved (delete_cart i (set_available j v d)) b
           = reserved d b - (if b = cart_book_id item then cart_quantity item else 0)"
proof -
  have "distinct (map cart_id (carts (set_available j v d)))"
    using wf_db_distinct(3) [OF assms(1)] by simp
  from reserved_delete_cart [OF this] assms(2) show ?thesis by (simp add: cart_claim_def)
qed


lemma remove_from_cart_keeps_inv:
  assumes "remove_from_cart cu i d = Inr d'" "inventory_inv d"
  shows "inventory_inv d'"
proof -
  from assms(2) have wf: "wf_db d" and cons: "conserved d" and pos: "positive_claims d"
    and nn: "nonneg_stock d"
    by (simp_all add: inventory_inv_def)
  from assms(1) obtain item bk where it: "get_cart d i = Some item"
    and bk: "get_book d (cart_book_id item) = Some bk"
    and d': "d' = delete_cart i (set_available (cart_book_id item)
                (available_copies bk + cart_quantity item) d)"
    by (auto simp: remove_from_cart_Inr)
  have r: "\<And>b. reserved d' b = reserved d b - (if b = cart_book_id item then cart_quantity item else 0)"
    using d' remove_from_cart_reserved [OF wf it] by simp
  have "conserved d'"
  proof (rule conserved_set_available [OF cons wf_db_distinct(1) [OF wf] bk,
        where v = "available_copies bk + cart_quantity item"])
    show "books d' = books (set_available (cart_book_id item)
            (available_copies bk + cart_quantity item) d)"
      using d' by (simp add: delete_cart_def)
  qed (simp_all add: r)
  moreover have "wf_db d'" using d' wf by (simp add: wf_db_delete_cart)
  moreover have "positive_claims d'"
    using d' pos by (simp add: positive_claims_def delete_cart_def set_available_def)
  moreover have "nonneg_stock d'"
  proof -
    from it pos have "0 < cart_quantity item"
      by (auto simp: get_cart_def positive_claims_def)
    moreover from bk nn have "0 \<le> available_copies bk"
      by (auto simp: get_book_def nonneg_stock_def)
    ultimately have "nonneg_stock (set_available (cart_book_id item)
        (available_copies bk + cart_quantity item) d)"
      using nn by (intro nonneg_stock_set_available) simp_all
    then show ?thesis using d' by (simp add: nonneg_stock_def delete_cart_def)
  qed
  ultimately show ?thesis by (simp add: inventory_inv_def)
qed

text \<open>
  C7. Removing a cart line keeps the inventory invariant: the line's copies go back to
  \<open>available_copies\<close> as the line disappears.
\<close>

theorem remove_from_cart_inventory_inv:
  "remove_from_cart cu i d = Inr d' \<Longrightarrow> inventory_inv d \<Longrightarrow> inventory_inv d'"
  by (rule remove_from_cart_keeps_inv)

theorem remove_from_cart_inventory_inv_witness:
  "case remove_from_cart bob 2 demo_db2 of Inl _ \<Rightarrow> False | Inr d' \<Rightarrow> inventory_inv d'"
proof -
  have "\<exists>d'. remove_from_cart bob 2 demo_db2 = Inr d'"
    by (simp add: remove_from_cart_def demo_defs row_access_defs table_simps)
  then obtain d' where r: "remove_from_cart bob 2 demo_db2 = Inr d'" by blast
  from remove_from_cart_inventory_inv [OF r demo2_inventory_inv] r show ?thesis by simp
qed

text \<open>
  C8. Only the owner of a cart line can remove it, and removing it gives its quantity back
  to the book: afterwards the line is gone and \<open>available_copies\<close> has grown by the
  line's quantity.
\<close>

theorem remove_from_cart_returns_copies:
  assumes "remove_from_cart cu i d = Inr d'" "wf_db d"
  shows "\<exists>item bk. get_cart d i = Some item \<and> cart_user_id item = user_id cu \<and>
           get_book d (cart_book_id item) = Some bk \<and> get_cart d' i = None \<and>
           get_book d' (cart_book_id item) =
             Some (bk\<lparr>available_copies := available_copies bk + cart_quantity item\<rparr>)"
proof -
  from assms(1) obtain item bk where it: "get_cart d i = Some item" "cart_user_id item = user_id cu"
    and bk: "get_book d (cart_book_id item) = Some bk"
    and d': "d' = delete_cart i (set_available (cart_book_id item)
                (available_copies bk + cart_quantity item) d)"
    by (auto simp: remove_from_cart_Inr)
  have "get_cart d' i = None"
    using d' by (simp add: get_cart_def delete_cart_def find_key_None_iff)
  moreover have "get_book d' (cart_book_id item) =
      Some (bk\<lparr>available_copies := available_copies bk + cart_quantity item\<rparr>)"
    using d' book_set_available [OF bk] by (simp add: get_book_def delete_cart_def)
  ultimately show ?thesis using it bk by blast
qed

theorem remove_from_cart_returns_copies_witness:
  "\<exists>item bk. get_cart demo_db2 2 = Some item \<and> cart_user_id item = user_id bob \<and>
     get_book demo_db2 (cart_book_id item) = Some bk \<and>
     (case remove_from_cart bob 2 demo_db2 of Inl _ \<Rightarrow> False
      | Inr d' \<Rightarrow> get_cart d' 2 = None \<and> get_book d' (cart_book_id item) =
          Some (bk\<lparr>available_copies := available_copies bk + cart_quantity item\<rparr>))"
proof -
  have "\<exists>d'. remove_from_cart bob 2 demo_db2 = Inr d'"
    by (simp add: remove_from_cart_def demo_defs row_access_defs table_simps)
  then obtain d' where r: "remove_from_cart bob 2 demo_db2 = Inr d'" by blast
  from remove_from_cart_returns_copies [OF r demo2_wf] r show ?thesis by auto
qed

subsection \<open>Round trip\<close>

text \<open>
  C9. Adding a book to the cart and removing the new line again restores the book table
  and the cart table exactly.
\<close>

theorem add_then_remove_restores:
  assumes "wf_db d" "find_cart_line d (user_id cu) bid = None"
    "add_to_cart cu bid f d = Inr d1"
  shows "\<exists>d2. remove_from_cart cu (next_cart_id d) d1 = Inr d2 \<and>
           books d2 = books d \<and> carts d2 = carts d"
proof -
  from assms(3) obtain qty bk where bk: "get_book d bid = Some bk"
    and d1: "d1 = set_available bid (available_copies bk - qty) (put_in_cart (user_id cu) bid qty d)"
    by (auto simp: add_to_cart_Inr)
  let ?new = "\<lparr>cart_id = next_cart_id d, cart_user_id = user_id cu, cart_book_id = bid,
               cart_quantity = qty\<rparr>"
  have fresh: "\<forall>c\<in>set (carts d). cart_id c \<noteq> next_cart_id d"
    using assms(1) by (auto simp: wf_db_def keys_ok_def)
  have carts1: "carts d1 = carts d @ [?new]"
    using d1 assms(2) by (simp add: put_in_cart_def add_cart_def set_available_def)
  have cart1: "get_cart d1 (next_cart_id d) = Some ?new"
    using carts1 find_key_append_fresh [of "carts d" cart_id ?new] fresh
    by (simp add: get_cart_def)
  have book1: "get_book d1 bid = Some (bk\<lparr>available_copies := available_copies bk - qty\<rparr>)"
    using d1 book_set_available [of "put_in_cart (user_id cu) bid qty d" bid bk] bk by simp
  have r: "remove_from_cart cu (next_cart_id d) d1 =
      Inr (delete_cart (next_cart_id d) (set_available bid (available_copies bk) d1))"
    using cart1 book1 by (simp add: remove_from_cart_def)
  moreover have "books (delete_cart (next_cart_id d) (set_available bid (available_copies bk) d1))
      = books d"
    using d1 books_restore [OF assms(1) bk] by (simp add: delete_cart_def set_available_def)
  moreover have "carts (delete_cart (next_cart_id d) (set_available bid (available_copies bk) d1))
      = carts d"
    using carts1 fresh by (simp add: delete_cart_def set_available_def delete_key_def)
  ultimately show ?thesis by blast
qed

theorem add_then_remove_restores_witness:
  "\<exists>d1. add_to_cart alice 1 (Some ''3'') demo_db = Inr d1 \<and>
     (\<exists>d2. remove_from_cart alice 1 d1 = Inr d2 \<and> books d2 = books demo_db \<and>
           carts d2 = carts demo_db)"
proof -
  have "\<exists>d1. add_to_cart alice 1 (Some ''3'') demo_db = Inr d1"
    by (simp add: add_to_cart_def put_in_cart_def demo_defs py_int_eval row_access_defs table_simps)
  then obtain d1 where r: "add_to_cart alice 1 (Some ''3'') demo_db = Inr d1" by blast
  have none: "find_cart_line demo_db (user_id alice) 1 = None"
    by (simp add: demo_defs find_cart_line_def)
  have "next_cart_id demo_db = 1" by (simp add: demo_defs)
  with add_then_remove_restores [OF demo_wf none r] r show ?thesis by auto
qed

end
