(* ===== verification/Orders.thy ===== *)
theory Orders
  imports Ledger
begin

text \<open>
  The order lifecycle of \<open>src/app.py\<close>: \<open>place_order\<close> creates a pending order and
  debits the book; a student edits the quantity of, or cancels, a pending order of their
  own; an admin approves or cancels any order. Status strings are the constructors of
  \<open>order_status\<close>. The student handlers check ownership and \<open>status == 'pending'\<close>;
  the admin handlers check only the role, so they also act on canceled orders. The lemmas
  give each handler's effect on the ledger and show where the inventory invariant holds
  and where the code breaks it.
\<close>

subsection \<open>Handlers\<close>

definition place_order :: "user \<Rightarrow> book_id \<Rightarrow> string option \<Rightarrow> db \<Rightarrow> error + db" where
  "place_order cu bid qty_field d =
     (if role cu \<noteq> Student then Inl Forbidden
      else case form_int qty_field 1 of
        None \<Rightarrow> Inl ServerError
      | Some qty \<Rightarrow>
          (case get_book d bid of
             None \<Rightarrow> Inl NotFound
           | Some bk \<Rightarrow>
               if available_copies bk < qty then Inl NotEnoughCopies
               else Inr (add_order (user_id cu) bid qty Pending None
                           (set_available bid (available_copies bk - qty) d))))"

text \<open>The POST branch of \<open>student_edit_order\<close>; the GET branch only renders a form.\<close>

definition student_edit_order :: "user \<Rightarrow> order_id \<Rightarrow> string option \<Rightarrow> db \<Rightarrow> error + db" where
  "student_edit_order cu oid qty_field d =
     (case get_order d oid of
        None \<Rightarrow> Inl NotFound
      | Some od \<Rightarrow>
          if order_user_id od \<noteq> user_id cu then Inl NotAuthorized
          else if status od \<noteq> Pending then Inl NotPending
          else (case form_int qty_field (quantity od) of
                  None \<Rightarrow> Inl InvalidQuantity
                | Some new_qty \<Rightarrow>
                    (case get_book d (order_book_id od) of
                       None \<Rightarrow> Inl ServerError
                     | Some bk \<Rightarrow>
                         let max_allowed = available_copies bk + quantity od in
                         if new_qty < 1 \<or> max_allowed < new_qty then Inl OutOfRange
                         else Inr (update_order oid (\<lambda>x. x\<lparr>quantity := new_qty\<rparr>)
                                     (set_available (order_book_id od) (max_allowed - new_qty) d)))))"

definition student_cancel_order :: "user \<Rightarrow> order_id \<Rightarrow> db \<Rightarrow> error + db" where
  "student_cancel_order cu oid d =
     (case get_order d oid of
        None \<Rightarrow> Inl NotFound
      | Some od \<Rightarrow>
          if order_user_id od \<noteq> user_id cu then Inl NotAuthorized
          else if status od \<noteq> Pending then Inl NotPending
          else (case get_book d (order_book_id od) of
                  None \<Rightarrow> Inl ServerError
                | Some bk \<Rightarrow>
                    Inr (update_order oid (\<lambda>x. x\<lparr>status := Canceled\<rparr>)
                           (set_available (order_book_id od) (available_copies bk + quantity od) d))))"

definition admin_approve_order :: "user \<Rightarrow> order_id \<Rightarrow> db \<Rightarrow> error + db" where
  "admin_approve_order cu oid d =
     (if role cu \<noteq> Admin then Inl NotAuthorized
      else case get_order d oid of
        None \<Rightarrow> Inl NotFound
      | Some od \<Rightarrow> Inr (update_order oid (\<lambda>x. x\<lparr>status := Approved\<rparr>) d))"

definition admin_cancel_order :: "user \<Rightarrow> order_id \<Rightarrow> db \<Rightarrow> error + db" where
  "admin_cancel_order cu oid d =
     (if role cu \<noteq> Admin then Inl NotAuthorized
      else case get_order d oid of
        None \<Rightarrow> Inl NotFound
      | Some od \<Rightarrow>
          (case get_book d (order_book_id od) of
             None \<Rightarrow> Inl ServerError
           | Some bk \<Rightarrow>
               Inr (set_available (order_book_id od) (available_copies bk + quantity od)
                      (update_order oid (\<lambda>x. x\<lparr>status := Canceled\<rparr>) d))))"

lemmas order_handler_defs = place_order_def student_edit_order_def student_cancel_order_def
  admin_approve_order_def admin_cancel_order_def


subsection \<open>Row facts\<close>

lemma get_order_set_available [simp]: "get_order (set_available j v d) i = get_order d i"
  by (simp add: get_order_def set_available_def)

lemma books_update_order [simp]: "books (update_order i f d) = books d"
  by (simp add: update_order_def)

lemma get_book_update_order [simp]: "get_book (update_order i f d) j = get_book d j"
  by (simp add: get_book_def update_order_def)

lemma books_add_order [simp]: "books (add_order u b q s m d) = books d"
  by (simp add: add_order_def)

lemma get_book_add_order [simp]: "get_book (add_order u b q s m d) j = get_book d j"
  by (simp add: get_book_def add_order_def)

lemma get_order_mem: "get_order d i = Some od \<Longrightarrow> od \<in> set (orders d)"
  by (auto simp: get_order_def)

lemma order_claim_active:
  "active (status od) \<Longrightarrow> order_claim b od = (if order_book_id od = b then quantity od else 0)"
  by (simp add: order_claim_def)

lemma reserved_order_update:
  assumes "wf_db d" "get_order d oid = Some od"
  shows "reserved (update_order oid f (set_available j v d)) b
           = reserved d b - order_claim b od + order_claim b (f od)"
    and "reserved (set_available j v (update_order oid f d)) b
           = reserved d b - order_claim b od + order_claim b (f od)"
proof -
  have dist: "distinct (map order_id (orders d))" by (rule wf_db_distinct(2) [OF assms(1)])
  show "reserved (update_order oid f (set_available j v d)) b
          = reserved d b - order_claim b od + order_claim b (f od)"
    using reserved_update_order [of "set_available j v d" oid od f b] dist assms(2) by simp
  show "reserved (set_available j v (update_order oid f d)) b
          = reserved d b - order_claim b od + order_claim b (f od)"
    using reserved_update_order [OF dist assms(2)] by simp
qed

subsection \<open>Success conditions\<close>

lemma place_order_Inr:
  "place_order cu bid f d = Inr d' \<longleftrightarrow>
     role cu = Student \<and>
     (\<exists>qty bk. form_int f 1 = Some qty \<and> get_book d bid = Some bk \<and> qty \<le> available_copies bk \<and>
        d' = add_order (user_id cu) bid qty Pending None
               (set_available bid (available_copies bk - qty) d))"
  by (auto simp: place_order_def not_less split: option.splits)

lemma student_edit_order_Inr:
  "student_edit_order cu oid f d = Inr d' \<longleftrightarrow>
     (\<exists>od n bk. get_order d oid = Some od \<and> order_user_id od = user_id cu \<and>
        status od = Pending \<and> form_int f (quantity od) = Some n \<and>
        get_book d (order_book_id od) = Some bk \<and>
        1 \<le> n \<and> n \<le> available_copies bk + quantity od \<and>
        d' = update_order oid (\<lambda>x. x\<lparr>quantity := n\<rparr>)
               (set_available (order_book_id od) (available_copies bk + quantity od - n) d))"
  by (auto simp: student_edit_order_def Let_def not_less split: option.splits if_splits)

lemma student_cancel_order_Inr:
  "student_cancel_order cu oid d = Inr d' \<longleftrightarrow>
     (\<exists>od bk. get_order d oid = Some od \<and> order_user_id od = user_id cu \<and>
        status od = Pending \<and> get_book d (order_book_id od) = Some bk \<and>
        d' = update_order oid (\<lambda>x. x\<lparr>status := Canceled\<rparr>)
               (set_available (order_book_id od) (available_copies bk + quantity od) d))"
  by (auto simp: student_cancel_order_def split: option.splits if_splits)

lemma admin_approve_order_Inr:
  "admin_approve_order cu oid d = Inr d' \<longleftrightarrow>
     role cu = Admin \<and> (\<exists>od. get_order d oid = Some od \<and>
        d' = update_order oid (\<lambda>x. x\<lparr>status := Approved\<rparr>) d)"
  by (auto simp: admin_approve_order_def split: option.splits)

lemma admin_cancel_order_Inr:
  "admin_cancel_order cu oid d = Inr d' \<longleftrightarrow>
     role cu = Admin \<and> (\<exists>od bk. get_order d oid = Some od \<and>
        get_book d (order_book_id od) = Some bk \<and>
        d' = set_available (order_book_id od) (available_copies bk + quantity od)
               (update_order oid (\<lambda>x. x\<lparr>status := Canceled\<rparr>) d))"
  by (auto simp: admin_cancel_order_def split: option.splits)


subsection \<open>Placing an order\<close>

lemma place_order_demo_Inr: "\<exists>d'. place_order alice 1 (Some ''2'') demo_db = Inr d'"
  by (simp add: place_order_def demo_defs py_int_eval row_access_defs table_simps)

lemma place_order_keeps_inv:
  assumes "place_order cu bid f d = Inr d'" "inventory_inv d"
    "form_int f 1 = Some qty" "0 < qty"
  shows "inventory_inv d'"
proof -
  note parts = inventory_inv_parts [OF assms(2)]
  from assms(1,3) obtain bk where bk: "get_book d bid = Some bk"
    and le: "qty \<le> available_copies bk"
    and d': "d' = add_order (user_id cu) bid qty Pending None
                    (set_available bid (available_copies bk - qty) d)"
    by (auto simp: place_order_Inr)
  show ?thesis
  proof (rule inventory_inv_step [OF assms(2) bk, where v = "available_copies bk - qty"])
    show "books d' = books (set_available bid (available_copies bk - qty) d)" using d' by simp
    show "wf_db d'" using d' parts(1) by (simp add: wf_db_add_order)
    show "positive_claims d'" using d' parts(3) assms(4) by (simp add: positive_claims_add_order)
  qed (insert d' le, simp_all add: reserved_add_order active_def)
qed

text \<open>
  C2. Placing an order for a positive quantity keeps the inventory invariant: the copies
  debited from the book are claimed by the new pending order.
\<close>

theorem place_order_inventory_inv:
  assumes "place_order cu bid f d = Inr d'" "inventory_inv d"
    "form_int f 1 = Some qty" "0 < qty"
  shows "inventory_inv d'"
  using assms by (rule place_order_keeps_inv)

theorem place_order_inventory_inv_witness:
  "case place_order alice 1 (Some ''2'') demo_db of Inl _ \<Rightarrow> False | Inr d' \<Rightarrow> inventory_inv d'"
proof -
  obtain d' where r: "place_order alice 1 (Some ''2'') demo_db = Inr d'"
    using place_order_demo_Inr by blast
  have q: "form_int (Some ''2'') 1 = Some 2" by (simp add: py_int_eval)
  from place_order_inventory_inv [OF r demo_inventory_inv q] r show ?thesis by simp
qed

text \<open>
  C10. What a successful \<open>place_order\<close> does: the caller is a student, the book's
  \<open>available_copies\<close> drops by the parsed quantity and stays non-negative, and exactly
  one row is appended to the order table: a pending, unpaid order with the next key.
\<close>

theorem place_order_effect:
  assumes "place_order cu bid f d = Inr d'"
  shows "\<exists>qty bk. role cu = Student \<and> form_int f 1 = Some qty \<and> get_book d bid = Some bk \<and>
           0 \<le> available_copies bk - qty \<and>
           get_book d' bid = Some (bk\<lparr>available_copies := available_copies bk - qty\<rparr>) \<and>
           orders d' = orders d @
             [\<lparr>order_id = next_order_id d, order_user_id = user_id cu, order_book_id = bid,
               quantity = qty, status = Pending, payment_method = None,
               payment_status = ''unpaid''\<rparr>] \<and>
           next_order_id d' = Suc (next_order_id d)"
proof -
  from assms obtain qty bk where st: "role cu = Student" and q: "form_int f 1 = Some qty"
    and bk: "get_book d bid = Some bk" and le: "qty \<le> available_copies bk"
    and d': "d' = add_order (user_id cu) bid qty Pending None
                    (set_available bid (available_copies bk - qty) d)"
    by (auto simp: place_order_Inr)
  have "get_book d' bid = Some (bk\<lparr>available_copies := available_copies bk - qty\<rparr>)"
    using d' book_set_available [OF bk] by simp
  moreover have "orders d' = orders d @
             [\<lparr>order_id = next_order_id d, order_user_id = user_id cu, order_book_id = bid,
               quantity = qty, status = Pending, payment_method = None,
               payment_status = ''unpaid''\<rparr>]"
       "next_order_id d' = Suc (next_order_id d)"
    using d' by (simp_all add: add_order_def)
  ultimately show ?thesis using st q bk le by auto
qed

theorem place_order_effect_witness:
  "\<exists>qty bk. role alice = Student \<and> form_int (Some ''2'') 1 = Some qty \<and>
     get_book demo_db 1 = Some bk \<and> 0 \<le> available_copies bk - qty \<and>
     (case place_order alice 1 (Some ''2'') demo_db of Inl _ \<Rightarrow> False
      | Inr d' \<Rightarrow> get_book d' 1 = Some (bk\<lparr>available_copies := available_copies bk - qty\<rparr>) \<and>
          next_order_id d' = Suc (next_order_id demo_db))"
proof -
  obtain d' where r: "place_order alice 1 (Some ''2'') demo_db = Inr d'"
    using place_order_demo_Inr by blast
  from place_order_effect [OF r] r show ?thesis by auto
qed

text \<open>
  C11. \<open>place_order\<close> never checks \<open>qty >= 1\<close>: with \<open>qty = -3\<close> the guard
  \<open>available_copies < qty\<close> is false, the book is credited three copies beyond its
  total, and a pending order with quantity -3 is stored.
\<close>

theorem place_order_negative_qty_overflows_stock:
  "inventory_inv demo_db \<and>
   (case place_order alice 1 (Some ''-3'') demo_db of
      Inl _ \<Rightarrow> False
    | Inr d' \<Rightarrow> \<not> stock_ok d' \<and> \<not> positive_claims d')"
proof -
  have "case place_order alice 1 (Some ''-3'') demo_db of
      Inl _ \<Rightarrow> False
    | Inr d' \<Rightarrow> \<not> stock_ok d' \<and> \<not> positive_claims d'"
    by (simp add: place_order_def demo_defs py_int_eval row_access_defs table_simps
        stock_ok_def positive_claims_def)
  with demo_inventory_inv show ?thesis by simp
qed

text \<open>
  C12. Placing an order and cancelling it as its owner restores the book table: the
  cancel gives back exactly the copies the order took (spec, section 8).
\<close>

theorem place_then_cancel_restores:
  assumes "wf_db d" "place_order cu bid f d = Inr d1"
  shows "\<exists>d2. student_cancel_order cu (next_order_id d) d1 = Inr d2 \<and> books d2 = books d"
proof -
  from assms(2) obtain qty bk where bk: "get_book d bid = Some bk"
    and d1: "d1 = add_order (user_id cu) bid qty Pending None
                    (set_available bid (available_copies bk - qty) d)"
    by (auto simp: place_order_Inr)
  let ?new = "\<lparr>order_id = next_order_id d, order_user_id = user_id cu, order_book_id = bid,
               quantity = qty, status = Pending, payment_method = None,
               payment_status = ''unpaid''\<rparr>"
  have fresh: "\<forall>x\<in>set (orders d). order_id x \<noteq> next_order_id d"
    using assms(1) by (auto simp: wf_db_def keys_ok_def)
  have "get_order d1 (next_order_id d) = Some ?new"
    using d1 find_key_append_fresh [of "orders d" order_id ?new] fresh
    by (simp add: get_order_def add_order_def)
  moreover have "get_book d1 bid = Some (bk\<lparr>available_copies := available_copies bk - qty\<rparr>)"
    using d1 book_set_available [OF bk] by simp
  ultimately have "student_cancel_order cu (next_order_id d) d1 =
      Inr (update_order (next_order_id d) (\<lambda>x. x\<lparr>status := Canceled\<rparr>)
             (set_available bid (available_copies bk) d1))"
    by (simp add: student_cancel_order_def)
  moreover have "books (update_order (next_order_id d) (\<lambda>x. x\<lparr>status := Canceled\<rparr>)
             (set_available bid (available_copies bk) d1)) = books d"
    using d1 books_restore [OF assms(1) bk] by (simp add: add_order_def set_available_def)
  ultimately show ?thesis by blast
qed

theorem place_then_cancel_restores_witness:
  "case place_order alice 1 (Some ''2'') demo_db of Inl _ \<Rightarrow> False
   | Inr d1 \<Rightarrow> (\<exists>d2. student_cancel_order alice 1 d1 = Inr d2 \<and> books d2 = books demo_db)"
proof -
  obtain d1 where r: "place_order alice 1 (Some ''2'') demo_db = Inr d1"
    using place_order_demo_Inr by blast
  have "next_order_id demo_db = 1" by (simp add: demo_defs)
  with place_then_cancel_restores [OF demo_wf r] r show ?thesis by simp
qed


subsection \<open>Student edit and cancel\<close>

text \<open>
  C13. The edit bound of \<open>student_edit_order\<close>: for a pending order of the caller, a
  new quantity is accepted exactly when \<open>1 \<le> new \<le> available_copies + old\<close>, the pool of
  free copies plus those the order holds; then the book keeps
  \<open>available_copies + old - new\<close> and the order holds \<open>new\<close>.
\<close>

theorem student_edit_order_bound:
  assumes "wf_db d" "get_order d oid = Some od" "order_user_id od = user_id cu"
    "status od = Pending" "get_book d (order_book_id od) = Some bk"
    "form_int f (quantity od) = Some n"
  shows "(\<exists>d'. student_edit_order cu oid f d = Inr d' \<and>
            get_book d' (order_book_id od) =
              Some (bk\<lparr>available_copies := available_copies bk + quantity od - n\<rparr>) \<and>
            get_order d' oid = Some (od\<lparr>quantity := n\<rparr>))
         \<longleftrightarrow> 1 \<le> n \<and> n \<le> available_copies bk + quantity od"
proof
  assume "\<exists>d'. student_edit_order cu oid f d = Inr d' \<and>
            get_book d' (order_book_id od) =
              Some (bk\<lparr>available_copies := available_copies bk + quantity od - n\<rparr>) \<and>
            get_order d' oid = Some (od\<lparr>quantity := n\<rparr>)"
  then obtain d' where "student_edit_order cu oid f d = Inr d'" by blast
  with assms(2,5,6) show "1 \<le> n \<and> n \<le> available_copies bk + quantity od"
    by (auto simp: student_edit_order_Inr)
next
  assume n: "1 \<le> n \<and> n \<le> available_copies bk + quantity od"
  let ?d' = "update_order oid (\<lambda>x. x\<lparr>quantity := n\<rparr>)
               (set_available (order_book_id od) (available_copies bk + quantity od - n) d)"
  have "student_edit_order cu oid f d = Inr ?d'"
    using assms(2-6) n by (simp add: student_edit_order_def Let_def)
  moreover have "get_book ?d' (order_book_id od) =
      Some (bk\<lparr>available_copies := available_copies bk + quantity od - n\<rparr>)"
    using book_set_available [OF assms(5)] by simp
  moreover have "get_order ?d' oid = Some (od\<lparr>quantity := n\<rparr>)"
    using assms(2) by (simp add: get_order_def update_order_def find_key_update_key_same)
  ultimately show "\<exists>d'. student_edit_order cu oid f d = Inr d' \<and>
            get_book d' (order_book_id od) =
              Some (bk\<lparr>available_copies := available_copies bk + quantity od - n\<rparr>) \<and>
            get_order d' oid = Some (od\<lparr>quantity := n\<rparr>)"
    by blast
qed

lemma demo2_order1: "get_order demo_db2 1 = Some
    \<lparr>order_id = 1, order_user_id = 7, order_book_id = 1, quantity = 2, status = Pending,
     payment_method = None, payment_status = ''unpaid''\<rparr>"
  by (simp add: demo_defs get_order_def table_simps)

lemma demo2_book1: "get_book demo_db2 1 = Some (demo_book\<lparr>available_copies := 2\<rparr>)"
  by (simp add: demo_defs get_book_def table_simps)

text \<open>
  The witness is the spec's example shifted to the sample state: two copies free and a
  pending order of two, so four is accepted (leaving none) and five is out of range.
\<close>

theorem student_edit_order_bound_witness:
  "(\<exists>d'. student_edit_order alice 1 (Some ''4'') demo_db2 = Inr d' \<and>
      get_book d' 1 = Some (demo_book\<lparr>available_copies := 0\<rparr>)) \<and>
   \<not> (\<exists>d'. student_edit_order alice 1 (Some ''5'') demo_db2 = Inr d' \<and>
      get_book d' 1 = Some (demo_book\<lparr>available_copies := -1\<rparr>) \<and>
      get_order d' 1 = Some \<lparr>order_id = 1, order_user_id = 7, order_book_id = 1, quantity = 5,
        status = Pending, payment_method = None, payment_status = ''unpaid''\<rparr>)"
proof -
  have f4: "form_int (Some ''4'') 2 = Some 4" and f5: "form_int (Some ''5'') 2 = Some 5"
    by (simp_all add: py_int_eval)
  let ?od = "\<lparr>order_id = 1, order_user_id = 7, order_book_id = 1, quantity = 2,
      status = Pending, payment_method = None, payment_status = ''unpaid''\<rparr>"
  have u: "order_user_id ?od = user_id alice" by (simp add: alice_def)
  have st: "status ?od = Pending" by simp
  have b: "get_book demo_db2 (order_book_id ?od) = Some (demo_book\<lparr>available_copies := 2\<rparr>)"
    using demo2_book1 by simp
  have q4: "form_int (Some ''4'') (quantity ?od) = Some 4"
    and q5: "form_int (Some ''5'') (quantity ?od) = Some 5"
    using f4 f5 by simp_all
  note e4 = student_edit_order_bound [OF demo2_wf demo2_order1 u st b q4]
  note e5 = student_edit_order_bound [OF demo2_wf demo2_order1 u st b q5]
  from e4 e5 show ?thesis by (simp add: demo_book_def) blast
qed

lemma student_edit_order_keeps_inv:
  assumes "student_edit_order cu oid f d = Inr d'" "inventory_inv d"
  shows "inventory_inv d'"
proof -
  note parts = inventory_inv_parts [OF assms(2)]
  from assms(1) obtain od n bk where od: "get_order d oid = Some od" "status od = Pending"
    and bk: "get_book d (order_book_id od) = Some bk"
    and n: "1 \<le> n" "n \<le> available_copies bk + quantity od"
    and d': "d' = update_order oid (\<lambda>x. x\<lparr>quantity := n\<rparr>)
               (set_available (order_book_id od) (available_copies bk + quantity od - n) d)"
    by (auto simp: student_edit_order_Inr)
  have r: "reserved d' b = reserved d b
             + (if order_book_id od = b then n - quantity od else 0)" for b
    using d' reserved_order_update(1) [OF parts(1) od(1)] od(2)
    by (simp add: order_claim_def active_def)
  show ?thesis
  proof (rule inventory_inv_step [OF assms(2) bk,
        where v = "available_copies bk + quantity od - n"])
    show "books d' = books (set_available (order_book_id od)
            (available_copies bk + quantity od - n) d)" using d' by simp
    show "wf_db d'" using d' parts(1) by (simp add: wf_db_update_order)
    show "positive_claims d'"
      using d' parts(3) n(1) by (auto intro: positive_claims_update_order)
  qed (insert n, simp_all add: r)
qed

text \<open>Editing a pending order keeps the inventory invariant.\<close>

theorem student_edit_order_inventory_inv:
  "student_edit_order cu oid f d = Inr d' \<Longrightarrow> inventory_inv d \<Longrightarrow> inventory_inv d'"
  by (rule student_edit_order_keeps_inv)

theorem student_edit_order_inventory_inv_witness:
  "case student_edit_order alice 1 (Some ''3'') demo_db2 of Inl _ \<Rightarrow> False
   | Inr d' \<Rightarrow> inventory_inv d'"
proof -
  have "\<exists>d'. student_edit_order alice 1 (Some ''3'') demo_db2 = Inr d'"
    by (simp add: student_edit_order_def demo_defs py_int_eval row_access_defs table_simps)
  then obtain d' where r: "student_edit_order alice 1 (Some ''3'') demo_db2 = Inr d'" by blast
  from student_edit_order_inventory_inv [OF r demo2_inventory_inv] r show ?thesis by simp
qed

lemma student_cancel_order_keeps_inv:
  assumes "student_cancel_order cu oid d = Inr d'" "inventory_inv d"
  shows "inventory_inv d'"
proof -
  note parts = inventory_inv_parts [OF assms(2)]
  from assms(1) obtain od bk where od: "get_order d oid = Some od" "status od = Pending"
    and bk: "get_book d (order_book_id od) = Some bk"
    and d': "d' = update_order oid (\<lambda>x. x\<lparr>status := Canceled\<rparr>)
               (set_available (order_book_id od) (available_copies bk + quantity od) d)"
    by (auto simp: student_cancel_order_Inr)
  have r: "reserved d' b = reserved d b - (if order_book_id od = b then quantity od else 0)" for b
    using d' reserved_order_update(1) [OF parts(1) od(1)] od(2)
    by (simp add: order_claim_def active_def)
  have q: "0 < quantity od" using parts(3) get_order_mem [OF od(1)]
    by (simp add: positive_claims_def)
  have a: "0 \<le> available_copies bk" using parts(4) bk by (auto simp: nonneg_stock_def get_book_def)
  show ?thesis
  proof (rule inventory_inv_step [OF assms(2) bk, where v = "available_copies bk + quantity od"])
    show "books d' = books (set_available (order_book_id od)
            (available_copies bk + quantity od) d)" using d' by simp
    show "wf_db d'" using d' parts(1) by (simp add: wf_db_update_order)
    show "positive_claims d'"
      using d' parts(3) by (auto intro: positive_claims_update_order)
  qed (insert q a, simp_all add: r)
qed

text \<open>A student's cancel of their pending order keeps the inventory invariant.\<close>

theorem student_cancel_order_inventory_inv:
  "student_cancel_order cu oid d = Inr d' \<Longrightarrow> inventory_inv d \<Longrightarrow> inventory_inv d'"
  by (rule student_cancel_order_keeps_inv)

theorem student_cancel_order_inventory_inv_witness:
  "case student_cancel_order alice 1 demo_db2 of Inl _ \<Rightarrow> False | Inr d' \<Rightarrow> inventory_inv d'"
proof -
  have "\<exists>d'. student_cancel_order alice 1 demo_db2 = Inr d'"
    by (simp add: student_cancel_order_def demo_defs row_access_defs table_simps)
  then obtain d' where r: "student_cancel_order alice 1 demo_db2 = Inr d'" by blast
  from student_cancel_order_inventory_inv [OF r demo2_inventory_inv] r show ?thesis by simp
qed


subsection \<open>Admin approve and cancel\<close>

lemma admin_approve_order_keeps_inv:
  assumes "admin_approve_order cu oid d = Inr d'" "inventory_inv d"
    "get_order d oid = Some od" "active (status od)"
  shows "inventory_inv d'"
proof -
  note parts = inventory_inv_parts [OF assms(2)]
  from assms(1,3) have d': "d' = update_order oid (\<lambda>x. x\<lparr>status := Approved\<rparr>) d"
    by (auto simp: admin_approve_order_Inr)
  have "reserved d' b = reserved d b" for b
    using d' reserved_update_order [OF wf_db_distinct(2) [OF parts(1)] assms(3)] assms(4)
    by (simp add: order_claim_def active_def)
  then have "conserved d'" using parts(2) d' by (simp add: conserved_def)
  moreover have "wf_db d'" using d' parts(1) by (simp add: wf_db_update_order)
  moreover have "positive_claims d'" using d' parts(3) by (auto intro: positive_claims_update_order)
  moreover have "nonneg_stock d'" using d' parts(4) by (simp add: nonneg_stock_def)
  ultimately show ?thesis by (simp add: inventory_inv_def)
qed

text \<open>
  Approving an order that still holds its copies (pending or approved) keeps the
  inventory invariant: the claim moves from one active status to another.
\<close>

theorem admin_approve_order_inventory_inv:
  "admin_approve_order cu oid d = Inr d' \<Longrightarrow> inventory_inv d \<Longrightarrow>
   get_order d oid = Some od \<Longrightarrow> active (status od) \<Longrightarrow> inventory_inv d'"
  by (rule admin_approve_order_keeps_inv)

theorem admin_approve_order_inventory_inv_witness:
  "case admin_approve_order admin 1 demo_db2 of Inl _ \<Rightarrow> False | Inr d' \<Rightarrow> inventory_inv d'"
proof -
  have "\<exists>d'. admin_approve_order admin 1 demo_db2 = Inr d'"
    by (simp add: admin_approve_order_def demo_defs row_access_defs table_simps)
  then obtain d' where r: "admin_approve_order admin 1 demo_db2 = Inr d'" by blast
  have a: "active (status \<lparr>order_id = 1, order_user_id = 7, order_book_id = 1, quantity = 2,
      status = Pending, payment_method = None, payment_status = ''unpaid''\<rparr>)"
    by (simp add: active_def)
  from admin_approve_order_inventory_inv [OF r demo2_inventory_inv demo2_order1 a] r
  show ?thesis by simp
qed

lemma admin_cancel_order_keeps_inv:
  assumes "admin_cancel_order cu oid d = Inr d'" "inventory_inv d"
    "get_order d oid = Some od" "active (status od)"
  shows "inventory_inv d'"
proof -
  note parts = inventory_inv_parts [OF assms(2)]
  from assms(1,3) obtain bk where bk: "get_book d (order_book_id od) = Some bk"
    and d': "d' = set_available (order_book_id od) (available_copies bk + quantity od)
                    (update_order oid (\<lambda>x. x\<lparr>status := Canceled\<rparr>) d)"
    by (auto simp: admin_cancel_order_Inr)
  have r: "reserved d' b = reserved d b - (if order_book_id od = b then quantity od else 0)" for b
    using d' reserved_order_update(2) [OF parts(1) assms(3)] assms(4)
    by (simp add: order_claim_def active_def)
  have q: "0 < quantity od" using parts(3) get_order_mem [OF assms(3)]
    by (simp add: positive_claims_def)
  have a: "0 \<le> available_copies bk" using parts(4) bk by (auto simp: nonneg_stock_def get_book_def)
  show ?thesis
  proof (rule inventory_inv_step [OF assms(2) bk, where v = "available_copies bk + quantity od"])
    show "books d' = books (set_available (order_book_id od)
            (available_copies bk + quantity od) d)" using d' by (simp add: set_available_def)
    show "wf_db d'" using d' parts(1) by (simp add: wf_db_update_order)
    show "positive_claims d'"
      using d' parts(3) by (auto intro: positive_claims_update_order)
  qed (insert q a, simp_all add: r)
qed

text \<open>
  An admin's cancel of an order that holds its copies keeps the inventory invariant:
  the order's quantity goes back to \<open>available_copies\<close> as its claim ends.
\<close>

theorem admin_cancel_order_inventory_inv:
  "admin_cancel_order cu oid d = Inr d' \<Longrightarrow> inventory_inv d \<Longrightarrow>
   get_order d oid = Some od \<Longrightarrow> active (status od) \<Longrightarrow> inventory_inv d'"
  by (rule admin_cancel_order_keeps_inv)

lemma demo2_order2: "get_order demo_db2 2 = Some
    \<lparr>order_id = 2, order_user_id = 8, order_book_id = 2, quantity = 4, status = Approved,
     payment_method = None, payment_status = ''unpaid''\<rparr>"
  by (simp add: demo_defs get_order_def table_simps)

theorem admin_cancel_order_inventory_inv_witness:
  "case admin_cancel_order admin 2 demo_db2 of Inl _ \<Rightarrow> False | Inr d' \<Rightarrow> inventory_inv d'"
proof -
  have "\<exists>d'. admin_cancel_order admin 2 demo_db2 = Inr d'"
    by (simp add: admin_cancel_order_def demo_defs row_access_defs table_simps)
  then obtain d' where r: "admin_cancel_order admin 2 demo_db2 = Inr d'" by blast
  have a: "active (status \<lparr>order_id = 2, order_user_id = 8, order_book_id = 2, quantity = 4,
      status = Approved, payment_method = None, payment_status = ''unpaid''\<rparr>)"
    by (simp add: active_def)
  from admin_cancel_order_inventory_inv [OF r demo2_inventory_inv demo2_order2 a] r
  show ?thesis by simp
qed

text \<open>
  C18. The spec's scenario for an admin cancel (section 8): an approved order of four on
  a book with one copy free out of ten. The first cancel gives the four copies back and
  marks the order canceled, as specified. The spec requires a second cancel to fail with
  \<open>InvalidState\<close>; \<open>admin_cancel_order\<close> has no status check, so the second cancel
  succeeds and credits the four copies again, breaking conservation, and a third pushes
  \<open>available_copies\<close> above \<open>total_copies\<close>.
\<close>

theorem admin_cancel_order_twice_recredits:
  "case admin_cancel_order admin 2 demo_db2 of
     Inl _ \<Rightarrow> False
   | Inr d1 \<Rightarrow>
       map_option available_copies (get_book d1 2) = Some 5 \<and>
       map_option status (get_order d1 2) = Some Canceled \<and>
       (case admin_cancel_order admin 2 d1 of
          Inl _ \<Rightarrow> False
        | Inr d2 \<Rightarrow>
            map_option available_copies (get_book d2 2) = Some 9 \<and> \<not> conserved d2 \<and>
            (case admin_cancel_order admin 2 d2 of
               Inl _ \<Rightarrow> False
             | Inr d3 \<Rightarrow> \<not> stock_ok d3))"
  by (simp add: admin_cancel_order_def demo_defs row_access_defs table_simps
      conserved_def stock_ok_def reserved_def order_claim_def cart_claim_def active_def)

text \<open>
  C19. \<open>admin_approve_order\<close> has no status check either: approving an order the
  student has already canceled revives its claim without debiting the book, so
  conservation breaks, and a later admin cancel of the revived order credits the copies a
  second time, beyond \<open>total_copies\<close>.
\<close>

theorem approve_after_cancel_breaks_ledger:
  "case student_cancel_order alice 1 demo_db2 of
     Inl _ \<Rightarrow> False
   | Inr d1 \<Rightarrow>
       (case admin_approve_order admin 1 d1 of
          Inl _ \<Rightarrow> False
        | Inr d2 \<Rightarrow>
            \<not> conserved d2 \<and>
            (case admin_cancel_order admin 1 d2 of
               Inl _ \<Rightarrow> False
             | Inr d3 \<Rightarrow> \<not> stock_ok d3))"
  by (simp add: student_cancel_order_def admin_approve_order_def admin_cancel_order_def
      demo_defs row_access_defs table_simps
      conserved_def stock_ok_def reserved_def order_claim_def cart_claim_def active_def)

subsection \<open>Resubmitting the edit form\<close>

text \<open>
  C33. The edit page renders the order's quantity into the form as \<open>str(quantity)\<close>.
  Posting it back unchanged is a no-op: \<open>int()\<close> reads back the same quantity, it lies
  within \<open>1 \<dots> available + quantity\<close>, and the handler writes back exactly the
  values it read. The round trip holds for every pending order of the caller whose book
  exists, in every state with the inventory invariant.
\<close>

theorem edit_prefilled_form_is_noop:
  assumes inv: "inventory_inv d" and od: "get_order d oid = Some od"
    and own: "order_user_id od = user_id cu" and st: "status od = Pending"
    and bk: "get_book d (order_book_id od) = Some bk"
  shows "student_edit_order cu oid (Some (py_str (quantity od))) d = Inr d"
proof -
  note parts = inventory_inv_parts [OF inv]
  have q: "form_int (Some (py_str (quantity od))) (quantity od) = Some (quantity od)"
    by (simp add: form_int_def py_int_py_str)
  have pos: "0 < quantity od"
    using parts(3) get_order_mem [OF od] by (simp add: positive_claims_def)
  have nn: "0 \<le> available_copies bk"
    using parts(4) bk by (auto simp: nonneg_stock_def get_book_def)
  have b: "set_available (order_book_id od) (available_copies bk) d = d"
    using update_key_fixed [OF wf_db_distinct(1) [OF parts(1)] bk [unfolded get_book_def]]
    by (simp add: set_available_def)
  have o: "update_order oid (\<lambda>x. x\<lparr>quantity := quantity od\<rparr>) d = d"
    using update_key_fixed [OF wf_db_distinct(2) [OF parts(1)] od [unfolded get_order_def]]
    by (simp add: update_order_def)
  show ?thesis
    using od own st bk q pos nn b o by (simp add: student_edit_order_def Let_def)
qed

theorem edit_prefilled_form_is_noop_witness:
  "student_edit_order alice 1 (Some (py_str 2)) demo_db2 = Inr demo_db2"
proof -
  let ?od = "\<lparr>order_id = 1, order_user_id = 7, order_book_id = 1, quantity = 2,
      status = Pending, payment_method = None, payment_status = ''unpaid''\<rparr>"
  have u: "order_user_id ?od = user_id alice" by (simp add: alice_def)
  have s: "status ?od = Pending" by simp
  have b: "get_book demo_db2 (order_book_id ?od) = Some (demo_book\<lparr>available_copies := 2\<rparr>)"
    using demo2_book1 by simp
  from edit_prefilled_form_is_noop [OF demo2_inventory_inv demo2_order1 u s b]
  show ?thesis by simp
qed

end
