(* ===== verification/Checkout.thy ===== *)
theory Checkout
  imports Ledger
begin

text \<open>
  The checkout transaction of \<open>src/app.py\<close> (\<open>cart_checkout\<close>): every cart line of
  the user becomes a pending order with the form's payment method, and the line is
  deleted; the ledger is not touched, because the cart line already holds the copies. The
  loop over the lines is \<open>checkout_items\<close>, structural recursion over the list the query
  returned; the whole loop runs before the single \<open>commit\<close>, so the model returns only
  the final state. The lemmas show that the claims move from cart lines to orders one for
  one, so conservation and the whole inventory invariant are kept.
\<close>

primrec checkout_items :: "user_id \<Rightarrow> string \<Rightarrow> cart_item list \<Rightarrow> db \<Rightarrow> db" where
  "checkout_items u pm [] d = d"
| "checkout_items u pm (item # items) d =
     checkout_items u pm items
       (delete_cart (cart_id item)
         (add_order u (cart_book_id item) (cart_quantity item) Pending (Some pm) d))"

definition cart_checkout :: "user \<Rightarrow> string option \<Rightarrow> db \<Rightarrow> error + db" where
  "cart_checkout cu pm_field d =
     (let cart_items = user_cart d (user_id cu);
          payment_method = (case pm_field of None \<Rightarrow> ''mock'' | Some s \<Rightarrow> s)
      in if cart_items = [] then Inl CartEmpty
         else Inr (checkout_items (user_id cu) payment_method cart_items d))"

text \<open>The orders the loop appends, numbered from the next free key.\<close>

fun lines_to_orders :: "order_id \<Rightarrow> user_id \<Rightarrow> string \<Rightarrow> cart_item list \<Rightarrow> order list" where
  "lines_to_orders n u pm [] = []"
| "lines_to_orders n u pm (c # cs) =
     \<lparr>order_id = n, order_user_id = u, order_book_id = cart_book_id c,
      quantity = cart_quantity c, status = Pending, payment_method = Some pm,
      payment_status = ''unpaid''\<rparr> # lines_to_orders (Suc n) u pm cs"

subsection \<open>The loop\<close>

lemma books_checkout_items [simp]: "books (checkout_items u pm items d) = books d"
  by (induction items arbitrary: d) (simp_all add: delete_cart_def add_order_def)

lemma next_book_id_checkout_items [simp]:
  "next_book_id (checkout_items u pm items d) = next_book_id d"
  by (induction items arbitrary: d) (simp_all add: delete_cart_def add_order_def)

lemma orders_checkout_items:
  "orders (checkout_items u pm items d) = orders d @ lines_to_orders (next_order_id d) u pm items"
  by (induction items arbitrary: d) (simp_all add: delete_cart_def add_order_def)

lemma next_order_id_checkout_items:
  "next_order_id (checkout_items u pm items d) = next_order_id d + length items"
  by (induction items arbitrary: d) (simp_all add: delete_cart_def add_order_def)

lemma carts_checkout_items:
  "carts (checkout_items u pm items d) = filter (\<lambda>c. cart_id c \<notin> cart_id ` set items) (carts d)"
proof (induction items arbitrary: d)
  case Nil
  then show ?case by simp
next
  case (Cons item items)
  then show ?case
    by (simp add: delete_cart_def add_order_def delete_key_def conj_commute)
qed

text \<open>One round of the loop moves one line's claim to the new order.\<close>

lemma reserved_checkout_step:
  assumes "distinct (map cart_id (carts d))" "item \<in> set (carts d)"
  shows "reserved (delete_cart (cart_id item)
            (add_order u (cart_book_id item) (cart_quantity item) Pending (Some pm) d)) b
         = reserved d b"
proof -
  let ?d1 = "add_order u (cart_book_id item) (cart_quantity item) Pending (Some pm) d"
  have "distinct (map cart_id (carts ?d1))" using assms(1) by (simp add: add_order_def)
  moreover have "get_cart ?d1 (cart_id item) = Some item"
    using find_key_of_mem [OF assms] by (simp add: get_cart_def add_order_def)
  ultimately have "reserved (delete_cart (cart_id item) ?d1) b = reserved ?d1 b - cart_claim b item"
    by (rule reserved_delete_cart)
  then show ?thesis by (simp add: reserved_add_order cart_claim_def active_def)
qed

lemma reserved_checkout_items:
  assumes "distinct (map cart_id (carts d))" "distinct (map cart_id items)"
    "set items \<subseteq> set (carts d)"
  shows "reserved (checkout_items u pm items d) b = reserved d b"
  using assms
proof (induction items arbitrary: d)
  case Nil
  then show ?case by simp
next
  case (Cons item items)
  let ?d1 = "delete_cart (cart_id item)
               (add_order u (cart_book_id item) (cart_quantity item) Pending (Some pm) d)"
  have "distinct (map cart_id (carts ?d1))"
    using Cons.prems(1) by (simp add: delete_cart_def add_order_def)
  moreover have "set items \<subseteq> set (carts ?d1)"
    using Cons.prems(2,3) by (auto simp: delete_cart_def add_order_def image_iff)
  ultimately have "reserved (checkout_items u pm items ?d1) b = reserved ?d1 b"
    using Cons.IH Cons.prems(2) by simp
  also have "\<dots> = reserved d b"
    using Cons.prems(1,3) by (simp add: reserved_checkout_step)
  finally show ?case by simp
qed


lemma wf_db_checkout_items: "wf_db d \<Longrightarrow> wf_db (checkout_items u pm items d)"
  by (induction items arbitrary: d) (simp_all add: wf_db_add_order wf_db_delete_cart)

lemma positive_claims_checkout_items:
  "positive_claims d \<Longrightarrow> \<forall>c\<in>set items. 0 < cart_quantity c \<Longrightarrow>
   positive_claims (checkout_items u pm items d)"
proof (induction items arbitrary: d)
  case Nil
  then show ?case by simp
next
  case (Cons item items)
  have "positive_claims (add_order u (cart_book_id item) (cart_quantity item) Pending (Some pm) d)"
    using Cons.prems by (simp add: positive_claims_add_order)
  then have "positive_claims (delete_cart (cart_id item)
      (add_order u (cart_book_id item) (cart_quantity item) Pending (Some pm) d))"
    by (simp add: positive_claims_def delete_cart_def)
  with Cons.IH Cons.prems(2) show ?case by simp
qed

lemma user_cart_checkout_items:
  assumes "distinct (map cart_id (carts d))"
  shows "user_cart (checkout_items u pm (user_cart d u) d) v = (if v = u then [] else user_cart d v)"
proof -
  have same: "c = c'" if "c \<in> set (carts d)" "c' \<in> set (carts d)" "cart_id c = cart_id c'" for c c'
    using that assms by (metis find_key_of_mem option.inject)
  show ?thesis
    by (auto simp: user_cart_def carts_checkout_items filter_empty_conv image_iff
        intro!: filter_cong dest: same)
qed

lemma cart_checkout_Inr:
  "cart_checkout cu pmf d = Inr d' \<longleftrightarrow>
     user_cart d (user_id cu) \<noteq> [] \<and>
     d' = checkout_items (user_id cu) (case pmf of None \<Rightarrow> ''mock'' | Some s \<Rightarrow> s)
            (user_cart d (user_id cu)) d"
  by (auto simp: cart_checkout_def Let_def)

lemma user_cart_sub: "set (user_cart d u) \<subseteq> set (carts d)"
  by (auto simp: user_cart_def)

lemma distinct_user_cart: "distinct (map cart_id (carts d)) \<Longrightarrow> distinct (map cart_id (user_cart d u))"
  by (simp add: user_cart_def distinct_map_filter)

subsection \<open>Properties of checkout\<close>

text \<open>
  C20. Checkout converts the caller's cart into orders and touches nothing else: the book
  table and every book's claims are unchanged (the copies stay reserved, now by orders),
  one pending order per cart line is appended with the line's book and quantity and the
  form's payment method, the caller's cart is empty and every other cart is as before
  (spec, section 8).
\<close>

theorem cart_checkout_converts_lines:
  assumes "cart_checkout cu pmf d = Inr d'" "wf_db d"
  shows "books d' = books d \<and> (\<forall>b. reserved d' b = reserved d b) \<and>
         orders d' = orders d @ lines_to_orders (next_order_id d) (user_id cu)
                       (case pmf of None \<Rightarrow> ''mock'' | Some s \<Rightarrow> s) (user_cart d (user_id cu)) \<and>
         user_cart d' (user_id cu) = [] \<and>
         (\<forall>v. v \<noteq> user_id cu \<longrightarrow> user_cart d' v = user_cart d v)"
proof -
  let ?pm = "case pmf of None \<Rightarrow> ''mock'' | Some s \<Rightarrow> s"
  have d': "d' = checkout_items (user_id cu) ?pm (user_cart d (user_id cu)) d"
    using assms(1) by (simp add: cart_checkout_Inr)
  have dist: "distinct (map cart_id (carts d))" by (rule wf_db_distinct(3) [OF assms(2)])
  have "\<forall>b. reserved d' b = reserved d b"
    using d' reserved_checkout_items [OF dist distinct_user_cart [OF dist] user_cart_sub] by simp
  moreover have "user_cart d' v = (if v = user_id cu then [] else user_cart d v)" for v
    using d' user_cart_checkout_items [OF dist] by simp
  ultimately show ?thesis using d' by (simp add: orders_checkout_items)
qed

theorem cart_checkout_converts_lines_witness:
  "case cart_checkout alice None demo_db2 of Inl _ \<Rightarrow> False
   | Inr d' \<Rightarrow> books d' = books demo_db2 \<and> user_cart d' 7 = [] \<and>
       user_cart d' 8 = user_cart demo_db2 8 \<and>
       orders d' = orders demo_db2 @
         [\<lparr>order_id = 3, order_user_id = 7, order_book_id = 1, quantity = 1, status = Pending,
           payment_method = Some ''mock'', payment_status = ''unpaid''\<rparr>]"
proof -
  have "\<exists>d'. cart_checkout alice None demo_db2 = Inr d'"
    by (simp add: cart_checkout_def demo_defs user_cart_def)
  then obtain d' where r: "cart_checkout alice None demo_db2 = Inr d'" by blast
  have l: "user_cart demo_db2 (user_id alice) =
      [\<lparr>cart_id = 1, cart_user_id = 7, cart_book_id = 1, cart_quantity = 1\<rparr>]"
    by (simp add: demo_defs user_cart_def)
  have n: "next_order_id demo_db2 = 3" by (simp add: demo_defs)
  from cart_checkout_converts_lines [OF r demo2_wf] r l n show ?thesis
    by (simp add: alice_def)
qed

lemma cart_checkout_keeps_inv:
  assumes "cart_checkout cu pmf d = Inr d'" "inventory_inv d"
  shows "inventory_inv d'"
proof -
  note parts = inventory_inv_parts [OF assms(2)]
  let ?pm = "case pmf of None \<Rightarrow> ''mock'' | Some s \<Rightarrow> s"
  have d': "d' = checkout_items (user_id cu) ?pm (user_cart d (user_id cu)) d"
    using assms(1) by (simp add: cart_checkout_Inr)
  have dist: "distinct (map cart_id (carts d))" by (rule wf_db_distinct(3) [OF parts(1)])
  have r: "reserved d' b = reserved d b" for b
    using d' reserved_checkout_items [OF dist distinct_user_cart [OF dist] user_cart_sub] by simp
  have "conserved d'" using parts(2) d' r by (simp add: conserved_def)
  moreover have "wf_db d'" using d' parts(1) by (simp add: wf_db_checkout_items)
  moreover have "positive_claims d'"
  proof -
    have "\<forall>c\<in>set (user_cart d (user_id cu)). 0 < cart_quantity c"
      using parts(3) user_cart_sub [of d "user_id cu"] by (auto simp: positive_claims_def)
    from positive_claims_checkout_items [OF parts(3) this] d' show ?thesis by simp
  qed
  moreover have "nonneg_stock d'" using d' parts(4) by (simp add: nonneg_stock_def)
  ultimately show ?thesis by (simp add: inventory_inv_def)
qed

text \<open>Checkout keeps the inventory invariant.\<close>

theorem cart_checkout_inventory_inv:
  "cart_checkout cu pmf d = Inr d' \<Longrightarrow> inventory_inv d \<Longrightarrow> inventory_inv d'"
  by (rule cart_checkout_keeps_inv)

theorem cart_checkout_inventory_inv_witness:
  "case cart_checkout bob (Some ''paypal'') demo_db2 of Inl _ \<Rightarrow> False
   | Inr d' \<Rightarrow> inventory_inv d'"
proof -
  have "\<exists>d'. cart_checkout bob (Some ''paypal'') demo_db2 = Inr d'"
    by (simp add: cart_checkout_def demo_defs user_cart_def)
  then obtain d' where r: "cart_checkout bob (Some ''paypal'') demo_db2 = Inr d'" by blast
  from cart_checkout_inventory_inv [OF r demo2_inventory_inv] r show ?thesis by simp
qed

end
