(* ===== verification/Catalog.thy ===== *)
theory Catalog
  imports Ledger
begin

text \<open>
  Catalog administration of \<open>src/app.py\<close> (\<open>admin_add_book\<close>, \<open>admin_edit_book\<close>,
  \<open>admin_delete_book\<close>)
  with the \<open>BookForm\<close> of \<open>src/forms.py\<close>. A submitted form is the record
  \<open>book_form\<close>: the text inputs as strings and the \<open>total_copies\<close> input as the raw
  string, \<open>None\<close> when absent (the \<open>IntegerField\<close> then keeps its default: \<open>1\<close> on
  add, the book's value on edit). \<open>validate_on_submit\<close> is \<open>DataRequired\<close> on title and
  author (not blank after \<open>strip()\<close>) and \<open>int()\<close> on the integer field. The price
  field is not modelled. Adding a book sets both counters to the form's total (\<open>or 1\<close>
  turns 0 into 1); editing writes \<open>total_copies\<close> and leaves \<open>available_copies\<close>
  alone, which is where the ledger can go wrong.
\<close>

record book_form =
  form_title :: string
  form_author :: string
  form_genre :: string
  form_isbn :: string
  form_total :: "string option"

definition form_valid :: "book_form \<Rightarrow> bool" where
  "form_valid form \<longleftrightarrow> py_strip (form_title form) \<noteq> [] \<and> py_strip (form_author form) \<noteq> []"

definition add_book :: "book \<Rightarrow> db \<Rightarrow> db" where
  "add_book b d = d\<lparr>books := books d @ [b\<lparr>book_id := next_book_id d\<rparr>],
                    next_book_id := Suc (next_book_id d)\<rparr>"

definition update_book :: "book_id \<Rightarrow> (book \<Rightarrow> book) \<Rightarrow> db \<Rightarrow> db" where
  "update_book i f d = d\<lparr>books := update_key book_id i f (books d)\<rparr>"

definition admin_add_book :: "user \<Rightarrow> book_form \<Rightarrow> db \<Rightarrow> error + db" where
  "admin_add_book cu form d =
     (if role cu \<noteq> Admin then Inl NotAuthorized
      else case form_int (form_total form) 1 of
        None \<Rightarrow> Inl InvalidForm
      | Some t \<Rightarrow>
          if \<not> form_valid form then Inl InvalidForm
          else
            let total = (if t = 0 then 1 else t) in
            Inr (add_book
                   \<lparr>book_id = next_book_id d, title = form_title form, author = form_author form,
                    genre = (if form_genre form = [] then ''General'' else form_genre form),
                    isbn = Some (form_isbn form), total_copies = total,
                    available_copies = total\<rparr> d))"

definition admin_edit_book :: "user \<Rightarrow> book_id \<Rightarrow> book_form \<Rightarrow> db \<Rightarrow> error + db" where
  "admin_edit_book cu bid form d =
     (if role cu \<noteq> Admin then Inl NotAuthorized
      else case get_book d bid of
        None \<Rightarrow> Inl NotFound
      | Some bk \<Rightarrow>
          (case form_int (form_total form) (total_copies bk) of
             None \<Rightarrow> Inl InvalidForm
           | Some t \<Rightarrow>
               if \<not> form_valid form then Inl InvalidForm
               else Inr (update_book bid
                           (\<lambda>b. b\<lparr>title := form_title form, author := form_author form,
                                 genre := form_genre form, isbn := Some (form_isbn form),
                                 total_copies := t\<rparr>) d)))"

text \<open>
  \<open>admin_delete_book\<close>: \<open>db.session.delete(book)\<close> and the commit. On flush SQLAlchemy
  deletes the book's rows of the \<open>wishlist\<close> association table. For the one-to-many
  relationships without a delete cascade it sets the foreign key of each child to NULL.
  \<open>Order.book_id\<close> is nullable, so every order of the book loses its book
  (\<open>null_book\<close>: the key 0, which SQLite never assigns, stands for NULL, so that
  \<open>get_book\<close> finds nothing, as \<open>order.book\<close> is then \<open>None\<close>). \<open>Cart.book_id\<close> is
  \<open>nullable=False\<close>, so a cart line on the book makes the flush fail with an
  \<open>IntegrityError\<close>: HTTP 500 and nothing committed.
\<close>

definition null_book :: book_id where
  "null_book = 0"

definition delete_book :: "book_id \<Rightarrow> db \<Rightarrow> db" where
  "delete_book bid d =
     d\<lparr>books := delete_key book_id bid (books d),
       orders := map (\<lambda>od. if order_book_id od = bid then od\<lparr>order_book_id := null_book\<rparr> else od)
                   (orders d),
       wishlist := filter (\<lambda>p. snd p \<noteq> bid) (wishlist d)\<rparr>"

definition admin_delete_book :: "user \<Rightarrow> book_id \<Rightarrow> db \<Rightarrow> error + db" where
  "admin_delete_book cu bid d =
     (if role cu \<noteq> Admin then Inl NotAuthorized
      else case get_book d bid of
        None \<Rightarrow> Inl NotFound
      | Some bk \<Rightarrow>
          if list_ex (\<lambda>c. cart_book_id c = bid) (carts d) then Inl ServerError
          else Inr (delete_book bid d))"

subsection \<open>Adding a book\<close>

lemma admin_add_book_Inr:
  "admin_add_book cu form d = Inr d' \<longleftrightarrow>
     role cu = Admin \<and> form_valid form \<and>
     (\<exists>t. form_int (form_total form) 1 = Some t \<and>
        d' = add_book
               \<lparr>book_id = next_book_id d, title = form_title form, author = form_author form,
                genre = (if form_genre form = [] then ''General'' else form_genre form),
                isbn = Some (form_isbn form), total_copies = (if t = 0 then 1 else t),
                available_copies = (if t = 0 then 1 else t)\<rparr> d)"
  by (auto simp: admin_add_book_def Let_def split: option.splits)

lemma books_add_book [simp]: "books (add_book b d) = books d @ [b\<lparr>book_id := next_book_id d\<rparr>]"
  by (simp add: add_book_def)

lemma reserved_add_book [simp]: "reserved (add_book b d) i = reserved d i"
  by (simp add: reserved_def add_book_def)

lemma add_book_keeps_inv:
  assumes "inventory_inv d" "0 \<le> available_copies b" "available_copies b = total_copies b"
    "\<forall>c\<in>set (carts d). cart_book_id c \<noteq> next_book_id d"
    "\<forall>od\<in>set (orders d). order_book_id od \<noteq> next_book_id d"
  shows "inventory_inv (add_book b d)"
proof -
  note parts = inventory_inv_parts [OF assms(1)]
  have r0: "reserved d (next_book_id d) = 0"
    using assms(4,5) by (simp add: reserved_def order_claim_def cart_claim_def sum_list_zero)
  have "wf_db (add_book b d)"
    using parts(1) by (simp add: wf_db_def add_book_def keys_ok_append_fresh)
  moreover have "conserved (add_book b d)"
    using parts(2) r0 assms(3) by (auto simp: conserved_def)
  moreover have "positive_claims (add_book b d)"
    using parts(3) by (simp add: positive_claims_def add_book_def)
  moreover have "nonneg_stock (add_book b d)"
    using parts(4) assms(2) by (simp add: nonneg_stock_def)
  ultimately show ?thesis by (simp add: inventory_inv_def)
qed


lemma admin_add_book_keeps_inv:
  assumes "admin_add_book cu form d = Inr d'" "inventory_inv d"
    "\<forall>c\<in>set (carts d). cart_book_id c < next_book_id d"
    "\<forall>od\<in>set (orders d). order_book_id od < next_book_id d"
    "case form_int (form_total form) 1 of None \<Rightarrow> True | Some t \<Rightarrow> 0 \<le> t"
  shows "inventory_inv d'"
proof -
  from assms(1) obtain t where t: "form_int (form_total form) 1 = Some t"
    and d': "d' = add_book
               \<lparr>book_id = next_book_id d, title = form_title form, author = form_author form,
                genre = (if form_genre form = [] then ''General'' else form_genre form),
                isbn = Some (form_isbn form), total_copies = (if t = 0 then 1 else t),
                available_copies = (if t = 0 then 1 else t)\<rparr> d"
    by (auto simp: admin_add_book_Inr)
  from assms(5) t have "0 \<le> t" by simp
  with d' assms(2-4) show ?thesis by (auto intro!: add_book_keeps_inv)
qed

text \<open>
  C22. \<open>form.total_copies.data or 1\<close> only replaces 0: the form accepts a negative
  total, and the new book starts with negative \<open>available_copies\<close>.
\<close>

theorem admin_add_book_negative_total:
  "inventory_inv demo_db \<and>
   (case admin_add_book admin \<lparr>form_title = ''Dune'', form_author = ''Herbert'', form_genre = [],
          form_isbn = [], form_total = Some ''-5''\<rparr> demo_db of
      Inl _ \<Rightarrow> False
    | Inr d' \<Rightarrow> \<not> stock_ok d')"
proof -
  have "case admin_add_book admin \<lparr>form_title = ''Dune'', form_author = ''Herbert'', form_genre = [],
          form_isbn = [], form_total = Some ''-5''\<rparr> demo_db of
      Inl _ \<Rightarrow> False
    | Inr d' \<Rightarrow> \<not> stock_ok d'"
    by (simp add: admin_add_book_def form_valid_def add_book_def demo_defs py_int_eval stock_ok_def)
  with demo_inventory_inv show ?thesis by simp
qed

subsection \<open>Editing a book\<close>

lemma admin_edit_book_Inr:
  "admin_edit_book cu bid form d = Inr d' \<longleftrightarrow>
     role cu = Admin \<and> form_valid form \<and>
     (\<exists>bk t. get_book d bid = Some bk \<and> form_int (form_total form) (total_copies bk) = Some t \<and>
        d' = update_book bid
               (\<lambda>b. b\<lparr>title := form_title form, author := form_author form,
                     genre := form_genre form, isbn := Some (form_isbn form),
                     total_copies := t\<rparr>) d)"
  by (auto simp: admin_edit_book_def split: option.splits)

lemma admin_edit_book_keeps_inv:
  assumes "admin_edit_book cu bid form d = Inr d'" "inventory_inv d"
    "case get_book d bid of None \<Rightarrow> True
     | Some bk \<Rightarrow> form_int (form_total form) (total_copies bk) \<noteq> None \<longrightarrow>
         form_int (form_total form) (total_copies bk) = Some (total_copies bk)"
  shows "inventory_inv d'"
proof -
  note parts = inventory_inv_parts [OF assms(2)]
  from assms(1) obtain bk t where bk: "get_book d bid = Some bk"
    and t: "form_int (form_total form) (total_copies bk) = Some t"
    and d': "d' = update_book bid
               (\<lambda>b. b\<lparr>title := form_title form, author := form_author form,
                     genre := form_genre form, isbn := Some (form_isbn form),
                     total_copies := t\<rparr>) d"
    by (auto simp: admin_edit_book_Inr)
  from assms(3) bk t have tt: "t = total_copies bk" by simp
  have only: "x = bk" if "x \<in> set (books d)" "book_id x = bid" for x
    using find_key_unique [OF wf_db_distinct(1) [OF parts(1)]] bk that by (auto simp: get_book_def)
  have rows: "set (books d') \<subseteq> set (books d) \<union>
      {bk\<lparr>title := form_title form, author := form_author form, genre := form_genre form,
          isbn := Some (form_isbn form), total_copies := t\<rparr>}"
    using d' only by (auto simp: update_book_def set_update_key)
  have bkin: "bk \<in> set (books d)" using bk by (auto simp: get_book_def)
  have r: "reserved d' b = reserved d b" for b using d' by (simp add: reserved_def update_book_def)
  have "conserved d'"
    unfolding conserved_def
  proof
    fix x assume "x \<in> set (books d')"
    with rows consider "x \<in> set (books d)"
      | "x = bk\<lparr>title := form_title form, author := form_author form, genre := form_genre form,
          isbn := Some (form_isbn form), total_copies := t\<rparr>" by blast
    then show "available_copies x + reserved d' (book_id x) = total_copies x"
      using parts(2) bkin tt r by cases (auto simp: conserved_def)
  qed
  moreover have "wf_db d'" using d' parts(1) by (simp add: wf_db_def update_book_def)
  moreover have "positive_claims d'" using d' parts(3) by (simp add: positive_claims_def update_book_def)
  moreover have "nonneg_stock d'"
    using rows parts(4) bkin by (fastforce simp: nonneg_stock_def)
  ultimately show ?thesis by (simp add: inventory_inv_def)
qed

text \<open>
  C23. Editing a book writes the form's \<open>total_copies\<close> and never adjusts
  \<open>available_copies\<close>: lowering the total of a book with two free copies to one leaves
  \<open>available_copies > total_copies\<close>, and raising it to eight breaks conservation (the
  three new copies never become available).
\<close>

theorem admin_edit_book_desyncs_ledger:
  "(case admin_edit_book admin 1 \<lparr>form_title = ''SICP'', form_author = ''Abelson'',
        form_genre = ''CS'', form_isbn = [], form_total = Some ''1''\<rparr> demo_db2 of
      Inl _ \<Rightarrow> False
    | Inr d' \<Rightarrow> \<not> stock_ok d') \<and>
   (case admin_edit_book admin 1 \<lparr>form_title = ''SICP'', form_author = ''Abelson'',
        form_genre = ''CS'', form_isbn = [], form_total = Some ''8''\<rparr> demo_db2 of
      Inl _ \<Rightarrow> False
    | Inr d' \<Rightarrow> \<not> conserved d')"
  by (simp add: admin_edit_book_def form_valid_def update_book_def demo_defs py_int_eval
      row_access_defs table_simps stock_ok_def conserved_def reserved_def order_claim_def
      cart_claim_def active_def)

subsection \<open>Deleting a book\<close>

lemma admin_delete_book_Inr:
  "admin_delete_book cu bid d = Inr d' \<longleftrightarrow>
     role cu = Admin \<and> get_book d bid \<noteq> None \<and>
     \<not> list_ex (\<lambda>c. cart_book_id c = bid) (carts d) \<and> d' = delete_book bid d"
  by (auto simp: admin_delete_book_def split: option.splits)

lemma delete_book_unreferenced:
  assumes "\<forall>od\<in>set (orders d). order_book_id od \<noteq> bid"
  shows "orders (delete_book bid d) = orders d"
  using assms by (simp add: delete_book_def map_idI)

lemma order_ids_delete_book [simp]:
  "map order_id (orders (delete_book bid d)) = map order_id (orders d)"
  by (induction "orders d" arbitrary: d) (auto simp: delete_book_def)

lemma wf_db_delete_book: "wf_db d \<Longrightarrow> wf_db (delete_book bid d)"
proof -
  assume wf: "wf_db d"
  have "keys_ok order_id (orders (delete_book bid d)) (next_order_id d)"
    using wf by (simp add: keys_ok_map wf_db_def)
  with wf show ?thesis
    by (simp add: wf_db_def delete_book_def keys_ok_delete_key)
qed

lemma delete_book_keeps_inv:
  assumes "inventory_inv d" "\<forall>od\<in>set (orders d). order_book_id od \<noteq> bid"
  shows "inventory_inv (delete_book bid d)"
proof -
  note parts = inventory_inv_parts [OF assms(1)]
  have o: "orders (delete_book bid d) = orders d" by (rule delete_book_unreferenced [OF assms(2)])
  have r: "reserved (delete_book bid d) b = reserved d b" for b
    using o by (simp add: reserved_def delete_book_def)
  have "conserved (delete_book bid d)"
    using parts(2) r by (simp add: conserved_def delete_book_def delete_key_def)
  moreover have "positive_claims (delete_book bid d)"
    using parts(3) o by (simp add: positive_claims_def delete_book_def)
  moreover have "nonneg_stock (delete_book bid d)"
    using parts(4) by (simp add: nonneg_stock_def delete_book_def delete_key_def)
  ultimately show ?thesis using wf_db_delete_book [OF parts(1)] by (simp add: inventory_inv_def)
qed

text \<open>
  C36. A successful \<open>admin_delete_book\<close> removes exactly that book. The book is gone
  and every other book is found as before. Every order keeps its key, and an order of
  the deleted book now names \<open>null_book\<close>, that is, no book. The carts are unchanged, and
  exactly the wishlist pairs of the book are dropped. A cart line on the book makes
  the delete fail with a server error.
\<close>

theorem admin_delete_book_effect:
  assumes "admin_delete_book cu bid d = Inr d'"
  shows "get_book d' bid = None \<and> (\<forall>b. b \<noteq> bid \<longrightarrow> get_book d' b = get_book d b) \<and>
         map order_id (orders d') = map order_id (orders d) \<and>
         map order_book_id (orders d') =
           map (\<lambda>b. if b = bid then null_book else b) (map order_book_id (orders d)) \<and>
         carts d' = carts d \<and> set (wishlist d') = set (wishlist d) - {p. snd p = bid} \<and>
         \<not> list_ex (\<lambda>c. cart_book_id c = bid) (carts d)"
proof -
  from assms have d': "d' = delete_book bid d"
    and nc: "\<not> list_ex (\<lambda>c. cart_book_id c = bid) (carts d)"
    by (simp_all add: admin_delete_book_Inr)
  have "get_book d' bid = None"
    by (simp add: d' get_book_def delete_book_def find_key_delete_key_same)
  moreover have "\<forall>b. b \<noteq> bid \<longrightarrow> get_book d' b = get_book d b"
    by (simp add: d' get_book_def delete_book_def find_key_delete_key_other)
  moreover have "map order_book_id (orders d') =
      map (\<lambda>b. if b = bid then null_book else b) (map order_book_id (orders d))"
    by (simp add: d' delete_book_def)
  moreover have "set (wishlist d') = set (wishlist d) - {p. snd p = bid}"
    by (auto simp: d' delete_book_def)
  ultimately show ?thesis using nc by (simp add: d' delete_book_def)
qed

theorem admin_delete_book_effect_witness:
  "\<exists>d'. admin_delete_book admin 1 demo_db = Inr d' \<and> get_book d' 1 = None \<and> carts d' = []"
proof -
  have "\<exists>d'. admin_delete_book admin 1 demo_db = Inr d'"
    by (simp add: admin_delete_book_def demo_defs get_book_def table_simps)
  then obtain d' where ok: "admin_delete_book admin 1 demo_db = Inr d'" by blast
  from admin_delete_book_effect [OF ok] ok show ?thesis by (auto simp: demo_db_def)
qed

end
