(* ===== verification/System.thy ===== *)
theory System
  imports Cart Orders Checkout Catalog Requests
begin

text \<open>
  The application as a whole: one request datatype with a constructor per modelled
  route of \<open>src/app.py\<close>, the dispatch \<open>handle\<close> (Flask's routing), and \<open>step\<close>,
  which keeps the database unchanged when a handler returns an error (nothing was
  committed). A run is a list of requests served one after another, as the single-process
  development server does. The system invariant adds to the inventory invariant that every
  order and cart line names a book id that was allocated. \<open>sane\<close> is the condition under
  which a request keeps it: a positive quantity where the code forgets to check one, an
  admin transition only on an order that holds copies, a book total that is not negative
  and is not changed by an edit, and a delete only of a book that no order names. The main theorem: every run of sane requests from the
  empty database ends in a state with \<open>0 \<le> available_copies \<le> total_copies\<close> for every
  book and with conservation of copies.
\<close>

datatype request =
    AddBook user book_form
  | EditBook user book_id book_form
  | DeleteBook user book_id
  | PlaceOrder user book_id "string option"
  | AddToCart user book_id "string option"
  | RemoveFromCart user cart_id
  | Checkout user "string option"
  | EditOrder user order_id "string option"
  | CancelOrder user order_id
  | ApproveOrder user order_id
  | AdminCancelOrder user order_id
  | RequestBook user request_form
  | ApproveRequest user request_id
  | RejectRequest user request_id
  | ToggleWishlist user book_id

fun handle :: "request \<Rightarrow> db \<Rightarrow> error + db" where
  "handle (AddBook cu f) = admin_add_book cu f"
| "handle (EditBook cu b f) = admin_edit_book cu b f"
| "handle (DeleteBook cu b) = admin_delete_book cu b"
| "handle (PlaceOrder cu b q) = place_order cu b q"
| "handle (AddToCart cu b q) = add_to_cart cu b q"
| "handle (RemoveFromCart cu i) = remove_from_cart cu i"
| "handle (Checkout cu pm) = cart_checkout cu pm"
| "handle (EditOrder cu i q) = student_edit_order cu i q"
| "handle (CancelOrder cu i) = student_cancel_order cu i"
| "handle (ApproveOrder cu i) = admin_approve_order cu i"
| "handle (AdminCancelOrder cu i) = admin_cancel_order cu i"
| "handle (RequestBook cu f) = request_book cu f"
| "handle (ApproveRequest cu i) = admin_approve_request cu i"
| "handle (RejectRequest cu i) = admin_reject_request cu i"
| "handle (ToggleWishlist cu b) = toggle_wishlist cu b"

definition step :: "db \<Rightarrow> request \<Rightarrow> db" where
  "step d r = (case handle r d of Inl _ \<Rightarrow> d | Inr d' \<Rightarrow> d')"

fun run :: "db \<Rightarrow> request list \<Rightarrow> db" where
  "run d [] = d"
| "run d (r # rs) = run (step d r) rs"

definition empty_db :: db where
  "empty_db = \<lparr>books = [], orders = [], carts = [], book_requests = [], wishlist = [],
     next_book_id = 1, next_order_id = 1, next_cart_id = 1, next_request_id = 1\<rparr>"

fun sane :: "db \<Rightarrow> request \<Rightarrow> bool" where
  "sane d (AddBook cu f) = (case form_int (form_total f) 1 of None \<Rightarrow> True | Some t \<Rightarrow> 0 \<le> t)"
| "sane d (EditBook cu b f) =
     (case get_book d b of None \<Rightarrow> True
      | Some bk \<Rightarrow> form_int (form_total f) (total_copies bk) \<noteq> None \<longrightarrow>
          form_int (form_total f) (total_copies bk) = Some (total_copies bk))"
| "sane d (DeleteBook cu b) = list_all (\<lambda>od. order_book_id od \<noteq> b) (orders d)"
| "sane d (PlaceOrder cu b q) = (case form_int q 1 of None \<Rightarrow> True | Some n \<Rightarrow> 0 < n)"
| "sane d (AddToCart cu b q) = (case form_int q 1 of None \<Rightarrow> True | Some n \<Rightarrow> 0 < n)"
| "sane d (ApproveOrder cu i) = (case get_order d i of None \<Rightarrow> True | Some od \<Rightarrow> active (status od))"
| "sane d (AdminCancelOrder cu i) =
     (case get_order d i of None \<Rightarrow> True | Some od \<Rightarrow> active (status od))"
| "sane d (RemoveFromCart cu i) = True"
| "sane d (Checkout cu pm) = True"
| "sane d (EditOrder cu i q) = True"
| "sane d (CancelOrder cu i) = True"
| "sane d (RequestBook cu f) = True"
| "sane d (ApproveRequest cu i) = True"
| "sane d (RejectRequest cu i) = True"
| "sane d (ToggleWishlist cu b) = True"

fun sane_run :: "db \<Rightarrow> request list \<Rightarrow> bool" where
  "sane_run d [] = True"
| "sane_run d (r # rs) = (sane d r \<and> sane_run (step d r) rs)"

definition refs_ok :: "db \<Rightarrow> bool" where
  "refs_ok d \<longleftrightarrow>
     (\<forall>od\<in>set (orders d). order_book_id od < next_book_id d) \<and>
     (\<forall>c\<in>set (carts d). cart_book_id c < next_book_id d)"

definition sys_inv :: "db \<Rightarrow> bool" where
  "sys_inv d \<longleftrightarrow> inventory_inv d \<and> refs_ok d"

inductive sane_reachable :: "db \<Rightarrow> bool" where
  empty: "sane_reachable empty_db"
| step: "sane_reachable d \<Longrightarrow> sane d r \<Longrightarrow> sane_reachable (step d r)"


subsection \<open>Book references\<close>

lemma refs_ok_mono:
  assumes "refs_ok d" "next_book_id d \<le> next_book_id d'"
    "order_book_id ` set (orders d') \<subseteq> order_book_id ` set (orders d) \<union> {b. b < next_book_id d}"
    "cart_book_id ` set (carts d') \<subseteq> cart_book_id ` set (carts d) \<union> {b. b < next_book_id d}"
  shows "refs_ok d'"
  unfolding refs_ok_def
proof
  show "\<forall>od\<in>set (orders d'). order_book_id od < next_book_id d'"
  proof
    fix od assume "od \<in> set (orders d')"
    with assms(3) have "order_book_id od \<in> order_book_id ` set (orders d) \<union> {b. b < next_book_id d}"
      by blast
    with assms(1,2) show "order_book_id od < next_book_id d'" by (auto simp: refs_ok_def)
  qed
  show "\<forall>c\<in>set (carts d'). cart_book_id c < next_book_id d'"
  proof
    fix c assume "c \<in> set (carts d')"
    with assms(4) have "cart_book_id c \<in> cart_book_id ` set (carts d) \<union> {b. b < next_book_id d}"
      by blast
    with assms(1,2) show "cart_book_id c < next_book_id d'" by (auto simp: refs_ok_def)
  qed
qed

lemma get_book_lt: "get_book d b = Some bk \<Longrightarrow> wf_db d \<Longrightarrow> b < next_book_id d"
  by (auto simp: get_book_def wf_db_def keys_ok_def)

lemma order_books_update_order [simp]:
  "(\<And>x. order_book_id (f x) = order_book_id x) \<Longrightarrow>
   order_book_id ` set (orders (update_order i f d)) = order_book_id ` set (orders d)"
  by (simp add: update_order_def flip: set_map)

lemma refs_ok_set_available [simp]: "refs_ok (set_available i v d) = refs_ok d"
  by (simp add: refs_ok_def)

lemma refs_ok_update_order:
  "refs_ok d \<Longrightarrow> (\<And>x. order_book_id (f x) = order_book_id x) \<Longrightarrow> refs_ok (update_order i f d)"
  by (auto simp: refs_ok_def update_order_def set_update_key)

lemma cart_books_put_in_cart:
  "cart_book_id ` set (carts (put_in_cart u b q d)) \<subseteq> cart_book_id ` set (carts d) \<union> {b}"
  by (auto simp: put_in_cart_def update_cart_def add_cart_def set_update_key split: option.splits)

lemma order_books_lines_to_orders:
  "order_book_id ` set (lines_to_orders n u pm items) = cart_book_id ` set items"
  by (induction n u pm items rule: lines_to_orders.induct) auto

lemma handle_refs_ok:
  assumes "handle r d = Inr d'" "wf_db d" "refs_ok d" "sane d r"
  shows "refs_ok d'"
proof (cases r)
  case (DeleteBook cu b)
  with assms have "orders d' = orders d" "carts d' = carts d" "next_book_id d' = next_book_id d"
    by (auto simp: admin_delete_book_Inr delete_book_unreferenced list_all_iff, simp_all add: delete_book_def)
  with assms(3) show ?thesis by (simp add: refs_ok_def)
next
  case (AddBook cu f)
  with assms show ?thesis
    by (intro refs_ok_mono [OF assms(3)]) (auto simp: admin_add_book_Inr add_book_def)
next
  case (EditBook cu b f)
  with assms show ?thesis
    by (auto simp: admin_edit_book_Inr update_book_def refs_ok_def)
next
  case (PlaceOrder cu b q)
  with assms(1) obtain qty bk where bk: "get_book d b = Some bk"
    and d': "d' = add_order (user_id cu) b qty Pending None
                    (set_available b (available_copies bk - qty) d)"
    by (auto simp: place_order_Inr)
  have "b < next_book_id d" by (rule get_book_lt [OF bk assms(2)])
  with d' show ?thesis
    by (intro refs_ok_mono [OF assms(3)]) (auto simp: add_order_def)
next
  case (AddToCart cu b q)
  with assms(1) obtain qty bk where bk: "get_book d b = Some bk"
    and d': "d' = set_available b (available_copies bk - qty) (put_in_cart (user_id cu) b qty d)"
    by (auto simp: add_to_cart_Inr)
  have "b < next_book_id d" by (rule get_book_lt [OF bk assms(2)])
  with d' cart_books_put_in_cart [of "user_id cu" b qty d] show ?thesis
    by (intro refs_ok_mono [OF assms(3)]) (auto simp: put_in_cart_def add_cart_def
        update_cart_def split: option.splits)
next
  case (RemoveFromCart cu i)
  with assms show ?thesis
    by (intro refs_ok_mono [OF assms(3)]) (auto simp: remove_from_cart_Inr delete_cart_def)
next
  case (Checkout cu pm)
  let ?pm = "case pm of None \<Rightarrow> ''mock'' | Some s \<Rightarrow> s"
  from Checkout assms(1) have d': "d' = checkout_items (user_id cu) ?pm (user_cart d (user_id cu)) d"
    by (simp add: cart_checkout_Inr)
  have "order_book_id ` set (orders d') =
      order_book_id ` set (orders d) \<union> cart_book_id ` set (user_cart d (user_id cu))"
    using d' by (simp add: orders_checkout_items order_books_lines_to_orders image_Un)
  moreover have "cart_book_id ` set (user_cart d (user_id cu)) \<subseteq> {b. b < next_book_id d}"
    using assms(3) by (auto simp: refs_ok_def user_cart_def)
  moreover have "cart_book_id ` set (carts d') \<subseteq> cart_book_id ` set (carts d)"
    using d' by (auto simp: carts_checkout_items)
  ultimately show ?thesis
    using d' by (intro refs_ok_mono [OF assms(3)]) auto
next
  case (EditOrder cu i q)
  with assms show ?thesis
    by (auto simp: student_edit_order_Inr intro!: refs_ok_update_order)
next
  case (CancelOrder cu i)
  with assms show ?thesis
    by (auto simp: student_cancel_order_Inr intro!: refs_ok_update_order)
next
  case (ApproveOrder cu i)
  with assms show ?thesis
    by (auto simp: admin_approve_order_Inr intro!: refs_ok_update_order)
next
  case (AdminCancelOrder cu i)
  with assms show ?thesis
    by (auto simp: admin_cancel_order_Inr intro!: refs_ok_update_order)
next
  case (RequestBook cu f)
  with assms show ?thesis by (auto simp: request_book_def refs_ok_def split: if_splits)
next
  case (ApproveRequest cu i)
  with assms show ?thesis by (auto simp: admin_approve_request_Inr set_request_status_def refs_ok_def)
next
  case (RejectRequest cu i)
  with assms show ?thesis by (auto simp: admin_reject_request_Inr set_request_status_def refs_ok_def)
next
  case (ToggleWishlist cu b)
  with assms show ?thesis by (auto simp: toggle_wishlist_Inr refs_ok_def)
qed


subsection \<open>The inventory invariant over runs\<close>

lemma handle_inventory_inv:
  assumes "handle r d = Inr d'" "sys_inv d" "sane d r"
  shows "inventory_inv d'"
proof -
  from assms(2) have inv: "inventory_inv d" and refs: "refs_ok d" by (simp_all add: sys_inv_def)
  show ?thesis
  proof (cases r)
    case (DeleteBook cu b)
    with assms(1,3) inv show ?thesis
      by (auto simp: admin_delete_book_Inr list_all_iff intro: delete_book_keeps_inv)
  next
    case (AddBook cu f)
    with assms(1,3) refs show ?thesis
      using admin_add_book_keeps_inv [of cu f d d'] inv by (simp add: refs_ok_def)
  next
    case (EditBook cu b f)
    with assms(1,3) show ?thesis using admin_edit_book_keeps_inv [of cu b f d d'] inv by simp
  next
    case (PlaceOrder cu b q)
    with assms(1) obtain qty where "form_int q 1 = Some qty" by (auto simp: place_order_Inr)
    moreover from this PlaceOrder assms(3) have "0 < qty" by simp
    ultimately show ?thesis
      using place_order_keeps_inv [of cu b q d d' qty] PlaceOrder assms(1) inv by simp
  next
    case (AddToCart cu b q)
    with assms(1) obtain qty where "form_int q 1 = Some qty" by (auto simp: add_to_cart_Inr)
    moreover from this AddToCart assms(3) have "0 < qty" by simp
    ultimately show ?thesis
      using add_to_cart_keeps_inv [of cu b q d d' qty] AddToCart assms(1) inv by simp
  next
    case (RemoveFromCart cu i)
    with assms(1) inv show ?thesis by (simp add: remove_from_cart_keeps_inv)
  next
    case (Checkout cu pm)
    with assms(1) inv show ?thesis by (simp add: cart_checkout_keeps_inv)
  next
    case (EditOrder cu i q)
    with assms(1) inv show ?thesis by (simp add: student_edit_order_keeps_inv)
  next
    case (CancelOrder cu i)
    with assms(1) inv show ?thesis by (simp add: student_cancel_order_keeps_inv)
  next
    case (ApproveOrder cu i)
    with assms(1) obtain od where od: "get_order d i = Some od" by (auto simp: admin_approve_order_Inr)
    with ApproveOrder assms(3) have "active (status od)" by simp
    with od ApproveOrder assms(1) inv show ?thesis by (simp add: admin_approve_order_keeps_inv)
  next
    case (AdminCancelOrder cu i)
    with assms(1) obtain od where od: "get_order d i = Some od" by (auto simp: admin_cancel_order_Inr)
    with AdminCancelOrder assms(3) have "active (status od)" by simp
    with od AdminCancelOrder assms(1) inv show ?thesis by (simp add: admin_cancel_order_keeps_inv)
  next
    case (RequestBook cu f)
    with assms(1) inv show ?thesis by (simp add: request_book_keeps_inv)
  next
    case (ApproveRequest cu i)
    with assms(1) inv show ?thesis by (auto simp: admin_approve_request_Inr set_request_status_keeps_inv)
  next
    case (RejectRequest cu i)
    with assms(1) inv show ?thesis by (auto simp: admin_reject_request_Inr set_request_status_keeps_inv)
  next
    case (ToggleWishlist cu b)
    with assms(1) inv show ?thesis by (simp add: toggle_wishlist_keeps_inv)
  qed
qed

lemma sys_inv_step: "sys_inv d \<Longrightarrow> sane d r \<Longrightarrow> sys_inv (step d r)"
proof (cases "handle r d")
  case (Inr d')
  assume "sys_inv d" "sane d r"
  moreover from this have "wf_db d" "refs_ok d" by (simp_all add: sys_inv_def inventory_inv_def)
  ultimately show ?thesis
    using Inr handle_inventory_inv [OF Inr] handle_refs_ok [OF Inr]
    by (simp add: step_def sys_inv_def)
qed (simp add: step_def)

lemma sys_inv_empty: "sys_inv empty_db"
  by (simp add: empty_db_def sys_inv_def refs_ok_def ledger_defs keys_ok_def)

lemma sane_reachable_sys_inv: "sane_reachable d \<Longrightarrow> sys_inv d"
proof (induction rule: sane_reachable.induct)
  case empty
  show ?case by (rule sys_inv_empty)
next
  case (step d r)
  then show ?case by (simp add: sys_inv_step)
qed

lemma sane_run_reachable: "sane_reachable d \<Longrightarrow> sane_run d rs \<Longrightarrow> sane_reachable (run d rs)"
  by (induction rs arbitrary: d) (auto intro: sane_reachable.step)

text \<open>
  C1. The ledger is sound on every sane run: starting from the empty database, any
  sequence of requests in which each request is sane in the state it is served from ends
  in a state where every book has \<open>0 \<le> available_copies \<le> total_copies\<close> and
  \<open>available_copies\<close> plus the copies held by cart lines and pending or approved orders
  equals \<open>total_copies\<close>.
\<close>

theorem sane_run_ledger_sound:
  "sane_run empty_db rs \<Longrightarrow> inventory_inv (run empty_db rs) \<and> stock_ok (run empty_db rs)"
proof -
  assume "sane_run empty_db rs"
  with sane_reachable.empty have "sane_reachable (run empty_db rs)" by (rule sane_run_reachable)
  then have "inventory_inv (run empty_db rs)" by (simp add: sane_reachable_sys_inv [THEN sys_inv_def [THEN iffD1]])
  then show ?thesis by (simp add: inventory_inv_stock_ok)
qed

definition shelf_form :: "string \<Rightarrow> book_form" where
  "shelf_form n = \<lparr>form_title = ''SICP'', form_author = ''Abelson'', form_genre = [],
     form_isbn = [], form_total = Some n\<rparr>"

definition demo_trace :: "request list" where
  "demo_trace = [AddBook admin (shelf_form ''3''), AddToCart alice 1 (Some ''2''),
     Checkout alice None, PlaceOrder bob 1 None, AdminCancelOrder admin 1]"

lemmas run_eval = step_def admin_add_book_def add_book_def form_valid_def shelf_form_def
  add_to_cart_def put_in_cart_def cart_checkout_def place_order_def admin_cancel_order_def
  empty_db_def demo_defs py_int_eval row_access_defs table_simps Let_def

theorem sane_run_ledger_sound_witness:
  "sane_run empty_db demo_trace \<and> inventory_inv (run empty_db demo_trace) \<and>
   stock_ok (run empty_db demo_trace)"
proof -
  have s: "sane_run empty_db demo_trace"
    by (simp add: demo_trace_def run_eval active_def)
  from sane_run_ledger_sound [OF s] s show ?thesis by simp
qed

subsection \<open>Well-formed keys under every request\<close>

lemma wf_db_add_book: "wf_db d \<Longrightarrow> wf_db (add_book b d)"
  by (simp add: wf_db_def add_book_def keys_ok_append_fresh)

lemma wf_db_set_request_status: "wf_db d \<Longrightarrow> wf_db (set_request_status i s d)"
  by (simp add: wf_db_def set_request_status_def)

lemma handle_wf:
  assumes "handle r d = Inr d'" "wf_db d"
  shows "wf_db d'"
proof (cases r)
  case (DeleteBook cu b)
  with assms show ?thesis by (auto simp: admin_delete_book_Inr intro: wf_db_delete_book)
next
  case (AddBook cu f)
  with assms show ?thesis by (auto simp: admin_add_book_Inr intro: wf_db_add_book)
next
  case (EditBook cu b f)
  with assms show ?thesis by (auto simp: admin_edit_book_Inr wf_db_def update_book_def)
next
  case (PlaceOrder cu b q)
  with assms show ?thesis by (auto simp: place_order_Inr intro: wf_db_add_order)
next
  case (AddToCart cu b q)
  with assms show ?thesis by (auto simp: add_to_cart_Inr intro: wf_db_put_in_cart)
next
  case (RemoveFromCart cu i)
  with assms show ?thesis by (auto simp: remove_from_cart_Inr intro: wf_db_delete_cart)
next
  case (Checkout cu pm)
  with assms show ?thesis by (auto simp: cart_checkout_Inr intro: wf_db_checkout_items)
next
  case (EditOrder cu i q)
  with assms show ?thesis by (auto simp: student_edit_order_Inr intro: wf_db_update_order)
next
  case (CancelOrder cu i)
  with assms show ?thesis by (auto simp: student_cancel_order_Inr intro: wf_db_update_order)
next
  case (ApproveOrder cu i)
  with assms show ?thesis by (auto simp: admin_approve_order_Inr intro: wf_db_update_order)
next
  case (AdminCancelOrder cu i)
  with assms show ?thesis by (auto simp: admin_cancel_order_Inr intro!: wf_db_update_order)
next
  case (RequestBook cu f)
  with assms show ?thesis
    by (auto simp: request_book_def wf_db_def keys_ok_append_fresh split: if_splits)
next
  case (ApproveRequest cu i)
  with assms show ?thesis by (auto simp: admin_approve_request_Inr intro: wf_db_set_request_status)
next
  case (RejectRequest cu i)
  with assms show ?thesis by (auto simp: admin_reject_request_Inr intro: wf_db_set_request_status)
next
  case (ToggleWishlist cu b)
  with assms show ?thesis by (auto simp: toggle_wishlist_Inr wf_db_def)
qed

lemma run_wf: "wf_db d \<Longrightarrow> wf_db (run d rs)"
proof (induction rs arbitrary: d)
  case Nil
  then show ?case by simp
next
  case (Cons r rs)
  have "wf_db (step d r)"
    using Cons.prems handle_wf [of r d] by (auto simp: step_def split: sum.split)
  with Cons.IH show ?case by simp
qed

text \<open>
  C34. The shape of the tables needs no sanity condition. After any sequence of requests
  from the empty database, including negative quantities, double cancels and requests by
  the wrong role, the following hold: every primary key is unique and below its
  table's next key; each student has at most one cart line per book; and the wishlist
  holds no pair twice.
\<close>

theorem run_keeps_wf: "wf_db (run empty_db rs)"
  using run_wf [of empty_db] by (simp add: empty_db_def wf_db_def keys_ok_def)

text \<open>
  C37. Deleting a book does not look at its orders. After a student orders a book and
  an admin deletes it, the order stays pending but names no book. Neither the student
  nor an admin can cancel it any more: \<open>order.book.available_copies\<close> raises on
  \<open>None\<close>, a server error. A book with a cart line cannot be deleted at all: the
  commit fails on the non-nullable \<open>cart.book_id\<close>.
\<close>

theorem delete_book_orphans_order:
  "(let d = run empty_db [AddBook admin (shelf_form ''3''), PlaceOrder alice 1 None,
                          DeleteBook admin 1] in
     get_book d 1 = None \<and> map_option status (get_order d 1) = Some Pending \<and>
     student_cancel_order alice 1 d = Inl ServerError \<and>
     admin_cancel_order admin 1 d = Inl ServerError) \<and>
   handle (DeleteBook admin 1)
     (run empty_db [AddBook admin (shelf_form ''3''), AddToCart alice 1 None]) = Inl ServerError"
  by (simp add: run_eval admin_delete_book_def delete_book_def null_book_def
      student_cancel_order_def)

end
