(* ===== verification/Concurrency.thy ===== *)
theory Concurrency
  imports System
begin

text \<open>
  Two \<open>place_order\<close> requests served by concurrent workers. The handler is a
  read-modify-write. \<open>Book.query.get_or_404\<close> loads the row, and the test
  \<open>available_copies < qty\<close> and the new value \<open>available_copies - qty\<close> are computed
  in Python. At \<open>db.session.commit()\<close> SQLAlchemy writes that absolute value
  (\<open>UPDATE book SET available_copies = v\<close>) and inserts the order. With Python's
  \<open>sqlite3\<close> driver the transaction only begins at the first write, so the read takes
  no lock. At read committed on another database the read does not lock the row
  either. So the model splits the handler into a read phase
  (\<open>place_order_read\<close>, which yields an \<open>order_plan\<close> or the handler's error) and a
  write phase (\<open>place_order_write\<close>); \<open>place_order_phases\<close> shows that the read
  followed directly by the write is the handler. A schedule is a list of \<open>Read i\<close>
  and \<open>Write i\<close> events of the workers \<open>ws\<close>, run by \<open>exec_sched\<close>.

  \<open>add_to_cart\<close> is split the same way (\<open>add_to_cart_read\<close>,
  \<open>add_to_cart_write\<close>); two of its requests interleaved by hand show the duplicate
  cart line.
\<close>

record order_plan =
  plan_user :: user_id
  plan_book :: book_id
  plan_qty :: int
  plan_avail :: int

definition place_order_read :: "user \<Rightarrow> book_id \<Rightarrow> string option \<Rightarrow> db \<Rightarrow> error + order_plan" where
  "place_order_read cu bid qty_field d =
     (if role cu \<noteq> Student then Inl Forbidden
      else case form_int qty_field 1 of
        None \<Rightarrow> Inl ServerError
      | Some qty \<Rightarrow>
          (case get_book d bid of
             None \<Rightarrow> Inl NotFound
           | Some bk \<Rightarrow>
               if available_copies bk < qty then Inl NotEnoughCopies
               else Inr \<lparr>plan_user = user_id cu, plan_book = bid, plan_qty = qty,
                         plan_avail = available_copies bk - qty\<rparr>))"

definition place_order_write :: "order_plan \<Rightarrow> db \<Rightarrow> db" where
  "place_order_write p d =
     add_order (plan_user p) (plan_book p) (plan_qty p) Pending None
       (set_available (plan_book p) (plan_avail p) d)"

type_synonym worker = "user \<times> book_id \<times> string option"

datatype event = Read nat | Write nat

record cstate =
  cdb :: db
  plans :: "nat \<Rightarrow> (error + order_plan) option"

fun exec_event :: "worker list \<Rightarrow> event \<Rightarrow> cstate \<Rightarrow> cstate" where
  "exec_event ws (Read i) s =
     (if i < length ws
      then (case ws ! i of (cu, b, f) \<Rightarrow>
              s\<lparr>plans := (plans s)(i := Some (place_order_read cu b f (cdb s)))\<rparr>)
      else s)"
| "exec_event ws (Write i) s =
     (case plans s i of
        Some (Inr p) \<Rightarrow> s\<lparr>cdb := place_order_write p (cdb s)\<rparr>
      | _ \<Rightarrow> s)"

fun exec_sched :: "worker list \<Rightarrow> event list \<Rightarrow> cstate \<Rightarrow> cstate" where
  "exec_sched ws [] s = s"
| "exec_sched ws (e # es) s = exec_sched ws es (exec_event ws e s)"

definition start :: "db \<Rightarrow> cstate" where
  "start d = \<lparr>cdb = d, plans = (\<lambda>_. None)\<rparr>"

definition demo_workers :: "worker list" where
  "demo_workers = [(alice, 1, Some ''3''), (bob, 1, Some ''3'')]"

text \<open>
  \<open>add_to_cart\<close> has the same shape. Its read phase loads the book and the caller's
  cart line for it, and computes \<open>available_copies - qty\<close> and, when the line exists,
  \<open>cart_item.quantity + qty\<close>. Its write phase stores those absolute values, or
  inserts a new line when the read found none.
\<close>

record cart_plan =
  cplan_user :: user_id
  cplan_book :: book_id
  cplan_qty :: int
  cplan_avail :: int
  cplan_line :: "(cart_id \<times> int) option"

definition add_to_cart_read :: "user \<Rightarrow> book_id \<Rightarrow> string option \<Rightarrow> db \<Rightarrow> error + cart_plan" where
  "add_to_cart_read cu bid qty_field d =
     (case form_int qty_field 1 of
        None \<Rightarrow> Inl ServerError
      | Some qty \<Rightarrow>
          (case get_book d bid of
             None \<Rightarrow> Inl NotFound
           | Some bk \<Rightarrow>
               if available_copies bk < qty then Inl NotEnoughCopies
               else Inr \<lparr>cplan_user = user_id cu, cplan_book = bid, cplan_qty = qty,
                         cplan_avail = available_copies bk - qty,
                         cplan_line = map_option (\<lambda>c. (cart_id c, cart_quantity c + qty))
                                        (find_cart_line d (user_id cu) bid)\<rparr>))"

definition add_to_cart_write :: "cart_plan \<Rightarrow> db \<Rightarrow> db" where
  "add_to_cart_write p d =
     set_available (cplan_book p) (cplan_avail p)
       (case cplan_line p of
          Some (i, q) \<Rightarrow> update_cart i (\<lambda>c. c\<lparr>cart_quantity := q\<rparr>) d
        | None \<Rightarrow> add_cart (cplan_user p) (cplan_book p) (cplan_qty p) d)"

subsection \<open>The two phases\<close>

lemma place_order_read_Inr:
  "place_order_read cu bid f d = Inr p \<longleftrightarrow>
     role cu = Student \<and>
     (\<exists>qty bk. form_int f 1 = Some qty \<and> get_book d bid = Some bk \<and> qty \<le> available_copies bk \<and>
        p = \<lparr>plan_user = user_id cu, plan_book = bid, plan_qty = qty,
             plan_avail = available_copies bk - qty\<rparr>)"
  by (auto simp: place_order_read_def not_less split: option.splits)

lemma place_order_phases:
  "place_order cu bid f d =
     (case place_order_read cu bid f d of Inl e \<Rightarrow> Inl e | Inr p \<Rightarrow> Inr (place_order_write p d))"
  by (simp add: place_order_def place_order_read_def place_order_write_def split: option.splits)

lemma conserved_at:
  "conserved d \<Longrightarrow> get_book d b = Some bk \<Longrightarrow> available_copies bk + reserved d b = total_copies bk"
  by (auto simp: conserved_def get_book_def)

subsection \<open>The lost update\<close>

text \<open>
  C32. From any state that satisfies the inventory invariant, take two \<open>place_order\<close>
  requests on the same book that both pass their check on that state. If both read
  before either writes, both orders are stored, but the book is debited only by the
  second quantity. The first debit is lost and conservation fails. This happens even
  when the two quantities together exceed the free copies.
\<close>

theorem lost_update:
  assumes inv: "inventory_inv d"
    and r0: "place_order_read cu0 b f0 d = Inr p0" and r1: "place_order_read cu1 b f1 d = Inr p1"
    and pos: "0 < plan_qty p0"
  shows "length (orders (cdb (exec_sched [(cu0, b, f0), (cu1, b, f1)]
            [Read 0, Read 1, Write 0, Write 1] (start d)))) = length (orders d) + 2 \<and>
         \<not> conserved (cdb (exec_sched [(cu0, b, f0), (cu1, b, f1)]
            [Read 0, Read 1, Write 0, Write 1] (start d)))"
proof -
  from r0 r1 obtain bk q0 q1 where bk: "get_book d b = Some bk"
    and p0: "p0 = \<lparr>plan_user = user_id cu0, plan_book = b, plan_qty = q0,
                   plan_avail = available_copies bk - q0\<rparr>"
    and p1: "p1 = \<lparr>plan_user = user_id cu1, plan_book = b, plan_qty = q1,
                   plan_avail = available_copies bk - q1\<rparr>"
    by (auto simp: place_order_read_Inr)
  let ?d2 = "place_order_write p1 (place_order_write p0 d)"
  have run: "cdb (exec_sched [(cu0, b, f0), (cu1, b, f1)] [Read 0, Read 1, Write 0, Write 1]
               (start d)) = ?d2"
    by (simp add: start_def r0 r1)
  have g: "get_book ?d2 b = Some (bk\<lparr>available_copies := available_copies bk - q1\<rparr>)"
    using bk by (simp add: place_order_write_def p0 p1 book_set_available)
  have r: "reserved ?d2 b = reserved d b + q0 + q1"
    by (simp add: place_order_write_def p0 p1 reserved_add_order active_def)
  have c: "available_copies bk + reserved d b = total_copies bk"
    using inv bk by (simp add: inventory_inv_def conserved_at)
  have "\<not> conserved ?d2"
  proof
    assume "conserved ?d2"
    from conserved_at [OF this g] r c pos p0 show False by simp
  qed
  moreover have "length (orders ?d2) = length (orders d) + 2"
    by (simp add: place_order_write_def add_order_def set_available_def)
  ultimately show ?thesis unfolding run by simp
qed

theorem lost_update_witness:
  "length (orders (cdb (exec_sched demo_workers [Read 0, Read 1, Write 0, Write 1]
      (start demo_db)))) = 2 \<and>
   \<not> conserved (cdb (exec_sched demo_workers [Read 0, Read 1, Write 0, Write 1] (start demo_db)))"
proof -
  have r0: "place_order_read alice 1 (Some ''3'') demo_db =
      Inr \<lparr>plan_user = 7, plan_book = 1, plan_qty = 3, plan_avail = 2\<rparr>"
    by (simp add: place_order_read_def demo_defs py_int_eval get_book_def table_simps)
  have r1: "place_order_read bob 1 (Some ''3'') demo_db =
      Inr \<lparr>plan_user = 8, plan_book = 1, plan_qty = 3, plan_avail = 2\<rparr>"
    by (simp add: place_order_read_def demo_defs py_int_eval get_book_def table_simps)
  have "length (orders (cdb (exec_sched [(alice, 1, Some ''3''), (bob, 1, Some ''3'')]
            [Read 0, Read 1, Write 0, Write 1] (start demo_db)))) = length (orders demo_db) + 2 \<and>
        \<not> conserved (cdb (exec_sched [(alice, 1, Some ''3''), (bob, 1, Some ''3'')]
            [Read 0, Read 1, Write 0, Write 1] (start demo_db)))"
    by (rule lost_update [OF demo_inventory_inv r0 r1]) simp
  then show ?thesis by (simp add: demo_workers_def demo_db_def)
qed

subsection \<open>Two concurrent adds to one cart\<close>

lemma add_to_cart_phases:
  "add_to_cart cu bid f d =
     (case add_to_cart_read cu bid f d of Inl e \<Rightarrow> Inl e | Inr p \<Rightarrow> Inr (add_to_cart_write p d))"
  by (simp add: add_to_cart_def add_to_cart_read_def add_to_cart_write_def put_in_cart_def
      split: option.splits)

lemma get_book_add_cart: "get_book (add_cart u b q d) j = get_book d j"
  by (simp add: get_book_def add_cart_def)

lemma add_to_cart_read_new_line:
  assumes "add_to_cart_read cu b f d = Inr p" "find_cart_line d (user_id cu) b = None"
  shows "\<exists>bk. get_book d b = Some bk \<and> cplan_qty p \<le> available_copies bk \<and>
           p = \<lparr>cplan_user = user_id cu, cplan_book = b, cplan_qty = cplan_qty p,
                cplan_avail = available_copies bk - cplan_qty p, cplan_line = None\<rparr>"
  using assms by (auto simp: add_to_cart_read_def not_less split: option.splits if_splits)

text \<open>
  C14. Two \<open>add_to_cart\<close> requests of one student for a book not yet in their cart,
  both reading before either writes, both find no cart line. Both insert a line, so the
  cart holds two lines for the same user and book, which no sequential run produces
  (\<open>System.run_keeps_wf\<close>), and the book is debited only by the second quantity, so
  conservation fails.
\<close>

theorem cart_double_add:
  assumes inv: "inventory_inv d"
    and r0: "add_to_cart_read cu b f0 d = Inr p0" and r1: "add_to_cart_read cu b f1 d = Inr p1"
    and none: "find_cart_line d (user_id cu) b = None" and pos: "0 < cplan_qty p0"
  shows "\<not> wf_db (add_to_cart_write p1 (add_to_cart_write p0 d)) \<and>
         \<not> conserved (add_to_cart_write p1 (add_to_cart_write p0 d))"
proof -
  obtain bk where bk: "get_book d b = Some bk"
    and p0: "p0 = \<lparr>cplan_user = user_id cu, cplan_book = b, cplan_qty = cplan_qty p0,
                   cplan_avail = available_copies bk - cplan_qty p0, cplan_line = None\<rparr>"
    using add_to_cart_read_new_line [OF r0 none] by blast
  obtain bk' where bk': "get_book d b = Some bk'"
    and p1: "p1 = \<lparr>cplan_user = user_id cu, cplan_book = b, cplan_qty = cplan_qty p1,
                   cplan_avail = available_copies bk' - cplan_qty p1, cplan_line = None\<rparr>"
    using add_to_cart_read_new_line [OF r1 none] by blast
  have bb: "bk' = bk" using bk bk' by simp
  let ?q0 = "cplan_qty p0" and ?q1 = "cplan_qty p1"
  let ?d2 = "add_to_cart_write p1 (add_to_cart_write p0 d)"
  have d2: "?d2 = set_available b (available_copies bk - ?q1)
                    (add_cart (user_id cu) b ?q1
                      (set_available b (available_copies bk - ?q0) (add_cart (user_id cu) b ?q0 d)))"
    by (subst p1, subst p0) (simp add: add_to_cart_write_def bb)
  have "carts ?d2 = carts d @
          [\<lparr>cart_id = next_cart_id d, cart_user_id = user_id cu, cart_book_id = b, cart_quantity = ?q0\<rparr>,
           \<lparr>cart_id = Suc (next_cart_id d), cart_user_id = user_id cu, cart_book_id = b,
            cart_quantity = ?q1\<rparr>]"
    unfolding d2 by (simp add: add_cart_def set_available_def)
  then have "\<not> wf_db ?d2" by (simp add: wf_db_def)
  moreover have "\<not> conserved ?d2"
  proof
    assume c2: "conserved ?d2"
    have g: "get_book ?d2 b = Some (bk\<lparr>available_copies := available_copies bk - ?q1\<rparr>)"
      unfolding d2 using bk by (simp add: book_set_available get_book_add_cart)
    have r: "reserved ?d2 b = reserved d b + ?q0 + ?q1"
      unfolding d2 by (simp add: reserved_add_cart)
    have c: "available_copies bk + reserved d b = total_copies bk"
      using inv bk by (simp add: inventory_inv_def conserved_at)
    from conserved_at [OF c2 g] r c pos show False by simp
  qed
  ultimately show ?thesis by blast
qed

theorem cart_double_add_witness:
  "\<exists>p0 p1. add_to_cart_read alice 1 (Some ''1'') demo_db = Inr p0 \<and>
           add_to_cart_read alice 1 (Some ''2'') demo_db = Inr p1 \<and>
           \<not> wf_db (add_to_cart_write p1 (add_to_cart_write p0 demo_db)) \<and>
           \<not> conserved (add_to_cart_write p1 (add_to_cart_write p0 demo_db))"
proof -
  have r0: "add_to_cart_read alice 1 (Some ''1'') demo_db =
      Inr \<lparr>cplan_user = 7, cplan_book = 1, cplan_qty = 1, cplan_avail = 4, cplan_line = None\<rparr>"
    by (simp add: add_to_cart_read_def demo_defs py_int_eval get_book_def find_cart_line_def table_simps)
  have r1: "add_to_cart_read alice 1 (Some ''2'') demo_db =
      Inr \<lparr>cplan_user = 7, cplan_book = 1, cplan_qty = 2, cplan_avail = 3, cplan_line = None\<rparr>"
    by (simp add: add_to_cart_read_def demo_defs py_int_eval get_book_def find_cart_line_def table_simps)
  have "find_cart_line demo_db (user_id alice) 1 = None"
    by (simp add: find_cart_line_def demo_db_def)
  from cart_double_add [OF demo_inventory_inv r0 r1 this] r0 r1 show ?thesis by auto
qed

end
