(* ===== verification/Release.thy ===== *)
theory Release
  imports System
begin

text \<open>
  Progress of the ledger: every reservation can be released. Books are never deleted
  by a modelled handler. Orders and cart lines are only created for a book that
  \<open>get_or_404\<close> found. So in every reachable state each order and cart line names an
  existing book (\<open>refs_exist\<close>). The admin cancel of an active order, and the
  owner's removal of a cart line, therefore always succeed. \<open>release_requests\<close> is the
  request list that does this for the whole database: every cart line removed by its
  owner, then every pending or approved order cancelled by an admin. It is a sane run
  from every sane-reachable state, and it ends with \<open>available_copies = total_copies\<close>
  for every book.
\<close>

definition book_ids :: "db \<Rightarrow> book_id set" where
  "book_ids d = book_id ` set (books d)"

definition refs_exist :: "db \<Rightarrow> bool" where
  "refs_exist d \<longleftrightarrow>
     order_book_id ` set (orders d) \<subseteq> book_ids d \<and> cart_book_id ` set (carts d) \<subseteq> book_ids d"

definition release_user :: "user" where
  "release_user = \<lparr>user_id = 0, role = Admin\<rparr>"

definition release_cart_line :: "cart_item \<Rightarrow> request" where
  "release_cart_line c = RemoveFromCart \<lparr>user_id = cart_user_id c, role = Student\<rparr> (cart_id c)"

definition release_order :: "order \<Rightarrow> request" where
  "release_order od = AdminCancelOrder release_user (order_id od)"

definition release_requests :: "db \<Rightarrow> request list" where
  "release_requests d =
     map release_cart_line (carts d) @
     map release_order (filter (\<lambda>od. active (status od)) (orders d))"

subsection \<open>Every order and cart line names an existing book\<close>

lemma get_book_in_ids: "get_book d b \<noteq> None \<longleftrightarrow> b \<in> book_ids d"
  by (auto simp: get_book_def book_ids_def find_key_None_iff)

lemma book_ids_set_available [simp]: "book_ids (set_available i v d) = book_ids d"
  by (simp add: book_ids_def set_available_def flip: set_map)

lemma book_id_image_set_available [simp]:
  "book_id ` set (books (set_available i v d)) = book_id ` set (books d)"
  using book_ids_set_available [of i v d] by (simp only: book_ids_def)

lemma book_ids_add_order [simp]: "book_ids (add_order u b q st m d) = book_ids d"
  by (simp add: book_ids_def)

lemma book_ids_put_in_cart [simp]: "book_ids (put_in_cart u b q d) = book_ids d"
  by (simp add: book_ids_def)

lemma refs_exist_mono:
  assumes "refs_exist d" "book_ids d \<subseteq> book_ids d'"
    "order_book_id ` set (orders d') \<subseteq> order_book_id ` set (orders d) \<union> book_ids d"
    "cart_book_id ` set (carts d') \<subseteq> cart_book_id ` set (carts d) \<union> book_ids d"
  shows "refs_exist d'"
proof -
  have o: "order_book_id ` set (orders d) \<subseteq> book_ids d"
    and c: "cart_book_id ` set (carts d) \<subseteq> book_ids d"
    using assms(1) by (simp_all add: refs_exist_def)
  have "order_book_id ` set (orders d') \<subseteq> book_ids d'"
    by (rule subset_trans [OF assms(3)]) (use o assms(2) in auto)
  moreover have "cart_book_id ` set (carts d') \<subseteq> book_ids d'"
    by (rule subset_trans [OF assms(4)]) (use c assms(2) in auto)
  ultimately show ?thesis by (simp add: refs_exist_def)
qed

lemma refs_exist_set_available [simp]: "refs_exist (set_available i v d) = refs_exist d"
  by (simp add: refs_exist_def)

lemma refs_exist_update_order:
  "refs_exist d \<Longrightarrow> (\<And>x. order_book_id (f x) = order_book_id x) \<Longrightarrow>
   refs_exist (update_order i f d)"
  by (simp add: refs_exist_def book_ids_def update_order_def flip: set_map)

lemma refs_exist_frame:
  "books d' = books d \<Longrightarrow> orders d' = orders d \<Longrightarrow> carts d' = carts d \<Longrightarrow>
   refs_exist d \<Longrightarrow> refs_exist d'"
  by (simp add: refs_exist_def book_ids_def)

lemma book_ids_delete_book [simp]: "book_ids (delete_book bid d) = book_ids d - {bid}"
  by (auto simp: book_ids_def delete_book_def delete_key_def)

lemma handle_refs_exist:
  assumes "handle r d = Inr d'" "refs_exist d" "sane d r"
  shows "refs_exist d'"
proof (cases r)
  case (DeleteBook cu b)
  with assms(1) have d': "d' = delete_book b d"
    and nc: "\<forall>c\<in>set (carts d). cart_book_id c \<noteq> b"
    by (auto simp: admin_delete_book_Inr list_ex_iff)
  from DeleteBook assms(3) have no: "\<forall>od\<in>set (orders d). order_book_id od \<noteq> b"
    by (simp add: list_all_iff)
  have "orders d' = orders d" using d' delete_book_unreferenced [OF no] by simp
  moreover have "carts d' = carts d" using d' by (simp add: delete_book_def)
  ultimately show ?thesis using assms(2) nc no d' by (auto simp: refs_exist_def)
next
  case (AddBook cu f)
  with assms show ?thesis
    by (intro refs_exist_mono [OF assms(2)]) (auto simp: admin_add_book_Inr book_ids_def add_book_def)
next
  case (EditBook cu b f)
  with assms show ?thesis
    by (auto simp: admin_edit_book_Inr update_book_def refs_exist_def book_ids_def
        simp flip: set_map)
next
  case (PlaceOrder cu b q)
  with assms(1) obtain qty bk where bk: "get_book d b = Some bk"
    and d': "d' = add_order (user_id cu) b qty Pending None
                    (set_available b (available_copies bk - qty) d)"
    by (auto simp: place_order_Inr)
  from bk have b: "b \<in> book_ids d" using get_book_in_ids by blast
  have "order_book_id ` set (orders d') \<subseteq> order_book_id ` set (orders d) \<union> book_ids d"
    using d' b by (auto simp: add_order_def set_available_def)
  moreover have "carts d' = carts d" using d' by (simp add: add_order_def)
  moreover have "book_ids d' = book_ids d" using d' by simp
  ultimately show ?thesis by (intro refs_exist_mono [OF assms(2)]) auto
next
  case (AddToCart cu b q)
  with assms(1) obtain qty bk where bk: "get_book d b = Some bk"
    and d': "d' = set_available b (available_copies bk - qty) (put_in_cart (user_id cu) b qty d)"
    by (auto simp: add_to_cart_Inr)
  from bk have b: "b \<in> book_ids d" using get_book_in_ids by blast
  have "cart_book_id ` set (carts d') \<subseteq> cart_book_id ` set (carts d) \<union> book_ids d"
    using d' b cart_books_put_in_cart [of "user_id cu" b qty d] by auto
  moreover have "orders d' = orders d" using d' by (simp add: put_in_cart_def row_access_defs split: option.split)
  moreover have "book_ids d' = book_ids d" using d' by simp
  ultimately show ?thesis by (intro refs_exist_mono [OF assms(2)]) auto
next
  case (RemoveFromCart cu i)
  with assms show ?thesis
    by (intro refs_exist_mono [OF assms(2)]) (auto simp: remove_from_cart_Inr delete_cart_def book_ids_def)
next
  case (Checkout cu pm)
  let ?pm = "case pm of None \<Rightarrow> ''mock'' | Some s \<Rightarrow> s"
  from Checkout assms(1) have d': "d' = checkout_items (user_id cu) ?pm (user_cart d (user_id cu)) d"
    by (simp add: cart_checkout_Inr)
  have "order_book_id ` set (orders d') =
      order_book_id ` set (orders d) \<union> cart_book_id ` set (user_cart d (user_id cu))"
    using d' by (simp add: orders_checkout_items order_books_lines_to_orders image_Un)
  moreover have "cart_book_id ` set (user_cart d (user_id cu)) \<subseteq> book_ids d"
    using assms(2) by (auto simp: refs_exist_def user_cart_def)
  moreover have "cart_book_id ` set (carts d') \<subseteq> cart_book_id ` set (carts d)"
    using d' by (auto simp: carts_checkout_items)
  ultimately show ?thesis
    using d' by (intro refs_exist_mono [OF assms(2)]) (auto simp: book_ids_def)
next
  case (EditOrder cu i q)
  with assms show ?thesis
    by (auto simp: student_edit_order_Inr intro!: refs_exist_update_order)
next
  case (CancelOrder cu i)
  with assms show ?thesis
    by (auto simp: student_cancel_order_Inr intro!: refs_exist_update_order)
next
  case (ApproveOrder cu i)
  with assms show ?thesis
    by (auto simp: admin_approve_order_Inr intro!: refs_exist_update_order)
next
  case (AdminCancelOrder cu i)
  with assms show ?thesis
    by (auto simp: admin_cancel_order_Inr intro!: refs_exist_update_order)
next
  case (RequestBook cu f)
  with assms(1) have "books d' = books d \<and> orders d' = orders d \<and> carts d' = carts d"
    by (auto simp: request_book_def split: if_splits)
  with assms(2) show ?thesis by (blast intro: refs_exist_frame)
next
  case (ApproveRequest cu i)
  with assms(1) have "books d' = books d \<and> orders d' = orders d \<and> carts d' = carts d"
    by (auto simp: admin_approve_request_Inr set_request_status_def)
  with assms(2) show ?thesis by (blast intro: refs_exist_frame)
next
  case (RejectRequest cu i)
  with assms(1) have "books d' = books d \<and> orders d' = orders d \<and> carts d' = carts d"
    by (auto simp: admin_reject_request_Inr set_request_status_def)
  with assms(2) show ?thesis by (blast intro: refs_exist_frame)
next
  case (ToggleWishlist cu b)
  with assms(1) have "books d' = books d \<and> orders d' = orders d \<and> carts d' = carts d"
    by (auto simp: toggle_wishlist_Inr)
  with assms(2) show ?thesis by (blast intro: refs_exist_frame)
qed

lemma refs_exist_step: "refs_exist d \<Longrightarrow> sane d r \<Longrightarrow> refs_exist (step d r)"
  by (auto simp: step_def intro: handle_refs_exist split: sum.split)

lemma sane_reachable_refs_exist: "sane_reachable d \<Longrightarrow> refs_exist d"
proof (induction rule: sane_reachable.induct)
  case empty
  show ?case by (simp add: refs_exist_def empty_db_def)
next
  case (step d r)
  from step.IH step.hyps(2) show ?case by (rule refs_exist_step)
qed

subsection \<open>Releasing one reservation\<close>

lemma reachable_facts:
  assumes "sane_reachable d"
  shows "inventory_inv d" "refs_exist d" "wf_db d"
  using sane_reachable_sys_inv [OF assms] sane_reachable_refs_exist [OF assms]
  by (simp_all add: sys_inv_def inventory_inv_def)

lemma inj_on_key: "distinct (map k xs) \<Longrightarrow> x \<in> set xs \<Longrightarrow> y \<in> set xs \<Longrightarrow> k x = k y \<Longrightarrow> x = y"
  by (auto simp: distinct_map dest: inj_onD)

lemma release_cart_line_step:
  assumes "sane_reachable d" "c \<in> set (carts d)"
  shows "carts (step d (release_cart_line c)) = filter (\<lambda>x. x \<noteq> c) (carts d) \<and>
         orders (step d (release_cart_line c)) = orders d"
proof -
  note facts = reachable_facts [OF assms(1)]
  have dc: "distinct (map cart_id (carts d))" using wf_db_distinct(3) [OF facts(3)] .
  have gc: "get_cart d (cart_id c) = Some c" by (simp add: get_cart_def find_key_of_mem [OF dc assms(2)])
  from facts(2) assms(2) have "cart_book_id c \<in> book_ids d" by (auto simp: refs_exist_def)
  with get_book_in_ids [of d "cart_book_id c"] obtain bk where bk: "get_book d (cart_book_id c) = Some bk"
    by auto
  have h: "handle (release_cart_line c) d = Inr (delete_cart (cart_id c)
      (set_available (cart_book_id c) (available_copies bk + cart_quantity c) d))"
    by (simp add: release_cart_line_def remove_from_cart_def gc bk)
  have "filter (\<lambda>x. cart_id x \<noteq> cart_id c) (carts d) = filter (\<lambda>x. x \<noteq> c) (carts d)"
    using inj_on_key [OF dc _ assms(2)] by (auto intro: filter_cong)
  with h show ?thesis by (simp add: step_def delete_cart_def delete_key_def set_available_def)
qed

lemma release_order_step:
  assumes "sane_reachable d" "od \<in> set (orders d)" "active (status od)"
  shows "sane d (release_order od) \<and> carts (step d (release_order od)) = carts d \<and>
         {x \<in> set (orders (step d (release_order od))). active (status x)} =
           {x \<in> set (orders d). active (status x)} - {od}"
proof -
  note facts = reachable_facts [OF assms(1)]
  have do: "distinct (map order_id (orders d))" using wf_db_distinct(2) [OF facts(3)] .
  have go: "get_order d (order_id od) = Some od"
    by (simp add: get_order_def find_key_of_mem [OF do assms(2)])
  from facts(2) assms(2) have "order_book_id od \<in> book_ids d" by (auto simp: refs_exist_def)
  with get_book_in_ids [of d "order_book_id od"] obtain bk where bk: "get_book d (order_book_id od) = Some bk"
    by auto
  let ?f = "\<lambda>x. x\<lparr>status := Canceled\<rparr>"
  have h: "handle (release_order od) d = Inr (set_available (order_book_id od)
      (available_copies bk + quantity od) (update_order (order_id od) ?f d))"
    by (simp add: release_order_def release_user_def admin_cancel_order_def go bk)
  have o: "orders (step d (release_order od)) = update_key order_id (order_id od) ?f (orders d)"
    using h by (simp add: step_def set_available_def update_order_def)
  have e: "x \<noteq> od \<longleftrightarrow> order_id x \<noteq> order_id od" if "x \<in> set (orders d)" for x
    using inj_on_key [OF do that assms(2)] by auto
  have "{x \<in> set (update_key order_id (order_id od) ?f (orders d)). active (status x)} =
        {x \<in> set (orders d). order_id x \<noteq> order_id od \<and> active (status x)}"
    unfolding set_update_key by (auto simp: active_def)
  also have "\<dots> = {x \<in> set (orders d). active (status x)} - {od}"
    using e by blast
  finally have "{x \<in> set (update_key order_id (order_id od) ?f (orders d)). active (status x)} =
        {x \<in> set (orders d). active (status x)} - {od}" .
  moreover have "carts (step d (release_order od)) = carts d"
    using h by (simp add: step_def set_available_def update_order_def)
  moreover have "sane d (release_order od)" using go assms(3) by (simp add: release_order_def)
  ultimately show ?thesis using o by simp
qed

subsection \<open>Releasing every reservation\<close>

lemma run_append: "run d (xs @ ys) = run (run d xs) ys"
  by (induction xs arbitrary: d) simp_all

lemma sane_run_append: "sane_run d (xs @ ys) \<longleftrightarrow> sane_run d xs \<and> sane_run (run d xs) ys"
  by (induction xs arbitrary: d) simp_all

lemma reserved_released:
  "\<forall>x\<in>set (orders d). \<not> active (status x) \<Longrightarrow> carts d = [] \<Longrightarrow> reserved d b = 0"
  by (simp add: reserved_def order_claim_def sum_list_zero)

lemma drain_carts:
  assumes "sane_reachable d" "set cs \<subseteq> set (carts d)" "distinct cs"
  shows "sane_run d (map release_cart_line cs) \<and> sane_reachable (run d (map release_cart_line cs)) \<and>
         carts (run d (map release_cart_line cs)) = filter (\<lambda>x. x \<notin> set cs) (carts d) \<and>
         orders (run d (map release_cart_line cs)) = orders d"
  using assms
proof (induction cs arbitrary: d)
  case Nil
  then show ?case by simp
next
  case (Cons c cs)
  let ?d1 = "step d (release_cart_line c)"
  have sane: "sane d (release_cart_line c)" by (simp add: release_cart_line_def)
  have r1: "sane_reachable ?d1" using Cons.prems(1) sane by (rule sane_reachable.step)
  have st: "carts ?d1 = filter (\<lambda>x. x \<noteq> c) (carts d) \<and> orders ?d1 = orders d"
    using release_cart_line_step [OF Cons.prems(1)] Cons.prems(2) by simp
  have "set cs \<subseteq> set (carts ?d1)" using Cons.prems(2,3) st by auto
  from Cons.IH [OF r1 this] Cons.prems(3) sane st show ?case by (simp add: filter_filter)
qed

lemma drain_orders:
  assumes "sane_reachable d" "set os \<subseteq> {x \<in> set (orders d). active (status x)}" "distinct os"
  shows "sane_run d (map release_order os) \<and> sane_reachable (run d (map release_order os)) \<and>
         {x \<in> set (orders (run d (map release_order os))). active (status x)} =
           {x \<in> set (orders d). active (status x)} - set os \<and>
         carts (run d (map release_order os)) = carts d"
  using assms
proof (induction os arbitrary: d)
  case Nil
  then show ?case by simp
next
  case (Cons od os)
  let ?d1 = "step d (release_order od)"
  have od: "od \<in> set (orders d)" "active (status od)" using Cons.prems(2) by auto
  note st = release_order_step [OF Cons.prems(1) od]
  have r1: "sane_reachable ?d1" using Cons.prems(1) st by (blast intro: sane_reachable.step)
  have "set os \<subseteq> {x \<in> set (orders ?d1). active (status x)}" using Cons.prems(2,3) st by auto
  from Cons.IH [OF r1 this] Cons.prems(3) st show ?case by auto
qed

text \<open>
  C35. The ledger cannot get stuck with copies locked away. From every state reached by
  sane requests, \<open>release_requests\<close> is a sane run: each cart line is removed by its
  owner, and each pending or approved order is cancelled by an admin. Every request of
  it succeeds, and afterwards every book has all its copies available again.
\<close>

theorem reservations_always_releasable:
  assumes "sane_reachable d"
  shows "sane_run d (release_requests d) \<and>
         (\<forall>bk\<in>set (books (run d (release_requests d))). available_copies bk = total_copies bk)"
proof -
  note facts = reachable_facts [OF assms]
  let ?os = "filter (\<lambda>od. active (status od)) (orders d)"
  have dc: "distinct (carts d)"
    using wf_db_distinct(3) [OF facts(3)] by (simp add: distinct_map)
  have dos: "distinct ?os"
    using wf_db_distinct(2) [OF facts(3)] by (simp add: distinct_map)
  note c = drain_carts [OF assms order_refl dc]
  let ?d1 = "run d (map release_cart_line (carts d))"
  have c1: "sane_run d (map release_cart_line (carts d))" and c2: "sane_reachable ?d1"
    and c3: "carts ?d1 = filter (\<lambda>x. x \<notin> set (carts d)) (carts d)" and c4: "orders ?d1 = orders d"
    using c by blast+
  have a1: "{x \<in> set (orders ?d1). active (status x)} = set ?os" using c4 by auto
  note o = drain_orders [OF c2 equalityD2 [OF a1] dos]
  let ?d2 = "run ?d1 (map release_order ?os)"
  have o1: "sane_run ?d1 (map release_order ?os)" and o2: "sane_reachable ?d2"
    and o3: "{x \<in> set (orders ?d2). active (status x)} =
               {x \<in> set (orders ?d1). active (status x)} - set ?os"
    and o4: "carts ?d2 = carts ?d1"
    using o by blast+
  have d2: "run d (release_requests d) = ?d2" by (simp add: release_requests_def run_append)
  have "{x \<in> set (orders ?d2). active (status x)} = {}" by (simp only: o3 a1 Diff_cancel)
  then have none: "\<forall>x\<in>set (orders ?d2). \<not> active (status x)" by blast
  have empty: "carts ?d2 = []" using o4 c3 by (simp add: filter_empty_conv)
  have r0: "reserved ?d2 b = 0" for b by (rule reserved_released [OF none empty])
  have "conserved ?d2" using reachable_facts(1) [OF o2] by (simp add: inventory_inv_def)
  then have "\<forall>bk\<in>set (books ?d2). available_copies bk = total_copies bk"
    using r0 by (simp add: conserved_def)
  moreover have "sane_run d (release_requests d)"
    using c1 o1 by (simp add: release_requests_def sane_run_append)
  ultimately show ?thesis using d2 by simp
qed

theorem reservations_always_releasable_witness:
  "sane_run (run empty_db demo_trace) (release_requests (run empty_db demo_trace)) \<and>
   list_all (\<lambda>bk. available_copies bk = total_copies bk)
     (books (run (run empty_db demo_trace) (release_requests (run empty_db demo_trace))))"
proof -
  have s: "sane_run empty_db demo_trace" by (simp add: demo_trace_def run_eval active_def)
  have "sane_reachable (run empty_db demo_trace)"
    using sane_run_reachable [OF sane_reachable.empty s] .
  from reservations_always_releasable [OF this] show ?thesis unfolding list_all_iff .
qed

end
