(* ===== verification/Users.thy ===== *)
theory Users
  imports Orders Requests Search "HOL-Library.AList" "HOL-Library.Multiset"
begin

text \<open>
  The user table of \<open>src/models.py\<close> (\<open>class User\<close>) and the handlers of \<open>src/app.py\<close>
  that read or write it: \<open>register\<close>, \<open>login\<close>, \<open>profile\<close>, \<open>forgot_password\<close>,
  \<open>reset_password\<close>, \<open>admin_edit_student\<close>, \<open>admin_delete_student\<close>,
  \<open>admin_students\<close>, and the read-only \<open>api_stats\<close>. The state is the record \<open>site\<close>:
  the account rows, the next account key, the files of the upload folder
  (\<open>static/uploads\<close>, an association list from file name to content) and the
  database \<open>db\<close> of the other theories.

  Three library calls are parameters, so every lemma holds for every behaviour of them:
  the WTForms \<open>Email()\<close> validator (\<open>valid_email\<close>), \<open>bcrypt.hashpw\<close> and
  \<open>bcrypt.checkpw\<close> of \<open>set_password\<close>/\<open>check_password\<close> (\<open>hashpw\<close>, \<open>chk\<close>;
  the random salt is folded into \<open>hashpw\<close>), and werkzeug's \<open>secure_filename\<close>
  (\<open>secure\<close>). The signed reset token of \<open>URLSafeTimedSerializer\<close> is modelled by its
  payload: \<open>forgot_password\<close> returns the e-mail it signs, and \<open>reset_password\<close>
  receives \<open>Some e\<close> when \<open>s.loads\<close> accepts the token and \<open>None\<close> when it raises.
  Python's \<open>str.lower()\<close> is \<open>py_lower\<close>, exact on ASCII text.
\<close>

record account =
  acc_id :: user_id
  acc_name :: string
  acc_email :: string
  recovery_email :: "string option"
  password_hash :: string
  acc_role :: role
  profile_pic :: string

record site =
  accounts :: "account list"
  next_user_id :: user_id
  uploads :: "(string \<times> string) list"
  store :: db

text \<open>\<open>load_user\<close>: the signed-in user is the row with the session's id.\<close>

definition get_account :: "site \<Rightarrow> user_id \<Rightarrow> account option" where
  "get_account s i = find_key acc_id i (accounts s)"

definition session_user :: "account \<Rightarrow> user" where
  "session_user a = \<lparr>user_id = acc_id a, role = acc_role a\<rparr>"

definition py_lower :: "string \<Rightarrow> string" where
  "py_lower s = map ascii_lower s"

text \<open>\<open>form.email.data.strip().lower()\<close>, as \<open>login\<close>, \<open>register\<close> and \<open>forgot_password\<close> write it.\<close>

definition norm_email :: "string \<Rightarrow> string" where
  "norm_email e = py_lower (py_strip e)"

text \<open>\<open>User.query.filter_by(email=e).first()\<close>.\<close>

definition find_email :: "site \<Rightarrow> string \<Rightarrow> account option" where
  "find_email s e = find (\<lambda>a. acc_email a = e) (accounts s)"

text \<open>\<open>register()\<close>: \<open>RegisterForm\<close> requires name, e-mail and password, checks the e-mail
  and \<open>EqualTo('confirm')\<close>; the row takes the column defaults \<open>role='student'\<close> and
  \<open>profile_pic='default.png'\<close>.\<close>

definition register ::
  "(string \<Rightarrow> bool) \<Rightarrow> (string \<Rightarrow> string) \<Rightarrow> user option \<Rightarrow> string \<Rightarrow> string \<Rightarrow>
   string \<Rightarrow> string \<Rightarrow> site \<Rightarrow> error + site" where
  "register valid_email hashpw cu name email pw confirm s =
     (if cu \<noteq> None then Inl SignedIn
      else if \<not> (data_required name \<and> data_required email \<and> valid_email email \<and>
                 data_required pw \<and> pw = confirm) then Inl InvalidForm
      else let e = norm_email email in
        if find_email s e \<noteq> None then Inl EmailTaken
        else Inr (s\<lparr>accounts := accounts s @
                       [\<lparr>acc_id = next_user_id s, acc_name = name, acc_email = e,
                         recovery_email = None, password_hash = hashpw pw, acc_role = Student,
                         profile_pic = ''default.png''\<rparr>],
                   next_user_id := Suc (next_user_id s)\<rparr>))"

text \<open>\<open>login()\<close>: the result is the user \<open>login_user\<close> signs in.\<close>

definition login ::
  "(string \<Rightarrow> bool) \<Rightarrow> (string \<Rightarrow> string \<Rightarrow> bool) \<Rightarrow> user option \<Rightarrow> string \<Rightarrow> string \<Rightarrow>
   site \<Rightarrow> error + user" where
  "login valid_email chk cu email pw s =
     (if cu \<noteq> None then Inl SignedIn
      else if \<not> (data_required email \<and> valid_email email \<and> data_required pw) then Inl InvalidForm
      else case find_email s (norm_email email) of
        None \<Rightarrow> Inl InvalidLogin
      | Some a \<Rightarrow> if chk pw (password_hash a) then Inr (session_user a) else Inl InvalidLogin)"

definition allowed_extensions :: "string list" where
  "allowed_extensions = [''png'', ''jpg'', ''jpeg'', ''gif'']"

text \<open>\<open>filename.rsplit('.', 1)[1]\<close>: the text after the last dot.\<close>

definition file_ext :: "string \<Rightarrow> string" where
  "file_ext fn = rev (takeWhile (\<lambda>c. c \<noteq> CHR ''.'') (rev fn))"

definition allowed_file :: "string \<Rightarrow> bool" where
  "allowed_file fn \<longleftrightarrow> CHR ''.'' \<in> set fn \<and> py_lower (file_ext fn) \<in> set allowed_extensions"

text \<open>
  \<open>profile()\<close> on POST: \<open>name\<close> is \<open>request.form.get('name', current_user.name)\<close>,
  with no validation; \<open>upload\<close> is the \<open>profile_pic\<close> part (file name and content),
  if any. A \<open>FileStorage\<close> with an empty name is falsy, and \<open>allowed_file\<close> already
  rejects it. The file is saved under \<open>secure_filename(name)\<close>, replacing a file of
  that name; if that name is empty the path is the folder itself and \<open>file.save\<close>
  raises. An anonymous caller is redirected by \<open>login_required\<close>.
\<close>

definition profile ::
  "(string \<Rightarrow> string) \<Rightarrow> user_id \<Rightarrow> string option \<Rightarrow> (string \<times> string) option \<Rightarrow>
   site \<Rightarrow> error + site" where
  "profile secure uid name upload s =
     (case get_account s uid of
        None \<Rightarrow> Inl NotAuthorized
      | Some a \<Rightarrow>
          let n = (case name of None \<Rightarrow> acc_name a | Some n \<Rightarrow> n) in
          (case upload of
             Some (fn, content) \<Rightarrow>
               if allowed_file fn then
                 (if secure fn = [] then Inl ServerError
                  else Inr (s\<lparr>accounts := update_key acc_id uid
                                 (\<lambda>x. x\<lparr>acc_name := n, profile_pic := secure fn\<rparr>) (accounts s),
                              uploads := AList.update (secure fn) content (uploads s)\<rparr>))
               else Inr (s\<lparr>accounts := update_key acc_id uid (\<lambda>x. x\<lparr>acc_name := n\<rparr>) (accounts s)\<rparr>)
           | None \<Rightarrow>
               Inr (s\<lparr>accounts := update_key acc_id uid (\<lambda>x. x\<lparr>acc_name := n\<rparr>) (accounts s)\<rparr>)))"

text \<open>\<open>forgot_password()\<close>: \<open>request.form['email']\<close>; the result is the e-mail the
  token signs (the mail itself is sent by Flask-Mail).\<close>

definition forgot_password :: "string option \<Rightarrow> site \<Rightarrow> error + string" where
  "forgot_password email s =
     (case email of
        None \<Rightarrow> Inl BadRequest
      | Some e0 \<Rightarrow>
          let e = norm_email e0 in
          (case find_email s e of None \<Rightarrow> Inl NotFound | Some _ \<Rightarrow> Inr e))"

text \<open>\<open>reset_password(token)\<close> on POST: \<open>user\<close> is \<open>None\<close> when no row has the token's
  e-mail any more, and \<open>user.set_password\<close> then raises \<open>AttributeError\<close>.\<close>

definition reset_password ::
  "(string \<Rightarrow> string) \<Rightarrow> string option \<Rightarrow> string option \<Rightarrow> site \<Rightarrow> error + site" where
  "reset_password hashpw tok pw s =
     (case tok of
        None \<Rightarrow> Inl InvalidToken
      | Some e \<Rightarrow>
          (case pw of
             None \<Rightarrow> Inl BadRequest
           | Some p \<Rightarrow>
               (case find_email s e of
                  None \<Rightarrow> Inl ServerError
                | Some a \<Rightarrow>
                    Inr (s\<lparr>accounts := update_key acc_id (acc_id a)
                                       (\<lambda>x. x\<lparr>password_hash := hashpw p\<rparr>) (accounts s)\<rparr>))))"

text \<open>\<open>admin_edit_student(user_id)\<close>: \<open>StudentForm\<close> requires name and e-mail;
  \<open>form.populate_obj(user)\<close> writes both as typed, with no \<open>strip().lower()\<close>. The column
  \<open>email\<close> is \<open>unique=True\<close>, so an e-mail already held by another row makes the commit
  raise \<open>IntegrityError\<close>. The target's role is not checked.\<close>

definition admin_edit_student ::
  "(string \<Rightarrow> bool) \<Rightarrow> user \<Rightarrow> user_id \<Rightarrow> string \<Rightarrow> string \<Rightarrow> site \<Rightarrow> error + site" where
  "admin_edit_student valid_email cu uid name email s =
     (if role cu \<noteq> Admin then Inl NotAuthorized
      else case get_account s uid of
        None \<Rightarrow> Inl NotFound
      | Some _ \<Rightarrow>
          if \<not> (data_required name \<and> data_required email \<and> valid_email email) then Inl InvalidForm
          else if list_ex (\<lambda>b. acc_id b \<noteq> uid \<and> acc_email b = email) (accounts s) then Inl ServerError
          else Inr (s\<lparr>accounts := update_key acc_id uid
                                   (\<lambda>x. x\<lparr>acc_name := name, acc_email := email\<rparr>) (accounts s)\<rparr>))"

text \<open>
  \<open>db.session.delete(user)\<close>. The relationships \<open>User.orders\<close>, \<open>User.cart_items\<close> and
  \<open>User.book_requests\<close> have the default cascade, so SQLAlchemy sets the foreign key of
  every child row to NULL (\<open>null_user\<close>: the key 0, never assigned) and deletes the
  user's rows of the \<open>wishlist\<close> association table. \<open>Cart.user_id\<close> and
  \<open>BookRequest.user_id\<close> are \<open>nullable=False\<close>: a cart line or a book request of the
  user makes the flush raise \<open>IntegrityError\<close>. \<open>Order.user_id\<close> is nullable.
\<close>

definition null_user :: user_id where
  "null_user = 0"

definition delete_account :: "user_id \<Rightarrow> site \<Rightarrow> site" where
  "delete_account uid s =
     s\<lparr>accounts := delete_key acc_id uid (accounts s),
       store := (store s)\<lparr>
         orders := map (\<lambda>od. if order_user_id od = uid then od\<lparr>order_user_id := null_user\<rparr> else od)
                     (orders (store s)),
         wishlist := filter (\<lambda>p. fst p \<noteq> uid) (wishlist (store s))\<rparr>\<rparr>"

definition admin_delete_student :: "user \<Rightarrow> user_id \<Rightarrow> site \<Rightarrow> error + site" where
  "admin_delete_student cu uid s =
     (if role cu \<noteq> Admin then Inl NotAuthorized
      else case get_account s uid of
        None \<Rightarrow> Inl NotFound
      | Some _ \<Rightarrow>
          if list_ex (\<lambda>c. cart_user_id c = uid) (carts (store s)) \<or>
             list_ex (\<lambda>r. request_user_id r = uid) (book_requests (store s))
          then Inl ServerError
          else Inr (delete_account uid s))"

text \<open>\<open>admin_students()\<close> and the user list of \<open>admin_dashboard()\<close>:
  \<open>User.query.filter_by(role='student').all()\<close>.\<close>

definition admin_students :: "user \<Rightarrow> site \<Rightarrow> error + account list" where
  "admin_students cu s =
     (if role cu \<noteq> Admin then Inl NotAuthorized
      else Inr (filter (\<lambda>a. acc_role a = Student) (accounts s)))"

text \<open>
  \<open>api_stats()\<close>: \<open>SELECT title, sum(quantity) FROM book JOIN order GROUP BY book.id
  ORDER BY sum DESC LIMIT 5\<close>. The inner join keeps the books with at least one order of
  any status. SQL leaves the order of equal sums open; the model takes the stable
  sort of the table order, and the lemmas below say nothing that depends on it.
\<close>

definition book_total :: "db \<Rightarrow> book_id \<Rightarrow> int" where
  "book_total d b = sum_list (map quantity (filter (\<lambda>od. order_book_id od = b) (orders d)))"

definition ordered_books :: "db \<Rightarrow> book list" where
  "ordered_books d = filter (\<lambda>b. list_ex (\<lambda>od. order_book_id od = book_id b) (orders d)) (books d)"

definition stats_rows :: "db \<Rightarrow> (string \<times> int) list" where
  "stats_rows d =
     take 5 (sort_key (\<lambda>r. - snd r) (map (\<lambda>b. (title b, book_total d (book_id b))) (ordered_books d)))"

definition api_stats :: "user \<Rightarrow> db \<Rightarrow> error + string list \<times> int list" where
  "api_stats cu d =
     (if role cu \<noteq> Admin then Inl Forbidden
      else Inr (map fst (stats_rows d), map snd (stats_rows d)))"

text \<open>The start-up block: when no admin row exists, one is created with the fixed
  e-mail \<open>admin@bookstore.com\<close> and password \<open>admin123\<close>.\<close>

definition seed_admin :: "(string \<Rightarrow> string) \<Rightarrow> site \<Rightarrow> site" where
  "seed_admin hashpw s =
     (if list_ex (\<lambda>a. acc_role a = Admin) (accounts s) then s
      else s\<lparr>accounts := accounts s @
                [\<lparr>acc_id = next_user_id s, acc_name = ''Admin'', acc_email = ''admin@bookstore.com'',
                  recovery_email = None, password_hash = hashpw ''admin123'', acc_role = Admin,
                  profile_pic = ''default.png''\<rparr>],
             next_user_id := Suc (next_user_id s)\<rparr>)"

subsection \<open>The account handlers as one step function\<close>

text \<open>The requests of the handlers above that write the site, with the library calls
  they use as parameters of \<open>account_step\<close>.\<close>

datatype account_req =
    Register "user option" string string string string
  | Profile user_id "string option" "(string \<times> string) option"
  | ResetPassword "string option" "string option"
  | EditStudent user user_id string string
  | DeleteStudent user user_id

fun account_step ::
  "(string \<Rightarrow> bool) \<Rightarrow> (string \<Rightarrow> string) \<Rightarrow> (string \<Rightarrow> string) \<Rightarrow> account_req \<Rightarrow> site \<Rightarrow>
   error + site" where
  "account_step ve hp sec (Register cu n e p c) s = register ve hp cu n e p c s"
| "account_step ve hp sec (Profile uid n up) s = profile sec uid n up s"
| "account_step ve hp sec (ResetPassword tok p) s = reset_password hp tok p s"
| "account_step ve hp sec (EditStudent cu uid n e) s = admin_edit_student ve cu uid n e s"
| "account_step ve hp sec (DeleteStudent cu uid) s = admin_delete_student cu uid s"

subsection \<open>Invariants of the site\<close>

text \<open>Account keys are unique, below the next key and never the NULL key; e-mails are
  unique (the column's \<open>unique=True\<close>).\<close>

definition users_inv :: "site \<Rightarrow> bool" where
  "users_inv s \<longleftrightarrow>
     keys_ok acc_id (accounts s) (next_user_id s) \<and> null_user < next_user_id s \<and>
     null_user \<notin> acc_id ` set (accounts s) \<and> distinct (map acc_email (accounts s))"

definition user_ids :: "site \<Rightarrow> user_id set" where
  "user_ids s = acc_id ` set (accounts s)"

text \<open>Foreign keys into \<open>user\<close>: every order names an account or NULL; every cart
  line, book request and wishlist row names an account.\<close>

definition fk_ok :: "site \<Rightarrow> bool" where
  "fk_ok s \<longleftrightarrow>
     (\<forall>od\<in>set (orders (store s)). order_user_id od \<in> insert null_user (user_ids s)) \<and>
     (\<forall>c\<in>set (carts (store s)). cart_user_id c \<in> user_ids s) \<and>
     (\<forall>r\<in>set (book_requests (store s)). request_user_id r \<in> user_ids s) \<and>
     (\<forall>p\<in>set (wishlist (store s)). fst p \<in> user_ids s)"

definition site_inv :: "site \<Rightarrow> bool" where
  "site_inv s \<longleftrightarrow> users_inv s \<and> fk_ok s \<and> inventory_inv (store s)"

subsection \<open>Sample accounts\<close>

text \<open>The accounts of the users \<open>admin\<close>, \<open>alice\<close> and \<open>bob\<close> of \<open>Ledger\<close>, over the
  database \<open>demo_db\<close>.\<close>

definition demo_account :: "user_id \<Rightarrow> string \<Rightarrow> string \<Rightarrow> role \<Rightarrow> account" where
  "demo_account i n e r = \<lparr>acc_id = i, acc_name = n, acc_email = e, recovery_email = None,
     password_hash = ''h'', acc_role = r, profile_pic = ''default.png''\<rparr>"

definition demo_site :: site where
  "demo_site = \<lparr>accounts = [demo_account 1 ''Admin'' ''admin@bookstore.com'' Admin,
                           demo_account 7 ''Alice'' ''alice@uni.edu'' Student,
                           demo_account 8 ''Bob'' ''bob@uni.edu'' Student],
               next_user_id = 9, uploads = [], store = demo_db\<rparr>"

subsection \<open>Invariants and behaviour of the account handlers\<close>

lemma user_ids_set: "user_ids s = set (map acc_id (accounts s))"
  by (simp add: user_ids_def)

lemma site_inv_accounts_update:
  assumes "accounts s' = update_key acc_id i f (accounts s)" "next_user_id s' = next_user_id s"
    "store s' = store s" "\<And>x. acc_id (f x) = acc_id x" "\<And>x. acc_email (f x) = acc_email x"
  shows "site_inv s' = site_inv s"
proof -
  have ids: "map acc_id (accounts s') = map acc_id (accounts s)"
   and em: "map acc_email (accounts s') = map acc_email (accounts s)" using assms by simp_all
  have "user_ids s' = user_ids s" by (simp only: user_ids_set ids)
  moreover have "users_inv s' = users_inv s"
    unfolding users_inv_def keys_ok_map by (simp only: ids em assms(2) flip: set_map)
  ultimately show ?thesis using assms(3) by (simp add: site_inv_def fk_ok_def)
qed

lemma admin_edit_student_Inr:
  assumes "admin_edit_student ve cu uid n e s = Inr s'"
  shows "role cu = Admin \<and> get_account s uid \<noteq> None \<and> data_required n \<and> data_required e \<and> ve e \<and>
         (\<forall>x\<in>set (accounts s). acc_id x \<noteq> uid \<longrightarrow> acc_email x \<noteq> e) \<and>
         s' = s\<lparr>accounts := update_key acc_id uid (\<lambda>x. x\<lparr>acc_name := n, acc_email := e\<rparr>)
                               (accounts s)\<rparr>"
  using assms by (auto simp: admin_edit_student_def list_ex_iff split: if_splits option.splits)

lemma admin_delete_student_Inr:
  assumes "admin_delete_student cu uid s = Inr s'"
  shows "role cu = Admin \<and> get_account s uid \<noteq> None \<and>
         (\<forall>c\<in>set (carts (store s)). cart_user_id c \<noteq> uid) \<and>
         (\<forall>r\<in>set (book_requests (store s)). request_user_id r \<noteq> uid) \<and> s' = delete_account uid s"
  using assms by (auto simp: admin_delete_student_def list_ex_iff split: if_splits option.splits)

lemma register_Inr:
  assumes "register ve hp cu n e p c s = Inr s'"
  shows "cu = None \<and> data_required n \<and> data_required e \<and> ve e \<and> data_required p \<and> p = c \<and>
         find_email s (norm_email e) = None \<and>
         s' = s\<lparr>accounts := accounts s @
                   [\<lparr>acc_id = next_user_id s, acc_name = n, acc_email = norm_email e,
                     recovery_email = None, password_hash = hp p, acc_role = Student,
                     profile_pic = ''default.png''\<rparr>],
               next_user_id := Suc (next_user_id s)\<rparr>"
  using assms by (auto simp: register_def Let_def split: if_splits)

lemma site_inv_register:
  assumes "site_inv s" "register ve hp cu n e p c s = Inr s'"
  shows "site_inv s'"
proof -
  from register_Inr [OF assms(2)] have none: "find_email s (norm_email e) = None"
    and s': "s' = s\<lparr>accounts := accounts s @
                   [\<lparr>acc_id = next_user_id s, acc_name = n, acc_email = norm_email e,
                     recovery_email = None, password_hash = hp p, acc_role = Student,
                     profile_pic = ''default.png''\<rparr>],
               next_user_id := Suc (next_user_id s)\<rparr>" by blast+
  have fresh: "norm_email e \<notin> set (map acc_email (accounts s))"
    using none by (auto simp: find_email_def find_None_iff)
  have ids: "user_ids s' = insert (next_user_id s) (user_ids s)" by (simp add: s' user_ids_def)
  have "users_inv s'" using assms(1) fresh
    by (auto simp: s' site_inv_def users_inv_def intro!: keys_ok_append_fresh)
  moreover have "fk_ok s'"
  proof -
    have "store s' = store s" by (simp add: s')
    then show ?thesis using assms(1) unfolding fk_ok_def ids by (auto simp: site_inv_def fk_ok_def)
  qed
  ultimately show ?thesis using assms(1) by (simp add: site_inv_def s')
qed

lemma site_inv_reset_password:
  assumes "site_inv s" "reset_password hp tok p s = Inr s'"
  shows "site_inv s'"
proof -
  obtain e pw a where "tok = Some e" "p = Some pw" "find_email s e = Some a"
    using assms(2) by (auto simp: reset_password_def split: option.splits)
  then have s': "s' = s\<lparr>accounts := update_key acc_id (acc_id a)
                                  (\<lambda>x. x\<lparr>password_hash := hp pw\<rparr>) (accounts s)\<rparr>"
    using assms(2) by (simp add: reset_password_def)
  have "site_inv s' = site_inv s"
    by (rule site_inv_accounts_update [of s' "acc_id a" "\<lambda>x. x\<lparr>password_hash := hp pw\<rparr>"])
       (simp_all add: s')
  with assms(1) show ?thesis by simp
qed

lemma site_inv_profile:
  assumes "site_inv s" "profile sec uid n up s = Inr s'"
  shows "site_inv s'"
proof -
  obtain f where s': "accounts s' = update_key acc_id uid f (accounts s)"
    "next_user_id s' = next_user_id s" "store s' = store s"
    and f: "\<And>x. acc_id (f x) = acc_id x" "\<And>x. acc_email (f x) = acc_email x"
    using assms(2) by (auto simp: profile_def Let_def split: option.splits if_splits)
  have "site_inv s' = site_inv s" by (rule site_inv_accounts_update [OF s' f])
  with assms(1) show ?thesis by simp
qed

lemma site_inv_admin_edit_student:
  assumes "site_inv s" "admin_edit_student ve cu uid n e s = Inr s'"
  shows "site_inv s'"
proof -
  have free: "\<forall>x\<in>set (accounts s). acc_id x \<noteq> uid \<longrightarrow> acc_email x \<noteq> e"
   and s': "s' = s\<lparr>accounts := update_key acc_id uid (\<lambda>x. x\<lparr>acc_name := n, acc_email := e\<rparr>)
                                 (accounts s)\<rparr>"
    using admin_edit_student_Inr [OF assms(2)] by blast+
  have ids: "map acc_id (accounts s') = map acc_id (accounts s)" by (simp add: s')
  have ko: "keys_ok acc_id (accounts s) (next_user_id s)"
    and em: "distinct (map acc_email (accounts s))" using assms(1) by (simp_all add: site_inv_def users_inv_def)
  have "distinct (map acc_email (accounts s'))"
    unfolding s' using free keys_ok_distinct [OF ko] em
    by (simp del: map_update_key_inv) (rule distinct_map_update_key, simp_all)
  moreover have "user_ids s' = user_ids s" by (simp only: user_ids_set ids)
  ultimately show ?thesis using assms(1) ids
    by (simp add: site_inv_def users_inv_def fk_ok_def keys_ok_map s' flip: set_map)
qed

lemma user_ids_delete_account [simp]:
  "user_ids (delete_account uid s) = user_ids s - {uid}"
  by (auto simp: user_ids_def delete_account_def)

lemma reserved_reown:
  assumes "\<And>od. order_book_id (g od) = order_book_id od"
    and "\<And>od. quantity (g od) = quantity od" "\<And>od. status (g od) = status od"
  shows "reserved (d\<lparr>orders := map g (orders d), wishlist := w\<rparr>) b = reserved d b"
proof -
  have "order_claim b (g od) = order_claim b od" for od by (simp add: order_claim_def assms)
  then show ?thesis by (simp add: reserved_def comp_def)
qed

lemma inventory_inv_reown:
  assumes "inventory_inv d"
    and "\<And>od. order_id (g od) = order_id od" "\<And>od. order_book_id (g od) = order_book_id od"
    and "\<And>od. quantity (g od) = quantity od" "\<And>od. status (g od) = status od"
  shows "inventory_inv (d\<lparr>orders := map g (orders d), wishlist := filter P (wishlist d)\<rparr>)"
proof -
  let ?d = "d\<lparr>orders := map g (orders d), wishlist := filter P (wishlist d)\<rparr>"
  have r: "reserved ?d b = reserved d b" for b by (rule reserved_reown) (simp_all add: assms)
  have m: "map order_id (map g (orders d)) = map order_id (orders d)" by (simp add: comp_def assms(2))
  have "wf_db ?d" using assms(1) unfolding inventory_inv_def wf_db_def keys_ok_map
    by (simp add: m del: map_map)
  then show ?thesis using assms(1)
    by (simp add: inventory_inv_def conserved_def r positive_claims_def nonneg_stock_def assms(4))
qed

lemma site_inv_admin_delete_student:
  assumes "site_inv s" "admin_delete_student cu uid s = Inr s'"
  shows "site_inv s'"
proof -
  have s': "s' = delete_account uid s"
   and nc: "\<forall>c\<in>set (carts (store s)). cart_user_id c \<noteq> uid"
   and nr: "\<forall>r\<in>set (book_requests (store s)). request_user_id r \<noteq> uid"
    using admin_delete_student_Inr [OF assms(2)] by blast+
  have "distinct (map acc_email (delete_key acc_id uid (accounts s)))"
    using assms(1) by (simp add: site_inv_def users_inv_def delete_key_def distinct_map_filter)
  then have "users_inv s'" using assms(1)
    by (auto simp: s' site_inv_def users_inv_def delete_account_def)
  moreover have "fk_ok s'"
  proof -
    have ids: "user_ids s' = user_ids s - {uid}" by (simp add: s')
    show ?thesis unfolding fk_ok_def ids using assms(1) nc nr
      by (auto simp: s' site_inv_def fk_ok_def delete_account_def)
  qed
  moreover have "inventory_inv (store s')" using assms(1)
    unfolding s' delete_account_def site_inv_def by (simp add: inventory_inv_reown)
  ultimately show ?thesis by (simp add: site_inv_def)
qed

text \<open>
  C6. Every account handler keeps the site invariant: account keys unique and never the
  NULL key, e-mails unique, every order owned by an account or by NULL, every cart line,
  book request and wishlist row owned by an account, and the inventory invariant of the
  database. Registration checks the e-mail first; the admin's edit relies on the column's
  \<open>unique=True\<close> (a clash is an \<open>IntegrityError\<close>); deleting a student fails
  while a cart line or a book request still names them.
\<close>

theorem account_step_keeps_site_inv:
  assumes "site_inv s" "account_step ve hp sec r s = Inr s'"
  shows "site_inv s'"
  using assms
proof (cases r)
  case (Register cu n e p c)
  with assms show ?thesis by (simp add: site_inv_register)
next
  case (Profile uid n up)
  with assms show ?thesis by (simp add: site_inv_profile)
next
  case (ResetPassword tok p)
  with assms show ?thesis by (simp add: site_inv_reset_password)
next
  case (EditStudent cu uid n e)
  with assms show ?thesis by (simp add: site_inv_admin_edit_student)
next
  case (DeleteStudent cu uid)
  with assms show ?thesis by (simp add: site_inv_admin_delete_student)
qed

lemma demo_site_inv: "site_inv demo_site"
  using demo_inventory_inv
  by (simp add: site_inv_def users_inv_def fk_ok_def demo_site_def demo_account_def keys_ok_def
      null_user_def demo_db_def)

theorem account_step_keeps_site_inv_witness:
  "site_inv demo_site \<and>
   (\<exists>s'. account_step (\<lambda>_. True) id id (Register None ''Carol'' '' Carol@Uni.edu'' ''pw'' ''pw'') demo_site = Inr s' \<and> site_inv s')"
proof -
  have "\<exists>s'. account_step (\<lambda>_. True) id id (Register None ''Carol'' '' Carol@Uni.edu'' ''pw'' ''pw'') demo_site = Inr s'"
    by (simp add: register_def demo_site_def demo_account_def find_email_def norm_email_def py_lower_def
        py_strip_def data_required_def py_isspace_def ascii_lower_def)
  then obtain s' where st: "account_step (\<lambda>_. True) id id (Register None ''Carol'' '' Carol@Uni.edu'' ''pw'' ''pw'') demo_site = Inr s'" ..
  from account_step_keeps_site_inv [OF demo_site_inv st] st demo_site_inv show ?thesis by blast
qed

lemma ascii_lower_idem [simp]: "ascii_lower (ascii_lower c) = ascii_lower c"
  by (simp add: ascii_lower_def Let_def)

lemma eq_char_of_iff: "c = char_of (n::nat) \<longleftrightarrow> take_bit 8 n = of_char c"
  by (metis char_of_eq_iff)

lemma norm_email_lowered: "x \<in> set (norm_email e) \<Longrightarrow> ascii_lower x = x"
  by (auto simp: norm_email_def py_lower_def)

lemma login_Inr:
  assumes "login ve chk cu e p s = Inr u"
  shows "\<exists>a. find_email s (norm_email e) = Some a \<and> chk p (password_hash a) \<and> u = session_user a"
  using assms by (auto simp: login_def split: if_splits option.splits)

lemma find_email_Some: "find_email s e = Some a \<Longrightarrow> a \<in> set (accounts s) \<and> acc_email a = e"
  by (auto simp: find_email_def find_Some_iff)

text \<open>
  C16. \<open>admin_edit_student\<close> stores the e-mail as typed, while \<open>login\<close> looks up
  \<open>email.strip().lower()\<close>. Once an admin saves an e-mail with a capital letter, no login
  with any typed e-mail and any password signs in as that student.
\<close>

theorem admin_edit_locks_out:
  assumes "admin_edit_student ve cu uid n e s = Inr s'" "c \<in> set e" "ascii_lower c \<noteq> c"
  shows "\<forall>typed pw u. login ve chk None typed pw s' = Inr u \<longrightarrow> user_id u \<noteq> uid"
proof (intro allI impI)
  fix typed pw u
  assume "login ve chk None typed pw s' = Inr u"
  then obtain a where a: "find_email s' (norm_email typed) = Some a" "u = session_user a"
    using login_Inr by blast
  have s': "accounts s' = update_key acc_id uid (\<lambda>x. x\<lparr>acc_name := n, acc_email := e\<rparr>) (accounts s)"
    using admin_edit_student_Inr [OF assms(1)] by simp
  from a(1) have mem: "a \<in> set (accounts s')" and em: "acc_email a = norm_email typed"
    using find_email_Some by blast+
  show "user_id u \<noteq> uid"
  proof
    assume "user_id u = uid"
    then have "acc_id a = uid" using a(2) by (simp add: session_user_def)
    with mem have "a \<in> (\<lambda>x. x\<lparr>acc_name := n, acc_email := e\<rparr>) ` set (accounts s)"
      unfolding s' by (rule update_key_mem_same) simp
    then have "acc_email a = e" by auto
    with em assms(2) have "c \<in> set (norm_email typed)" by simp
    with assms(3) norm_email_lowered show False by blast
  qed
qed

theorem admin_edit_locks_out_witness:
  "\<exists>s'. admin_edit_student (\<lambda>_. True) admin 7 ''Alice'' ''Alice@uni.edu'' demo_site = Inr s' \<and>
        (\<forall>typed pw u. login (\<lambda>_. True) (=) None typed pw s' = Inr u \<longrightarrow> user_id u \<noteq> 7)"
proof -
  have "\<exists>s'. admin_edit_student (\<lambda>_. True) admin 7 ''Alice'' ''Alice@uni.edu'' demo_site = Inr s'"
    by (simp add: admin_edit_student_def admin_def get_account_def demo_site_def demo_account_def
        data_required_def py_strip_def py_isspace_def table_simps)
  then obtain s' where st: "admin_edit_student (\<lambda>_. True) admin 7 ''Alice'' ''Alice@uni.edu'' demo_site = Inr s'" ..
  have "CHR ''A'' \<in> set ''Alice@uni.edu''" "ascii_lower CHR ''A'' \<noteq> CHR ''A''"
    by (simp_all add: ascii_lower_def char_of_eq_iff)
  from admin_edit_locks_out [OF st this] st show ?thesis by blast
qed

lemma data_required_norm_email: "data_required e \<longleftrightarrow> norm_email e \<noteq> []"
  by (simp add: data_required_def norm_email_def py_lower_def)

text \<open>
  C15. Registration and login agree: after a successful registration, logging in with
  any spelling of the e-mail that normalises to the same text, and with the password
  (under \<open>bcrypt\<close>'s contract that \<open>checkpw(p, hashpw(p))\<close>), signs in the new
  student with the next key.
\<close>

theorem register_then_login:
  assumes "register ve hp None n e p p s = Inr s'" "chk p (hp p)" "ve typed"
    and "norm_email typed = norm_email e"
  shows "login ve chk None typed p s' = Inr \<lparr>user_id = next_user_id s, role = Student\<rparr>"
proof -
  note r = register_Inr [OF assms(1)]
  have "data_required typed" using r assms(4) by (simp add: data_required_norm_email)
  moreover have "find_email s' (norm_email typed) =
      Some \<lparr>acc_id = next_user_id s, acc_name = n, acc_email = norm_email e, recovery_email = None,
            password_hash = hp p, acc_role = Student, profile_pic = ''default.png''\<rparr>"
    using r assms(4) by (simp add: find_email_def find_append_None)
  ultimately show ?thesis using r assms(2,3) by (simp add: login_def session_user_def)
qed

theorem register_then_login_witness:
  "\<exists>s'. register (\<lambda>_. True) id None ''Carol'' '' Carol@Uni.edu'' ''pw'' ''pw'' demo_site = Inr s' \<and>
        login (\<lambda>_. True) (=) None ''carol@uni.edu'' ''pw'' s' = Inr \<lparr>user_id = 9, role = Student\<rparr>"
proof -
  have "\<exists>s'. register (\<lambda>_. True) id None ''Carol'' '' Carol@Uni.edu'' ''pw'' ''pw'' demo_site = Inr s'"
    by (simp add: register_def demo_site_def demo_account_def find_email_def norm_email_def py_lower_def
        py_strip_def data_required_def py_isspace_def ascii_lower_def)
  then obtain s' where st: "register (\<lambda>_. True) id None ''Carol'' '' Carol@Uni.edu'' ''pw'' ''pw'' demo_site = Inr s'" ..
  have "(=) ''pw'' (id ''pw'')" "(\<lambda>_. True) ''carol@uni.edu''" by simp_all
  moreover have "norm_email ''carol@uni.edu'' = norm_email '' Carol@Uni.edu''"
    by (simp add: norm_email_def py_lower_def py_strip_def py_isspace_def ascii_lower_def char_of_eq_iff eq_char_of_iff)
  ultimately have "login (\<lambda>_. True) (=) None ''carol@uni.edu'' ''pw'' st' = Inr \<lparr>user_id = next_user_id demo_site, role = Student\<rparr>"
    if "st' = s'" for st' using register_then_login [OF st] that by blast
  with st show ?thesis by (auto simp: demo_site_def)
qed

lemma find_email_None_iff: "find_email s e = None \<longleftrightarrow> (\<forall>a\<in>set (accounts s). acc_email a \<noteq> e)"
  by (auto simp: find_email_def find_None_iff)

text \<open>
  C17. A reset token carries the e-mail it was issued for. If an admin changes that
  student's e-mail before the link is used, the reset no longer finds the row and
  \<open>user.set_password\<close> on \<open>None\<close> raises (HTTP 500); without the edit the reset succeeds.
\<close>

theorem reset_after_email_change:
  assumes "users_inv s" "forgot_password (Some typed) s = Inr tok"
    and "get_account s uid = Some a" "acc_email a = tok"
    and "admin_edit_student ve cu uid n e s = Inr s'" "e \<noteq> tok"
  shows "(\<exists>s''. reset_password hp (Some tok) (Some pw) s = Inr s'') \<and>
         reset_password hp (Some tok) (Some pw) s' = Inl ServerError"
proof
  have "find_email s tok \<noteq> None" using assms(2) by (auto simp: forgot_password_def Let_def split: option.splits)
  then show "\<exists>s''. reset_password hp (Some tok) (Some pw) s = Inr s''"
    by (auto simp: reset_password_def)
next
  have s': "accounts s' = update_key acc_id uid (\<lambda>x. x\<lparr>acc_name := n, acc_email := e\<rparr>) (accounts s)"
    using admin_edit_student_Inr [OF assms(5)] by simp
  have am: "a \<in> set (accounts s)" "acc_id a = uid" using assms(3) by (auto simp: get_account_def)
  have dist: "distinct (map acc_email (accounts s))" using assms(1) by (simp add: users_inv_def)
  have "acc_email x \<noteq> tok" if x: "x \<in> set (accounts s')" for x
  proof (cases "acc_id x = uid")
    case True
    with x have "x \<in> (\<lambda>x. x\<lparr>acc_name := n, acc_email := e\<rparr>) ` set (accounts s)"
      unfolding s' by (rule update_key_mem_same) simp
    with assms(6) show ?thesis by auto
  next
    case False
    with x have "x \<in> set (accounts s)" unfolding s' by (rule update_key_mem_other) simp
    moreover have "x \<noteq> a" using False am(2) by blast
    ultimately show ?thesis using dist am(1) assms(4) by (metis inj_on_contraD distinct_map)
  qed
  then have "find_email s' tok = None" by (simp add: find_email_None_iff)
  then show "reset_password hp (Some tok) (Some pw) s' = Inl ServerError" by (simp add: reset_password_def)
qed

theorem reset_after_email_change_witness:
  "(\<exists>s''. reset_password id (Some ''alice@uni.edu'') (Some ''new'') demo_site = Inr s'') \<and>
   (\<exists>s'. admin_edit_student (\<lambda>_. True) admin 7 ''Alice'' ''alice@new.edu'' demo_site = Inr s' \<and>
        reset_password id (Some ''alice@uni.edu'') (Some ''new'') s' = Inl ServerError)"
proof -
  have inv: "users_inv demo_site" using demo_site_inv by (simp add: site_inv_def)
  have fp: "forgot_password (Some ''alice@uni.edu'') demo_site = Inr ''alice@uni.edu''"
    by (simp add: forgot_password_def norm_email_def py_lower_def py_strip_def py_isspace_def
        ascii_lower_def find_email_def demo_site_def demo_account_def)
  have ga: "get_account demo_site 7 = Some (demo_account 7 ''Alice'' ''alice@uni.edu'' Student)"
    by (simp add: get_account_def demo_site_def demo_account_def table_simps)
  have em: "acc_email (demo_account 7 ''Alice'' ''alice@uni.edu'' Student) = ''alice@uni.edu''"
    by (simp add: demo_account_def)
  have "\<exists>s'. admin_edit_student (\<lambda>_. True) admin 7 ''Alice'' ''alice@new.edu'' demo_site = Inr s'"
    by (simp add: admin_edit_student_def admin_def get_account_def demo_site_def demo_account_def
        data_required_def py_strip_def py_isspace_def table_simps)
  then obtain s' where ed: "admin_edit_student (\<lambda>_. True) admin 7 ''Alice'' ''alice@new.edu'' demo_site = Inr s'" ..
  have ne: "''alice@new.edu'' \<noteq> ''alice@uni.edu''" by simp
  from reset_after_email_change [OF inv fp ga em ed ne] ed show ?thesis by blast
qed

lemma profile_upload_Inr:
  assumes "profile sec u n (Some (fn, c)) s = Inr s'" "allowed_file fn"
  shows "\<exists>a n'. get_account s u = Some a \<and>
           s' = s\<lparr>accounts := update_key acc_id u (\<lambda>x. x\<lparr>acc_name := n', profile_pic := sec fn\<rparr>) (accounts s),
                  uploads := AList.update (sec fn) c (uploads s)\<rparr>"
  using assms by (auto simp: profile_def Let_def split: option.splits if_splits)

text \<open>
  C24. Uploaded pictures are stored under \<open>secure_filename\<close> of the client's file name,
  with no per-user prefix. When two users upload files of the same name, both rows name
  the same file and it holds the second upload: the first user's picture is replaced.
\<close>

theorem upload_name_collision:
  assumes "profile sec u1 n1 (Some (fn, c1)) s = Inr s1" "profile sec u2 n2 (Some (fn, c2)) s1 = Inr s2"
    and "allowed_file fn"
  shows "map_option profile_pic (get_account s2 u1) = Some (sec fn) \<and>
         map_option profile_pic (get_account s2 u2) = Some (sec fn) \<and>
         map_of (uploads s2) (sec fn) = Some c2"
proof -
  obtain a1 n1' where a1: "get_account s u1 = Some a1"
    and s1: "s1 = s\<lparr>accounts := update_key acc_id u1 (\<lambda>x. x\<lparr>acc_name := n1', profile_pic := sec fn\<rparr>) (accounts s),
                  uploads := AList.update (sec fn) c1 (uploads s)\<rparr>"
    using profile_upload_Inr [OF assms(1,3)] by blast
  obtain a2 n2' where a2: "get_account s1 u2 = Some a2"
    and s2: "s2 = s1\<lparr>accounts := update_key acc_id u2 (\<lambda>x. x\<lparr>acc_name := n2', profile_pic := sec fn\<rparr>) (accounts s1),
                  uploads := AList.update (sec fn) c2 (uploads s1)\<rparr>"
    using profile_upload_Inr [OF assms(2,3)] by blast
  have g1: "map_option profile_pic (get_account s1 u1) = Some (sec fn)"
    using a1 by (simp add: s1 get_account_def find_key_update_key_same)
  have "map_option profile_pic (get_account s2 u1) = Some (sec fn)"
  proof (cases "u1 = u2")
    case True
    with a2 show ?thesis by (simp add: s2 get_account_def find_key_update_key_same)
  next
    case False
    with g1 show ?thesis by (simp add: s2 get_account_def find_key_update_key_other)
  qed
  moreover have "map_option profile_pic (get_account s2 u2) = Some (sec fn)"
    using a2 by (simp add: s2 get_account_def find_key_update_key_same)
  moreover have "map_of (uploads s2) (sec fn) = Some c2" by (simp add: s2 update_conv')
  ultimately show ?thesis by blast
qed

theorem upload_name_collision_witness:
  "\<exists>s1 s2. profile id 7 None (Some (''me.png'', ''alice-photo'')) demo_site = Inr s1 \<and>
           profile id 8 None (Some (''me.png'', ''bob-photo'')) s1 = Inr s2 \<and>
           map_option profile_pic (get_account s2 7) = Some ''me.png'' \<and>
           map_of (uploads s2) ''me.png'' = Some ''bob-photo''"
proof -
  have al: "allowed_file ''me.png''"
    by (simp add: allowed_file_def file_ext_def py_lower_def ascii_lower_def allowed_extensions_def)
  have "\<exists>s1. profile id 7 None (Some (''me.png'', ''alice-photo'')) demo_site = Inr s1"
    using al by (simp add: profile_def get_account_def demo_site_def demo_account_def table_simps)
  then obtain s1 where p1: "profile id 7 None (Some (''me.png'', ''alice-photo'')) demo_site = Inr s1" ..
  have "get_account s1 8 \<noteq> None"
  proof -
    obtain a n' where "s1 = demo_site\<lparr>accounts := update_key acc_id 7
        (\<lambda>x. x\<lparr>acc_name := n', profile_pic := id ''me.png''\<rparr>) (accounts demo_site),
        uploads := AList.update (id ''me.png'') ''alice-photo'' (uploads demo_site)\<rparr>"
      using profile_upload_Inr [OF p1 al] by blast
    then show ?thesis by (simp add: get_account_def demo_site_def demo_account_def table_simps)
  qed
  with al have "\<exists>s2. profile id 8 None (Some (''me.png'', ''bob-photo'')) s1 = Inr s2"
    by (auto simp: profile_def)
  then obtain s2 where p2: "profile id 8 None (Some (''me.png'', ''bob-photo'')) s1 = Inr s2" ..
  from upload_name_collision [OF p1 p2 al] p1 p2 show ?thesis by auto
qed

text \<open>
  C21. Deleting a student leaves their orders in place with a NULL owner: the account is
  gone, the order keeps its status and quantity, every book's reservations are unchanged,
  no student can cancel the order any more, and only an admin cancel releases its copies.
\<close>

theorem deleted_student_order_orphaned:
  assumes "admin_delete_student cu uid s = Inr s'" "get_order (store s) oid = Some od"
    and "order_user_id od = uid" "user_id cu' \<noteq> null_user"
  shows "get_account s' uid = None \<and>
         get_order (store s') oid = Some (od\<lparr>order_user_id := null_user\<rparr>) \<and>
         (\<forall>b. reserved (store s') b = reserved (store s) b) \<and>
         student_cancel_order cu' oid (store s') = Inl NotAuthorized \<and>
         (get_book (store s) (order_book_id od) \<noteq> None \<longrightarrow>
            (\<exists>d'. admin_cancel_order cu oid (store s') = Inr d'))"
proof -
  note r = admin_delete_student_Inr [OF assms(1)]
  let ?g = "\<lambda>od. if order_user_id od = uid then od\<lparr>order_user_id := null_user\<rparr> else od"
  have st: "store s' = (store s)\<lparr>orders := map ?g (orders (store s)),
                                  wishlist := filter (\<lambda>p. fst p \<noteq> uid) (wishlist (store s))\<rparr>"
    using r by (simp add: delete_account_def)
  have go: "get_order (store s') oid = Some (od\<lparr>order_user_id := null_user\<rparr>)"
    using assms(2,3) by (simp add: st get_order_def find_key_map)
  have gb: "get_book (store s') = get_book (store s)" by (simp add: st get_book_def [abs_def])
  have "get_account s' uid = None" using r by (simp add: delete_account_def get_account_def find_key_delete_key_same)
  moreover have "\<forall>b. reserved (store s') b = reserved (store s) b"
    unfolding st by (simp add: reserved_reown)
  moreover have "student_cancel_order cu' oid (store s') = Inl NotAuthorized"
    using go assms(4) by (simp add: student_cancel_order_def)
  moreover have "get_book (store s) (order_book_id od) \<noteq> None \<longrightarrow>
            (\<exists>d'. admin_cancel_order cu oid (store s') = Inr d')"
    using go gb r by (auto simp: admin_cancel_order_def)
  ultimately show ?thesis using go by blast
qed

theorem deleted_student_order_orphaned_witness:
  "\<exists>s'. admin_delete_student admin 7 (demo_site\<lparr>store := demo_db2\<lparr>carts := []\<rparr>\<rparr>) = Inr s' \<and>
        get_order (store s') 1 \<noteq> None \<and>
        student_cancel_order bob 1 (store s') = Inl NotAuthorized \<and>
        (\<exists>d'. admin_cancel_order admin 1 (store s') = Inr d')"
proof -
  let ?s = "demo_site\<lparr>store := demo_db2\<lparr>carts := []\<rparr>\<rparr>"
  have "\<exists>s'. admin_delete_student admin 7 ?s = Inr s'"
    by (simp add: admin_delete_student_def admin_def get_account_def demo_site_def demo_account_def
        demo_db2_def table_simps)
  then obtain s' where del: "admin_delete_student admin 7 ?s = Inr s'" ..
  have od: "get_order (store ?s) 1 = Some \<lparr>order_id = 1, order_user_id = 7, order_book_id = 1, quantity = 2,
      status = Pending, payment_method = None, payment_status = ''unpaid''\<rparr>"
    by (simp add: get_order_def demo_db2_def table_simps)
  have "order_user_id \<lparr>order_id = 1, order_user_id = 7, order_book_id = 1, quantity = 2,
      status = Pending, payment_method = None, payment_status = ''unpaid''\<rparr> = 7"
    "user_id bob \<noteq> null_user" by (simp_all add: bob_def null_user_def)
  note o = deleted_student_order_orphaned [OF del od this]
  have "get_book (store ?s) 1 \<noteq> None" by (simp add: get_book_def demo_db2_def demo_book_def table_simps)
  with o del show ?thesis by auto
qed

lemma sorted_neg_rev: "sorted (map (\<lambda>x. - x) (zs :: int list)) \<Longrightarrow> sorted (rev zs)"
  by (induction zs) (auto simp: sorted_append)

lemma map_snd_sort_desc:
  "map snd (sort_key (\<lambda>r. - snd r) xs) = rev (sort (map snd (xs :: ('a \<times> int) list)))"
proof -
  let ?ys = "map snd (sort_key (\<lambda>r. - snd r) xs)"
  have "sorted (map (\<lambda>x. - x) ?ys)" by (simp add: comp_def)
  then have "sorted (rev ?ys)" by (rule sorted_neg_rev)
  moreover have "mset (rev ?ys) = mset (map snd xs)" by (simp only: mset_rev mset_map mset_sort)
  ultimately have "sort (map snd xs) = rev ?ys" by (intro properties_for_sort) simp_all
  then show ?thesis by simp
qed

lemma mset_take_le: "mset (take n xs) \<subseteq># mset xs"
  by (metis append_take_drop_id mset_append mset_subset_eq_add_left)

lemma zip_map_fst_snd: "zip (map fst xs) (map snd xs) = xs"
  by (induction xs) auto

text \<open>
  C25. \<open>api_stats\<close> is admin-only. Each returned title comes with its own book's order
  total: the (title, total) rows are a sub-multiset of the rows of the books with
  orders, so no row is invented or repeated. At most five are returned, and the totals
  are the five largest in descending order. The totals sum every order of the book,
  canceled ones included.
\<close>

theorem api_stats_top_totals:
  assumes "api_stats cu d = Inr (ls, vs)"
  shows "role cu = Admin \<and> length ls = length vs \<and> length vs \<le> 5 \<and>
         mset (zip ls vs) \<subseteq># mset (map (\<lambda>b. (title b, book_total d (book_id b))) (ordered_books d)) \<and>
         vs = take 5 (rev (sort (map (\<lambda>b. book_total d (book_id b)) (ordered_books d))))"
proof -
  have r: "role cu = Admin" "ls = map fst (stats_rows d)" "vs = map snd (stats_rows d)"
    using assms by (auto simp: api_stats_def split: if_splits)
  have top: "map snd (stats_rows d) =
      take 5 (rev (sort (map (\<lambda>b. book_total d (book_id b)) (ordered_books d))))"
    by (simp add: stats_rows_def take_map [symmetric] map_snd_sort_desc comp_def)
  have sub: "mset (stats_rows d) \<subseteq>#
      mset (map (\<lambda>b. (title b, book_total d (book_id b))) (ordered_books d))"
  proof -
    let ?xs = "map (\<lambda>b. (title b, book_total d (book_id b))) (ordered_books d)"
    have "mset (take 5 (sort_key (\<lambda>r. - snd r) ?xs)) \<subseteq># mset (sort_key (\<lambda>r. - snd r) ?xs)"
      by (rule mset_take_le)
    then show ?thesis unfolding stats_rows_def by (simp only: mset_sort)
  qed
  have z: "zip ls vs = stats_rows d" unfolding r(2,3) by (rule zip_map_fst_snd)
  have len: "length (stats_rows d) \<le> 5" by (simp add: stats_rows_def)
  show ?thesis
  proof (intro conjI)
    show "role cu = Admin" by (fact r(1))
    show "length ls = length vs" by (simp add: r(2,3))
    show "length vs \<le> 5" using len by (simp add: r(3))
    show "mset (zip ls vs) \<subseteq># mset (map (\<lambda>b. (title b, book_total d (book_id b))) (ordered_books d))"
      unfolding z by (fact sub)
    show "vs = take 5 (rev (sort (map (\<lambda>b. book_total d (book_id b)) (ordered_books d))))"
      unfolding r(3) by (fact top)
  qed
qed

theorem api_stats_top_totals_witness:
  "api_stats admin demo_db2 = Inr ([''TAOCP'', ''SICP''], [4, 2])"
proof -
  have "\<exists>ls vs. api_stats admin demo_db2 = Inr (ls, vs)" by (simp add: api_stats_def admin_def)
  then obtain ls vs where st: "api_stats admin demo_db2 = Inr (ls, vs)" by blast
  have ls: "ls = [''TAOCP'', ''SICP'']"
    using st by (simp add: api_stats_def admin_def stats_rows_def ordered_books_def book_total_def
        demo_db2_def demo_book_def)
  from api_stats_top_totals [OF st] have "vs = [4, 2]"
    by (simp add: ordered_books_def book_total_def demo_db2_def demo_book_def)
  with st ls show ?thesis by simp
qed

end
