(* ===== verification/Spec2Isabelle.thy ===== *)
theory Spec2Isabelle
  imports Requests Search Concurrency Release Users
begin

text \<open>
  \<^bold>\<open>Online-BookStore: a verification of the inventory ledger and the user accounts.\<close>

  The program is a Flask application (\<open>src/app.py\<close>) over SQLAlchemy models
  (\<open>src/models.py\<close>) and WTForms forms (\<open>src/forms.py\<close>). Students order books,
  keep a cart, check it out, request books that are not in the catalogue and keep a
  wishlist. Administrators manage the catalogue, move orders through their life cycle
  and decide book requests. Every handler reads rows, changes them and commits once.
  The central data is a per-book pair of counters, \<open>total_copies\<close> and
  \<open>available_copies\<close>. Each place that reserves copies (an order, a cart line) debits
  \<open>available_copies\<close>, and each place that gives them back credits it.

  \<^bold>\<open>The model.\<close> It is a shallow embedding with explicit state passing.
  The database is the record \<^typ>\<open>db\<close>: one list of row records per table, and the
  next value of each auto-increment key. Each handler is a function
  \<open>user \<Rightarrow> \<dots> \<Rightarrow> db \<Rightarrow> error + db\<close>. An \<open>Inl\<close> is an early return (a flash and
  a redirect, an abort), and nothing is committed on that path. An \<open>Inr\<close> is the
  committed state. Form fields are raw strings, parsed by a model of Python's
  \<open>int()\<close>. The theories, in import order:
  \<^item> \<open>Prelude\<close>: tables as keyed lists (\<open>find_key\<close>, \<open>update_key\<close>, \<open>delete_key\<close>),
    the key discipline \<open>keys_ok\<close>, and the lemmas on lookups, updates and sums that
    every component uses.
  \<^item> \<open>PyInt\<close>: \<open>int()\<close> on a form string (\<open>py_int\<close>: strip, sign, digits with
    single underscores) and \<open>int(request.form.get(name, default))\<close> (\<open>form_int\<close>),
    with \<open>None\<close> standing for a \<open>ValueError\<close>. It also models \<open>str()\<close> of an
    integer and proves the round trip \<open>py_int (py_str i) = Some i\<close>.
  \<^item> \<open>Models\<close>: the tables of \<open>src/models.py\<close> (\<open>User\<close>, \<open>Book\<close>, \<open>Order\<close>,
    \<open>Cart\<close>, \<open>BookRequest\<close>, the wishlist) as records, the enumerations as
    datatypes, and the row accessors that the handlers share.
  \<^item> \<open>Ledger\<close>: the inventory invariant \<open>inventory_inv\<close>. It combines well-formed
    keys (\<open>wf_db\<close>); conservation (\<open>conserved\<close>: available plus the copies held by
    cart lines and by pending or approved orders equals total); positive quantities
    on every holding row; and non-negative stock. The theory shows that the
    invariant gives \<open>0 \<le> available \<le> total\<close> (\<open>stock_ok\<close>). It holds the frame
    lemmas and the generic step obligation \<open>inventory_inv_step\<close> that each handler
    discharges, and two sample databases.
  \<^item> \<open>Cart\<close>: \<open>add_to_cart\<close>, \<open>remove_from_cart\<close> and the dashboard's \<open>cart_count\<close>.
  \<^item> \<open>Orders\<close>: \<open>place_order\<close>, \<open>student_edit_order\<close>, \<open>student_cancel_order\<close>,
    \<open>admin_approve_order\<close> and \<open>admin_cancel_order\<close>.
  \<^item> \<open>Checkout\<close>: \<open>cart_checkout\<close>. Each cart line becomes a pending order
    (\<open>checkout_items\<close>, structural recursion over the lines), and no stock moves.
  \<^item> \<open>Catalog\<close>: \<open>admin_add_book\<close> and \<open>admin_edit_book\<close> with the \<open>BookForm\<close>, and
    \<open>admin_delete_book\<close>. The delete follows SQLAlchemy's flush: the wishlist rows
    go, each order's \<open>book_id\<close> becomes NULL (the key 0, \<open>null_book\<close>), and a
    cart line on the book fails the commit.
  \<^item> \<open>Requests\<close>: \<open>request_book\<close> with the \<open>RequestBookForm\<close>,
    \<open>admin_approve_request\<close>, \<open>admin_reject_request\<close> and \<open>toggle_wishlist\<close>. It
    also holds the specification's request state machine as the inductive
    \<open>spec_request_step\<close>.
  \<^item> \<open>Search\<close>: the filter of \<open>catalog()\<close>, as SQLite's \<open>lower(a) LIKE lower(p)\<close>
    (\<open>sql_like\<close>, \<open>ascii_lower\<close>, \<open>catalog_search\<close>). It is compared with the
    specification's substring filter \<open>spec_search\<close>.
  \<^item> \<open>System\<close>: the dispatch \<open>handle\<close> over a request datatype with one constructor
    per modelled route. \<open>step\<close> keeps the old state on an error, and \<open>run\<close> serves
    a list of requests in sequence. The theory defines the reachable states of sane
    requests (an inductive predicate) and proves the system invariant by rule
    induction.
  \<^item> \<open>Concurrency\<close>: \<open>place_order\<close> split into a read phase and a write phase
    (\<open>place_order_read\<close>, \<open>place_order_write\<close>), the same split the SQLAlchemy session
    makes. Schedules of several workers' events run by \<open>exec_sched\<close>.
    \<open>add_to_cart\<close> is split the same way
    (\<open>add_to_cart_read\<close>, \<open>add_to_cart_write\<close>), and both splits are proved equal
    to their handlers when the write directly follows the read.
  \<^item> \<open>Release\<close>: progress. In every sane-reachable state each order and cart line
    names an existing book (\<open>refs_exist\<close>). The request list \<open>release_requests\<close>,
    which removes every cart line and admin-cancels every active order, is a sane run
    that returns every copy.
  \<^item> \<open>Users\<close>: the user table and its handlers. The state is the record \<open>site\<close>:
    the account rows (\<open>account\<close>, from \<open>class User\<close>), the next account key, the
    upload folder as an association list from file name to content, and the \<^typ>\<open>db\<close>
    of the other theories. It models \<open>register\<close>, \<open>login\<close>, \<open>profile\<close> with the
    picture upload and \<open>allowed_file\<close>, \<open>forgot_password\<close>, \<open>reset_password\<close>,
    \<open>admin_edit_student\<close>, \<open>admin_delete_student\<close>, \<open>admin_students\<close>, the
    top-5 query of \<open>api_stats\<close>, and the start-up admin seed. The library calls
    are parameters: the \<open>Email()\<close> validator, \<open>bcrypt\<close>'s \<open>hashpw\<close> and
    \<open>checkpw\<close>, and \<open>secure_filename\<close>. The signed reset token is modelled by
    the e-mail it carries. Deleting a student follows SQLAlchemy's flush: orders get
    a NULL owner (\<open>null_user\<close>), wishlist rows go, and a cart line or book request
    fails the commit. \<open>account_step\<close> dispatches the writing handlers.

  \<^bold>\<open>What is proved.\<close> Every handler keeps \<open>inventory_inv\<close>, under the
  condition stated in its theorem. The handlers' effects are stated on every branch
  through their \<open>_Inr\<close> characterisations: what is debited or credited, which rows
  change, and the edit bound as an equivalence. The round trips hold: add then remove a
  cart line, place then cancel an order, toggle the wishlist twice, and resubmit the
  prefilled edit form. Search without wildcards equals the substring specification. On
  a pending request, approving and rejecting each take their own step of the
  specification's state machine.

  The main theorem, \<open>System.sane_run_ledger_sound\<close>, states that every run of sane
  requests from the empty database keeps the invariant and the stock bounds.
  \<open>System.run_keeps_wf\<close> states that every run at all keeps the keys well formed.
  \<open>Release.reservations_always_releasable\<close> states that from every sane-reachable
  state all reservations can be released, so the ledger never gets stuck.
  In \<open>Concurrency\<close>, from any valid state two interleaved orders lose an update,
  and two concurrent adds of one book to one cart insert two lines for the same user
  and book. The specification's atomic conditional update is not modelled: the code
  has no such write.
  In \<open>Users\<close>, every account handler keeps \<open>site_inv\<close>: unique keys and e-mails,
  valid foreign keys into the user table, and the inventory invariant. A registration
  followed by a login with the same e-mail, in any spacing and case, signs in the new
  student. \<open>api_stats\<close> returns the five largest order totals in descending order,
  each with its own book's title.

  Where a condition is needed, the code does not check it, and a closed theorem
  evaluates the failure on a concrete database:
  \<^item> a negative quantity in \<open>place_order\<close> and \<open>add_to_cart\<close>;
  \<^item> no role check in \<open>add_to_cart\<close>;
  \<^item> no status check in \<open>admin_cancel_order\<close>, so cancelling twice credits twice;
  \<^item> approving a cancelled order;
  \<^item> a negative total in \<open>admin_add_book\<close>;
  \<^item> \<open>admin_edit_book\<close>, which rewrites the total without adjusting the available
    copies;
  \<^item> request decisions that ignore the current status;
  \<^item> unescaped \<open>%\<close> and \<open>_\<close> in the search query;
  \<^item> the lost update between concurrent orders, and the duplicate cart line of two
    concurrent adds;
  \<^item> deleting a book with a pending order, which orphans the order so that it can
    never be cancelled;
  \<^item> \<open>admin_edit_student\<close>, which stores an e-mail without normalising it, so the
    student can no longer log in, and which makes an issued reset link fail with
    HTTP 500;
  \<^item> picture uploads under the client's file name, so that one user's upload replaces
    another's picture;
  \<^item> deleting a student, whose orders keep their copies with an owner no student can
    act for.

  \<^bold>\<open>Bounds and fuel.\<close> None are needed. Every definition is total by
  structural recursion (lists of rows, requests and events, strings) or by the
  lexicographic order that \<open>fun\<close> finds for \<open>sql_like\<close> and \<open>nat_str\<close>, so
  there is no fuel. So the development has no separate termination theorem: every
  handler, \<open>run\<close> and \<open>exec_sched\<close> is total by construction. A run is a finite list of requests, and a schedule a finite list
  of events.

  \<^bold>\<open>Not modelled.\<close>
  \<^item> Rendering, flash messages, redirects and the session of Flask-Login
    (\<open>logout\<close> only ends the session). Password hashing, the e-mail validator,
    \<open>secure_filename\<close> and the token signature are library code and enter the model
    as parameters or as the token's payload. Sending mail and writing files are I/O;
    an upload is the pair of file name and content that lands in the folder.
  \<^item> The read-only pages (\<open>index\<close>, \<open>catalog\<close> listing, dashboards, \<open>cart\<close>,
    \<open>admin_requests\<close>) beyond the queries that other handlers share. They change no
    state.
  \<^item> Python's \<open>str.lower()\<close> beyond ASCII: \<open>py_lower\<close> folds ASCII letters only.
    No non-ASCII character lowers to an ASCII capital, so the lock-out theorem on ASCII
    capitals is unaffected.
  \<^item> Interleavings of handlers other than \<open>place_order\<close> and \<open>add_to_cart\<close>.
    \<open>student_edit_order\<close> and the cancels are read-modify-writes of the same shape,
    and their races are the lost update already shown.
\<close>

end
